theory Spec2Isabelle
  imports Complex_Main "HOL-Library.AList"
begin

section \<open>Common ground of the services\<close>

text \<open>
  Every service of the repository is a class that extends \<open>BaseService\<close>, keeps its
  entities in \<open>Map\<close>s keyed by generated ids, and answers \<open>process(message)\<close> by a
  switch on \<open>message.type\<close>. The embedding is by explicit state passing: a service is a
  record of its stores, a handler takes the state and returns the response together with
  the new state, and a raised \<open>TypeError\<close> is the left summand of the result.

  Numbers (\<open>number\<close>) are reals: doubles without rounding and without overflow.
  A number that the code computes from an untyped payload value can also be \<open>NaN\<close> or
  infinite; such a number has the type \<open>number\<close> of the subsection on numbers.
  A string is a list of 8-bit characters, read as the code units below 256.
  A \<open>Map<string, T>\<close> is an association list in insertion order; \<open>Map.set\<close> is
  \<open>AList.update\<close> (an existing key keeps its position, a new key goes last),
  \<open>Map.get\<close> is \<open>map_of\<close> and \<open>Map.values()\<close> is \<open>map snd\<close>. An object held in a map
  is referenced from nowhere else, so a mutation of the object found under a key is the
  update of that key.
\<close>

subsection \<open>Untyped values\<close>

text \<open>
  A payload field whose type the code does not fix is a JSON value, or \<open>undefined\<close>
  when the field is absent. An object is the list of its own properties, of which the
  first with a given name counts.
\<close>

datatype jsval =
    JUndefined
  | JNull
  | JBool bool
  | JNum real
  | JStr string
  | JArr "jsval list"
  | JObj "(string \<times> jsval) list"

datatype error = TypeError string

text \<open>Truthiness, as \<open>||\<close>, \<open>&&\<close> and \<open>if\<close> read a value.\<close>

fun truthy :: "jsval \<Rightarrow> bool" where
  "truthy JUndefined = False"
| "truthy JNull = False"
| "truthy (JBool b) = b"
| "truthy (JNum r) = (r \<noteq> 0)"
| "truthy (JStr s) = (s \<noteq> [])"
| "truthy (JArr xs) = True"
| "truthy (JObj kvs) = True"

text \<open>
  Property access \<open>v.k\<close> for the property names the handlers read (\<open>id\<close>, \<open>name\<close>,
  \<open>role\<close>, \<open>dependencies\<close>, \<open>data\<close>, \<open>content\<close>, \<open>result\<close>, \<open>metadata\<close>, \<open>source\<close>,
  \<open>value\<close>, \<open>type\<close>): it raises on \<open>undefined\<close> and \<open>null\<close>, reads an object's own
  field and is \<open>undefined\<close> on every other value.
\<close>

fun prop_of :: "jsval \<Rightarrow> string \<Rightarrow> error + jsval" where
  "prop_of JUndefined k = Inl (TypeError ''Cannot read properties of undefined'')"
| "prop_of JNull k = Inl (TypeError ''Cannot read properties of null'')"
| "prop_of (JObj kvs) k = Inr (case map_of kvs k of Some v \<Rightarrow> v | None \<Rightarrow> JUndefined)"
| "prop_of v k = Inr JUndefined"

text \<open>\<open>Object.keys(v || {}).length\<close>.\<close>

fun keys_count :: "jsval \<Rightarrow> nat" where
  "keys_count (JObj kvs) = length (remdups (map fst kvs))"
| "keys_count (JArr xs) = length xs"
| "keys_count (JStr s) = length s"
| "keys_count v = 0"

text \<open>\<open>typeof v === 'object'\<close>.\<close>

fun is_object :: "jsval \<Rightarrow> bool" where
  "is_object (JObj kvs) = True"
| "is_object (JArr xs) = True"
| "is_object JNull = True"
| "is_object v = False"

text \<open>\<open>a || b\<close> on untyped values.\<close>

definition js_or :: "jsval \<Rightarrow> jsval \<Rightarrow> jsval" where
  "js_or a b = (if truthy a then a else b)"

text \<open>\<open>v === undefined || v === null\<close>, the test of \<open>??\<close> and \<open>?.\<close>.\<close>

fun nullish :: "jsval \<Rightarrow> bool" where
  "nullish JUndefined = True"
| "nullish JNull = True"
| "nullish v = False"

subsection \<open>Errors\<close>

text \<open>Sequencing of computations that may raise: the first error ends the computation.\<close>

fun and_then :: "error + 'a \<Rightarrow> ('a \<Rightarrow> error + 'b) \<Rightarrow> error + 'b" where
  "and_then (Inl err) f = Inl err"
| "and_then (Inr x) f = f x"

text \<open>\<open>xs.map(f)\<close> with a callback that may raise: the elements are visited in order.\<close>

fun map_err :: "('a \<Rightarrow> error + 'b) \<Rightarrow> 'a list \<Rightarrow> error + 'b list" where
  "map_err f [] = Inr []"
| "map_err f (x # xs) = and_then (f x) (\<lambda>y. and_then (map_err f xs) (\<lambda>ys. Inr (y # ys)))"

subsection \<open>Numbers that may be NaN\<close>

text \<open>
  The value of a JavaScript expression of type \<open>number\<close>: \<open>NaN\<close>, an infinity or a
  finite number. A comparison with \<open>NaN\<close> is false, and \<open>Math.min\<close>, \<open>Math.max\<close> and
  \<open>-\<close> return \<open>NaN\<close> as soon as an operand is \<open>NaN\<close>.
\<close>

datatype number = NaN | NegInfinity | Finite real | PosInfinity

fun num_less :: "number \<Rightarrow> number \<Rightarrow> bool" where
  "num_less NaN y = False"
| "num_less x NaN = False"
| "num_less PosInfinity y = False"
| "num_less x NegInfinity = False"
| "num_less NegInfinity y = True"
| "num_less x PosInfinity = True"
| "num_less (Finite a) (Finite b) = (a < b)"

text \<open>\<open>x >= y\<close>.\<close>

definition num_ge :: "number \<Rightarrow> number \<Rightarrow> bool" where
  "num_ge x y = (x \<noteq> NaN \<and> y \<noteq> NaN \<and> \<not> num_less x y)"

definition math_min :: "number \<Rightarrow> number \<Rightarrow> number" where
  "math_min x y = (if x = NaN \<or> y = NaN then NaN else if num_less y x then y else x)"

definition math_max :: "number \<Rightarrow> number \<Rightarrow> number" where
  "math_max x y = (if x = NaN \<or> y = NaN then NaN else if num_less x y then y else x)"

text \<open>\<open>x - y\<close>.\<close>

fun num_sub :: "number \<Rightarrow> number \<Rightarrow> number" where
  "num_sub NaN y = NaN"
| "num_sub x NaN = NaN"
| "num_sub PosInfinity PosInfinity = NaN"
| "num_sub NegInfinity NegInfinity = NaN"
| "num_sub PosInfinity y = PosInfinity"
| "num_sub NegInfinity y = NegInfinity"
| "num_sub (Finite a) PosInfinity = NegInfinity"
| "num_sub (Finite a) NegInfinity = PosInfinity"
| "num_sub (Finite a) (Finite b) = Finite (a - b)"

text \<open>The number lies in \<open>[0, 1]\<close>.\<close>

fun in_unit_interval :: "number \<Rightarrow> bool" where
  "in_unit_interval (Finite x) = (0 \<le> x \<and> x \<le> 1)"
| "in_unit_interval v = False"

subsection \<open>Optional fields and their defaults\<close>

text \<open>
  A request payload is an object, the parsed body of a request, and a handler
  destructures the fields it expects and hands them to helpers with declared parameter
  types. Besides the fields that the source types \<open>any\<close>, six fields are untyped
  values here: \<open>components\<close>, \<open>targetChannels\<close>, \<open>skillName\<close>, \<open>integrations\<close>,
  \<open>segment\<close> and \<open>newProficiency\<close>. On them the code calls a method (\<open>map\<close>,
  \<open>filter\<close>, \<open>toLowerCase\<close>, \<open>push\<close>, \<open>includes\<close>) or \<open>Math.min\<close>, which raises or
  gives \<open>NaN\<close> on a value of another type than the declared one, and the model does
  what the code does there. Every other field is only stored, compared, printed or
  read for a property, none of which raises on a number, a string, a boolean, \<open>null\<close>,
  an array or an object without a \<open>toString\<close> property of its own; such a field is
  modelled at its declared type, \<open>None\<close> standing for an absent (\<open>undefined\<close> or
  \<open>null\<close>) field. \<open>str_or s d\<close> is \<open>s || d\<close> on strings (the empty string is falsy),
  \<open>opt_or x d\<close> is \<open>x ?? d\<close>, and also \<open>x || d\<close> on arrays and dates, which are always
  truthy.
\<close>

fun str_or :: "string option \<Rightarrow> string \<Rightarrow> string" where
  "str_or None d = d"
| "str_or (Some s) d = (if s = [] then d else s)"

fun opt_or :: "'a option \<Rightarrow> 'a \<Rightarrow> 'a" where
  "opt_or None d = d"
| "opt_or (Some x) d = x"

subsection \<open>Strings\<close>

text \<open>Template literals print a number in decimal.\<close>

definition digit_char :: "nat \<Rightarrow> char" where
  "digit_char n = ''0123456789'' ! n"

fun show_nat :: "nat \<Rightarrow> string" where
  "show_nat n = (if n < 10 then [digit_char n] else show_nat (n div 10) @ [digit_char (n mod 10)])"

declare show_nat.simps [simp del]

text \<open>
  \<open>toLowerCase\<close> and \<open>String.prototype.includes\<close>. Of the code units below 256, the
  upper-case letters are \<open>A\<close> to \<open>Z\<close> (65 to 90) and the accented capitals 192 to 222
  without the multiplication sign 215; the lower-case letter of each is 32 above it.
\<close>

definition lower_char :: "char \<Rightarrow> char" where
  "lower_char c =
     (let n = (of_char c :: nat)
      in if (65 \<le> n \<and> n \<le> 90) \<or> (192 \<le> n \<and> n \<le> 222 \<and> n \<noteq> 215) then char_of (n + 32)
         else c)"

definition toLowerCase :: "string \<Rightarrow> string" where
  "toLowerCase s = map lower_char s"

fun startsWith :: "string \<Rightarrow> string \<Rightarrow> bool" where
  "startsWith s [] = True"
| "startsWith [] (c # cs) = False"
| "startsWith (d # ds) (c # cs) = (d = c \<and> startsWith ds cs)"

fun includes_str :: "string \<Rightarrow> string \<Rightarrow> bool" where
  "includes_str [] sub = (sub = [])"
| "includes_str (d # ds) sub = (startsWith (d # ds) sub \<or> includes_str ds sub)"

text \<open>\<open>xs.slice(-n)\<close>: the last \<open>n\<close> elements, all of them when there are fewer.\<close>

definition slice_last :: "nat \<Rightarrow> 'a list \<Rightarrow> 'a list" where
  "slice_last n xs = drop (length xs - n) xs"

subsection \<open>Conversion to a number\<close>

text \<open>
  \<open>Math.min\<close> and \<open>Math.max\<close> convert their arguments with \<open>ToNumber\<close>. On a string
  that is \<open>StringToNumber\<close>: white space is trimmed from both ends, the empty string is
  \<open>0\<close>, and what is left must be a binary, octal or hexadecimal integer (\<open>0b\<close>, \<open>0o\<close>,
  \<open>0x\<close>, unsigned), \<open>Infinity\<close> with an optional sign, or a decimal literal with an
  optional sign, fraction and exponent; every other string is \<open>NaN\<close>.
\<close>

definition is_whitespace :: "char \<Rightarrow> bool" where
  "is_whitespace c = (of_char c \<in> set [9, 10, 11, 12, 13, 32, 160 :: nat])"

definition trim :: "string \<Rightarrow> string" where
  "trim s = rev (dropWhile is_whitespace (rev (dropWhile is_whitespace s)))"

definition digit_of :: "nat \<Rightarrow> char \<Rightarrow> nat option" where
  "digit_of b c =
     (case map_of (zip ''0123456789abcdefABCDEF''
                     [0, 1, 2, 3, 4, 5, 6, 7, 8, 9, 10, 11, 12, 13, 14, 15, 10, 11, 12, 13, 14, 15])
             c of
        Some d \<Rightarrow> (if d < b then Some d else None)
      | None \<Rightarrow> None)"

fun digits_value :: "nat \<Rightarrow> string \<Rightarrow> nat \<Rightarrow> nat option" where
  "digits_value b [] acc = Some acc"
| "digits_value b (c # cs) acc =
     (case digit_of b c of
        None \<Rightarrow> None
      | Some d \<Rightarrow> digits_value b cs (acc * b + d))"

text \<open>A non-empty sequence of digits of base \<open>b\<close>.\<close>

definition numeral_value :: "nat \<Rightarrow> string \<Rightarrow> nat option" where
  "numeral_value b s = (if s = [] then None else digits_value b s 0)"

text \<open>
  The part of a string before the first character that satisfies \<open>P\<close>, and the part
  after it when there is such a character.
\<close>

definition split_at :: "(char \<Rightarrow> bool) \<Rightarrow> string \<Rightarrow> string \<times> string option" where
  "split_at P s =
     (let rest = dropWhile (\<lambda>c. \<not> P c) s
      in (takeWhile (\<lambda>c. \<not> P c) s, if rest = [] then None else Some (tl rest)))"

text \<open>An optional sign: whether it is \<open>-\<close>, and what follows it.\<close>

fun signed :: "string \<Rightarrow> bool \<times> string" where
  "signed [] = (False, [])"
| "signed (c # cs) =
     (if c = CHR ''-'' then (True, cs) else if c = CHR ''+'' then (False, cs) else (False, c # cs))"

text \<open>
  An unsigned decimal literal: digits with an optional fraction, or a fraction alone,
  then an optional exponent.
\<close>

definition decimal_value :: "string \<Rightarrow> real option" where
  "decimal_value s =
     (case split_at (\<lambda>c. c = CHR ''e'' \<or> c = CHR ''E'') s of (mantissa, exponent) \<Rightarrow>
      case split_at (\<lambda>c. c = CHR ''.'') mantissa of (whole, fraction) \<Rightarrow>
        (let frac = (case fraction of None \<Rightarrow> [] | Some f \<Rightarrow> f)
         in if whole = [] \<and> frac = [] then None
            else case (digits_value 10 whole 0, digits_value 10 frac 0) of
                (Some i, Some f) \<Rightarrow>
                  (let m = real i + real f / 10 ^ length frac
                   in case exponent of
                        None \<Rightarrow> Some m
                      | Some x \<Rightarrow>
                          (case numeral_value 10 (snd (signed x)) of
                             None \<Rightarrow> None
                           | Some n \<Rightarrow> Some (if fst (signed x) then m / 10 ^ n else m * 10 ^ n)))
              | _ \<Rightarrow> None))"

text \<open>The base and the digits of a literal that starts with \<open>0b\<close>, \<open>0o\<close> or \<open>0x\<close>.\<close>

fun prefixed :: "string \<Rightarrow> (nat \<times> string) option" where
  "prefixed (z # p # ds) =
     (if z \<noteq> CHR ''0'' then None
      else if p = CHR ''x'' \<or> p = CHR ''X'' then Some (16, ds)
      else if p = CHR ''o'' \<or> p = CHR ''O'' then Some (8, ds)
      else if p = CHR ''b'' \<or> p = CHR ''B'' then Some (2, ds)
      else None)"
| "prefixed s = None"

definition string_to_number :: "string \<Rightarrow> number" where
  "string_to_number s =
     (let t = trim s
      in if t = [] then Finite 0
         else case prefixed t of
             Some (b, ds) \<Rightarrow>
               (case numeral_value b ds of None \<Rightarrow> NaN | Some n \<Rightarrow> Finite (real n))
           | None \<Rightarrow>
               (if snd (signed t) = ''Infinity''
                then (if fst (signed t) then NegInfinity else PosInfinity)
                else case decimal_value (snd (signed t)) of
                    None \<Rightarrow> NaN
                  | Some v \<Rightarrow> Finite (if fst (signed t) then - v else v)))"

text \<open>
  An object or an array is first converted to a primitive. A parsed JSON object has no
  callable property of its own, so it prints as \<open>[object Object]\<close> through the
  inherited \<open>toString\<close>, unless it has an own property \<open>toString\<close>, which hides the
  inherited one: then the conversion raises. An array prints as the join of its
  elements, so it raises when the printing of an element does.
\<close>

fun unprintable :: "jsval \<Rightarrow> bool" where
  "unprintable (JObj kvs) = (''toString'' \<in> set (map fst kvs))"
| "unprintable (JArr xs) = list_ex unprintable xs"
| "unprintable v = False"

text \<open>
  The number that the join of an array converts to, when it prints. The join of two or
  more elements contains a comma and is \<open>NaN\<close>; the join of none is the empty string;
  the join of one element is that element printed, \<open>null\<close> and \<open>undefined\<close> as the
  empty string, a number as a literal that converts back to it.
\<close>

fun array_number :: "jsval list \<Rightarrow> number"
  and element_number :: "jsval \<Rightarrow> number" where
  "array_number [] = Finite 0"
| "array_number [x] = element_number x"
| "array_number (x # y # zs) = NaN"
| "element_number JUndefined = Finite 0"
| "element_number JNull = Finite 0"
| "element_number (JBool b) = NaN"
| "element_number (JNum r) = Finite r"
| "element_number (JStr s) = string_to_number s"
| "element_number (JArr xs) = array_number xs"
| "element_number (JObj kvs) = NaN"

definition to_number :: "jsval \<Rightarrow> error + number" where
  "to_number v =
     (case v of
        JUndefined \<Rightarrow> Inr NaN
      | JNull \<Rightarrow> Inr (Finite 0)
      | JBool b \<Rightarrow> Inr (Finite (if b then 1 else 0))
      | JNum r \<Rightarrow> Inr (Finite r)
      | JStr s \<Rightarrow> Inr (string_to_number s)
      | JArr xs \<Rightarrow>
          (if unprintable v then Inl (TypeError ''Cannot convert object to primitive value'')
           else Inr (array_number xs))
      | JObj kvs \<Rightarrow>
          (if unprintable v then Inl (TypeError ''Cannot convert object to primitive value'')
           else Inr NaN))"

subsection \<open>Conversion to a string\<close>

text \<open>
  A template literal prints a value with \<open>ToString\<close>: a string as it is, \<open>undefined\<close>,
  \<open>null\<close> and the booleans by name, an object as \<open>[object Object]\<close> and an array as
  the join of its elements with commas, where \<open>null\<close> and \<open>undefined\<close> print as the
  empty string. It raises on the values that do not print. \<open>pr\<close> is the text of a
  number, \<open>Number.prototype.toString\<close>.
\<close>

fun js_string :: "(real \<Rightarrow> string) \<Rightarrow> jsval \<Rightarrow> string"
  and js_join :: "(real \<Rightarrow> string) \<Rightarrow> jsval list \<Rightarrow> string" where
  "js_string pr JUndefined = ''undefined''"
| "js_string pr JNull = ''null''"
| "js_string pr (JBool b) = (if b then ''true'' else ''false'')"
| "js_string pr (JNum r) = pr r"
| "js_string pr (JStr s) = s"
| "js_string pr (JArr xs) = js_join pr xs"
| "js_string pr (JObj kvs) = ''[object Object]''"
| "js_join pr [] = []"
| "js_join pr [x] = (if nullish x then [] else js_string pr x)"
| "js_join pr (x # y # zs) =
     (if nullish x then [] else js_string pr x) @ '','' @ js_join pr (y # zs)"

definition to_string :: "(real \<Rightarrow> string) \<Rightarrow> jsval \<Rightarrow> error + string" where
  "to_string pr v =
     (if unprintable v then Inl (TypeError ''Cannot convert object to primitive value'')
      else Inr (js_string pr v))"

subsection \<open>The environment of one call\<close>

text \<open>
  A call reads the wall clock (\<open>Date.now()\<close>, \<open>new Date()\<close>) and draws random numbers
  (\<open>Math.random()\<close>). Both are inputs of the model: \<open>now e k\<close> is the reading of the
  \<open>k\<close>-th clock slot of the call and \<open>rand e k\<close> the \<open>k\<close>-th draw. Slots are numbered
  in program order; a slot whose read the code skips stays unused. Nothing is assumed of
  the readings: the clock may stand still (two ids generated in the same millisecond are
  equal) and a theorem that needs a clock that does not run backwards says so. The
  text in which the runtime prints a number of a payload is an input as well,
  \<open>print_number e\<close>, of which nothing is assumed either.
\<close>

record env =
  now :: "nat \<Rightarrow> nat"
  rand :: "nat \<Rightarrow> real"
  fresh_id :: string
  print_number :: "real \<Rightarrow> string"

subsection \<open>Messages and the base class\<close>

text \<open>
  Modelled from the spec: \<open>ServiceMessage\<close>, declared in the shared library
  \<open>@cosmos/cognitive-core-shared-libraries\<close>, which is not among the sources. An
  envelope has an id, a type tag, a payload, the logical sender and receiver and a
  creation time.
\<close>

record 'p service_message =
  msg_id :: string
  msg_type :: string
  payload :: 'p
  msg_source :: string
  destination :: string
  timestamp :: nat

text \<open>
  Modelled from the spec: \<open>createMessage(type, payload, source, destination)\<close> of the
  same library. It always succeeds and assigns a fresh id and the creation time, which
  are taken here from the environment: the id is \<open>fresh_id\<close> and the time is the clock
  slot \<open>k\<close>.
\<close>

definition createMessage ::
  "env \<Rightarrow> nat \<Rightarrow> string \<Rightarrow> 'p \<Rightarrow> string \<Rightarrow> string \<Rightarrow> 'p service_message" where
  "createMessage e k ty p src dst =
     \<lparr>msg_id = fresh_id e, msg_type = ty, payload = p, msg_source = src,
      destination = dst, timestamp = now e k\<rparr>"

text \<open>
  Modelled from the spec: \<open>BaseService\<close> of the same library. A service holds its
  configuration, of which the handlers read \<open>config.serviceName\<close>, and a log.
\<close>

record base_service =
  serviceName :: string
  logs :: "(string \<times> string) list"

text \<open>
  Modelled from the spec: \<open>BaseService.log(level, message, meta)\<close>, which records the
  level and the text of a line; it does nothing else to the service.
\<close>

definition log_line :: "string \<Rightarrow> string \<Rightarrow> ('a base_service_scheme) \<Rightarrow> ('a base_service_scheme)" where
  "log_line level text s = s\<lparr>logs := logs s @ [(level, text)]\<rparr>"

text \<open>\<open>processingTime: Date.now() - startTime\<close>, a difference of two clock readings.\<close>

definition elapsed :: "env \<Rightarrow> nat \<Rightarrow> int" where
  "elapsed e k = int (now e k) - int (now e 0)"

text \<open>
  The result of \<open>process\<close> is a promise: \<open>Inr (Some r)\<close> when it resolves to a
  response, \<open>Inr None\<close> when it resolves to \<open>null\<close> and \<open>Inl err\<close> when it rejects.
  Every handler is an \<open>async\<close> function, so an error raised inside it rejects the
  promise the handler returns, and \<open>process\<close> returns that promise without awaiting
  it (\<open>return this.handle...(message, startTime)\<close>): the error passes to the caller of
  \<open>process\<close>, and the \<open>catch\<close> clause of \<open>process\<close>, which would log an error line,
  does not run. \<open>returned\<close> is the result for a handler that cannot raise, \<open>settled\<close>
  for one that can.
\<close>

definition returned ::
  "'r \<times> 's \<Rightarrow> (error + 'r option) \<times> 's" where
  "returned rs = (case rs of (r, s) \<Rightarrow> (Inr (Some r), s))"

definition settled ::
  "(error + 'r) \<times> 's \<Rightarrow> (error + 'r option) \<times> 's" where
  "settled rs =
     (case rs of
        (Inl err, s) \<Rightarrow> (Inl err, s)
      | (Inr r, s) \<Rightarrow> (Inr (Some r), s))"

section \<open>OrganizationService\<close>

subsection \<open>Entities\<close>

datatype organization_status = Active | Inactive | Pending | Optimizing

datatype component_status = Operational | Degraded | Offline

datatype maintenance_status = Scheduled | InProgress | Completed | Failed

text \<open>
  A component is built from an element of the \<open>components\<close> array of the payload: its
  id, name, role and dependencies are the element's own, of whatever type, when they are
  truthy.
\<close>

record organization_component =
  comp_id :: jsval
  comp_name :: jsval
  role :: jsval
  dependencies :: jsval
  comp_status :: component_status

record organization_metrics =
  efficiency :: real
  coordination :: real
  responsiveness :: real
  stability :: real

text \<open>
  The \<open>type\<close> of an organization and the \<open>priority\<close> of a coordination are cast from
  the payload (\<open>type as any\<close>), so they hold any string; a \<open>status\<close> is only ever
  written by the code.
\<close>

record system_organization =
  org_id :: string
  org_name :: string
  org_type :: string
  components :: "organization_component list"
  org_status :: organization_status
  metrics :: organization_metrics
  lastUpdated :: nat

record coordination_schedule =
  frequency :: string
  nextExecution :: nat
  lastExecution :: "nat option"
  executionCount :: nat

record background_coordination =
  coord_id :: string
  coordinationType :: string
  participants :: "string list"
  priority :: string
  schedule :: coordination_schedule
  coord_results :: "jsval list"

record maintenance_result =
  success :: bool
  itemsProcessed :: nat
  issuesFound :: int
  issuesResolved :: int
  recommendations :: "string list"

record system_maintenance =
  maint_id :: string
  maintenanceType :: string
  targets :: "string list"
  maint_status :: maintenance_status
  scheduledAt :: nat
  completedAt :: "nat option"
  results :: maintenance_result

record organization_service = base_service +
  organizations :: "(string \<times> system_organization) list"
  coordinations :: "(string \<times> background_coordination) list"
  maintenanceTasks :: "(string \<times> system_maintenance) list"
  systemHealth :: "(string \<times> real) list"

subsection \<open>Requests and responses\<close>

text \<open>
  The fields the seven handlers destructure from \<open>message.payload\<close>. \<open>components\<close> is
  untyped: \<open>createOrganization\<close> maps over it and reads the properties of its
  elements, which raises on a value that is not an array and on an element that is
  \<open>null\<close>.
\<close>

record org_payload =
  p_name :: "string option"
  p_type :: "string option"
  p_components :: jsval
  p_coordinationType :: "string option"
  p_participants :: "string list option"
  p_priority :: "string option"
  p_frequency :: "string option"
  p_maintenanceType :: "string option"
  p_targets :: "string list option"
  p_scheduledTime :: "nat option"
  p_maintenanceId :: "string option"
  p_organizationId :: "string option"
  p_includeComponents :: "bool option"
  p_optimizationType :: "string option"
  p_syncType :: "string option"
  p_data :: jsval

record organization_summary =
  sum_id :: string
  sum_name :: string
  sum_type :: string
  sum_status :: organization_status
  sum_metrics :: organization_metrics

datatype organization_view = FullOrganization system_organization | Summary organization_summary

record overall_summary =
  totalOrganizations :: nat
  activeOrganizations :: nat
  totalCoordinations :: nat
  pendingMaintenance :: nat
  completedMaintenance :: nat
  overallHealth :: real

record overall_status =
  summary :: overall_summary
  status_organizations :: "organization_view list"
  activeCoordinations :: "background_coordination list"
  recentMaintenance :: "system_maintenance list"
  systemHealthMetrics :: "(string \<times> real) list"

datatype organization_status_result =
    Found system_organization
  | NotFound string
  | OverallStatus overall_status

record metrics_improvement =
  imp_efficiency :: "real option"
  imp_coordination :: "real option"
  imp_responsiveness :: "real option"
  imp_stability :: "real option"

record state_management_sync =
  sync_required :: bool
  sync_kind :: string
  sync_priority :: string

record optimization_result =
  appliedOptimizations :: "string list"
  metricsImprovement :: metrics_improvement
  stateManagementSync :: state_management_sync

record organization_sync_entry =
  se_id :: string
  se_name :: string
  se_status :: organization_status
  se_metrics :: organization_metrics

record organization_state =
  os_organizations :: "organization_sync_entry list"
  os_activeCoordinations :: nat
  os_pendingMaintenance :: nat
  os_systemHealthMetrics :: "(string \<times> real) list"

record sync_result =
  syncType :: string
  sync_timestamp :: nat
  dataSynced :: organization_state
  targetService :: string
  bidirectional :: bool
  nextScheduledSync :: nat

text \<open>
  The payload of a response: what the handler computed, and the two fields every
  handler adds, \<open>processingTime\<close> and \<open>source\<close>.
\<close>

datatype org_body =
    OrganizationCreated system_organization
  | BackgroundCoordinationCreated background_coordination
  | MaintenanceScheduled system_maintenance
  | MaintenanceExecutionError string "string option"
  | MaintenanceExecuted string maintenance_result
  | OrganizationStatusRetrieved organization_status_result
  | OrganizationOptimized string optimization_result
  | StateManagementSynced sync_result

record 'b response_payload =
  body :: 'b
  processingTime :: int
  source :: string

text \<open>
  The tail every handler shares: slot \<open>k\<close> of the clock is read for \<open>processingTime\<close>
  while the payload is built, then \<open>createMessage\<close> stamps the envelope at slot
  \<open>k + 1\<close>, from this service to the sender of the request.
\<close>

definition respond ::
  "env \<Rightarrow> nat \<Rightarrow> string \<Rightarrow> 'b \<Rightarrow> 'p service_message \<Rightarrow> ('a base_service_scheme)
   \<Rightarrow> 'b response_payload service_message" where
  "respond e k ty b message s =
     createMessage e (Suc k) ty
       \<lparr>body = b, processingTime = elapsed e k, source = serviceName s\<rparr>
       (serviceName s) (msg_source message)"

subsection \<open>Creating entities\<close>

definition default_components :: "organization_component list" where
  "default_components =
     [\<lparr>comp_id = JStr ''coord-1'', comp_name = JStr ''coordination-hub'',
        role = JStr ''coordinator'', dependencies = JArr [], comp_status = Operational\<rparr>,
      \<lparr>comp_id = JStr ''worker-1'', comp_name = JStr ''background-worker'',
        role = JStr ''worker'', dependencies = JArr [JStr ''coord-1''],
        comp_status = Operational\<rparr>,
      \<lparr>comp_id = JStr ''monitor-1'', comp_name = JStr ''health-monitor'',
        role = JStr ''monitor'', dependencies = JArr [JStr ''coord-1''],
        comp_status = Operational\<rparr>]"

text \<open>
  The callback of \<open>components.map\<close>: \<open>c.id\<close> raises when the element is \<open>null\<close> (or
  \<open>undefined\<close>), and once it has been read the other three properties can be. Component
  \<open>i\<close> reads clock slot \<open>i\<close> when it brings no id.
\<close>

definition orgComponent ::
  "(nat \<Rightarrow> nat) \<Rightarrow> nat \<times> jsval \<Rightarrow> error + organization_component" where
  "orgComponent clk ic =
     (case ic of (i, c) \<Rightarrow>
        and_then (prop_of c ''id'') (\<lambda>cid.
        and_then (prop_of c ''name'') (\<lambda>cname.
        and_then (prop_of c ''role'') (\<lambda>crole.
        and_then (prop_of c ''dependencies'') (\<lambda>cdeps.
          Inr \<lparr>comp_id = js_or cid (JStr (''comp-'' @ show_nat (clk i) @ ''-'' @ show_nat i)),
               comp_name = js_or cname (JStr (''component-'' @ show_nat i)),
               role = js_or crole (JStr ''worker''),
               dependencies = js_or cdeps (JArr []),
               comp_status = Operational\<rparr>)))))"

text \<open>
  \<open>(components || []).map(...)\<close>: a falsy \<open>components\<close> stands for the empty array, and
  \<open>map\<close> exists on an array only, so every other truthy value makes the call raise.
\<close>

definition mapComponents ::
  "(nat \<Rightarrow> nat) \<Rightarrow> jsval \<Rightarrow> error + organization_component list" where
  "mapComponents clk comps =
     (case js_or comps (JArr []) of
        JArr cs \<Rightarrow> map_err (orgComponent clk) (enumerate 0 cs)
      | _ \<Rightarrow> Inl (TypeError ''(components || []).map is not a function''))"

text \<open>
  \<open>createOrganization\<close> uses the clock slots \<open>0 .. n + 1\<close> of \<open>clk\<close>, where \<open>n\<close> is the
  number of components given: one per component, one for the id, one for \<open>lastUpdated\<close>.
  It raises when the mapping of the components does.
\<close>

definition createOrganization ::
  "(nat \<Rightarrow> nat) \<Rightarrow> string option \<Rightarrow> string option \<Rightarrow> jsval
   \<Rightarrow> error + system_organization" where
  "createOrganization clk name ty comps =
     and_then (mapComponents clk comps) (\<lambda>mapped.
       let n = length mapped;
           orgComponents = (if length mapped = 0 then default_components else mapped)
       in Inr \<lparr>org_id = ''org-'' @ show_nat (clk n),
               org_name = str_or name ''system-organization'',
               org_type = str_or ty ''coordination'',
               components = orgComponents,
               org_status = Active,
               metrics = \<lparr>efficiency = 0.85, coordination = 0.9, responsiveness = 0.8,
                          stability = 0.95\<rparr>,
               lastUpdated = clk (Suc n)\<rparr>)"

definition createBackgroundCoordination ::
  "(nat \<Rightarrow> nat) \<Rightarrow> string option \<Rightarrow> string list option \<Rightarrow> string option \<Rightarrow> string option
   \<Rightarrow> background_coordination" where
  "createBackgroundCoordination clk ctype parts prio freq =
     (let now0 = clk 0;
          nextExec = now0 + 60000
      in \<lparr>coord_id = ''coord-'' @ show_nat (clk 1),
          coordinationType = str_or ctype ''general'',
          participants = opt_or parts
            [''monitoring-service'', ''state-management-service'', ''process-director''],
          priority = str_or prio ''medium'',
          schedule = \<lparr>frequency = str_or freq ''5m'', nextExecution = nextExec,
                      lastExecution = None, executionCount = 0\<rparr>,
          coord_results = []\<rparr>)"

definition scheduleMaintenance ::
  "(nat \<Rightarrow> nat) \<Rightarrow> string option \<Rightarrow> string list option \<Rightarrow> nat option \<Rightarrow> system_maintenance" where
  "scheduleMaintenance clk mtype tgts scheduledTime =
     \<lparr>maint_id = ''maint-'' @ show_nat (clk 0),
      maintenanceType = str_or mtype ''routine'',
      targets = opt_or tgts [''all-services''],
      maint_status = Scheduled,
      scheduledAt = opt_or scheduledTime (clk 1 + 3600000),
      completedAt = None,
      results = \<lparr>success = False, itemsProcessed = 0, issuesFound = 0, issuesResolved = 0,
                  recommendations = []\<rparr>\<rparr>"

subsection \<open>Maintenance execution\<close>

text \<open>
  \<open>executeMaintenance\<close> mutates the task it is given: the model returns the results and
  the task after the writes, in the order of the source. \<open>r0\<close> and \<open>r1\<close> are the two
  draws of \<open>Math.random()\<close>, \<open>t\<close> the reading of \<open>new Date()\<close>.
\<close>

definition executeMaintenance ::
  "real \<Rightarrow> real \<Rightarrow> nat \<Rightarrow> system_maintenance \<Rightarrow> maintenance_result \<times> system_maintenance" where
  "executeMaintenance r0 r1 t maintenance =
     (let m1 = maintenance\<lparr>maint_status := InProgress\<rparr>;
          processed = length (targets m1) * 5;
          found = \<lfloor>r0 * 3\<rfloor>;
          resolved = min found \<lfloor>r1 * of_int (found + 1)\<rfloor>;
          rec1 = (if found > resolved
                  then [''Manual intervention required for unresolved issues''] else []);
          rec2 = rec1 @ (if processed > 10
                  then [''Consider optimizing maintenance scope for efficiency''] else []);
          rec3 = rec2 @ [''Schedule follow-up maintenance in 24 hours''];
          res = \<lparr>success = (resolved \<ge> found), itemsProcessed = processed,
                 issuesFound = found, issuesResolved = resolved, recommendations = rec3\<rparr>;
          m2 = m1\<lparr>maint_status := (if success res then Completed else Failed)\<rparr>;
          m3 = m2\<lparr>completedAt := Some t\<rparr>;
          m4 = m3\<lparr>results := res\<rparr>
      in (res, m4))"

subsection \<open>Status reports\<close>

definition calculateOverallHealth :: "system_organization list \<Rightarrow> real" where
  "calculateOverallHealth orgs =
     (if length orgs = 0 then 1.0
      else
        let ms = map metrics orgs;
            avgEfficiency = foldl (\<lambda>acc m. acc + efficiency m) 0 ms / real (length ms);
            avgCoordination = foldl (\<lambda>acc m. acc + coordination m) 0 ms / real (length ms);
            avgResponsiveness = foldl (\<lambda>acc m. acc + responsiveness m) 0 ms / real (length ms);
            avgStability = foldl (\<lambda>acc m. acc + stability m) 0 ms / real (length ms)
        in (avgEfficiency + avgCoordination + avgResponsiveness + avgStability) / 4)"

definition summarize :: "system_organization \<Rightarrow> organization_summary" where
  "summarize org =
     \<lparr>sum_id = org_id org, sum_name = org_name org, sum_type = org_type org,
      sum_status = org_status org, sum_metrics = metrics org\<rparr>"

text \<open>
  The filter of \<open>activeCoordinations\<close> compares \<open>nextExecution\<close> with \<open>new Date()\<close>, once
  per coordination: coordination \<open>i\<close> reads clock slot \<open>i\<close> (when its \<open>executionCount\<close> is
  not positive).
\<close>

definition getOverallOrganizationStatus ::
  "(nat \<Rightarrow> nat) \<Rightarrow> bool option \<Rightarrow> organization_service \<Rightarrow> overall_status" where
  "getOverallOrganizationStatus clk includeComponents s =
     (let allOrgs = map snd (organizations s);
          allCoordinations = map snd (coordinations s);
          allMaintenance = map snd (maintenanceTasks s);
          activeOrgs = filter (\<lambda>org. org_status org = Active) allOrgs;
          pending = filter (\<lambda>m. maint_status m = Scheduled) allMaintenance;
          completed = filter (\<lambda>m. maint_status m = Completed) allMaintenance;
          health = calculateOverallHealth allOrgs
      in \<lparr>summary =
            \<lparr>totalOrganizations = length allOrgs,
             activeOrganizations = length activeOrgs,
             totalCoordinations = length allCoordinations,
             pendingMaintenance = length pending,
             completedMaintenance = length completed,
             overallHealth = health\<rparr>,
          status_organizations =
            (if includeComponents = Some True then map FullOrganization allOrgs
             else map (\<lambda>org. Summary (summarize org)) allOrgs),
          activeCoordinations =
            map snd (filter (\<lambda>(i, c). executionCount (schedule c) > 0
                                     \<or> nextExecution (schedule c) > clk i)
                       (enumerate 0 allCoordinations)),
          recentMaintenance = slice_last 5 allMaintenance,
          systemHealthMetrics = systemHealth s\<rparr>)"

subsection \<open>Optimization\<close>

text \<open>\<open>x || 0\<close> on an optional number.\<close>

fun num_or_zero :: "real option \<Rightarrow> real" where
  "num_or_zero None = 0"
| "num_or_zero (Some x) = x"

text \<open>
  \<open>optimizeOrganization\<close> mutates the organization it is given, when there is one: the
  model lists the writes in the order of the source, from \<open>status = 'optimizing'\<close> to
  \<open>status = 'active'\<close> and \<open>lastUpdated = new Date()\<close> (read at \<open>t\<close>), and returns the
  organization after them.
\<close>

definition optimizeOrganization ::
  "nat \<Rightarrow> system_organization option \<Rightarrow> string option
   \<Rightarrow> optimization_result \<times> system_organization option" where
  "optimizeOrganization t organization optimizationType =
     (let imp0 = \<lparr>imp_efficiency = None, imp_coordination = None,
                  imp_responsiveness = None, imp_stability = None\<rparr>;
          sync = \<lparr>sync_required = True, sync_kind = ''organization_update'',
                  sync_priority = ''medium''\<rparr>
      in case organization of
           Some org \<Rightarrow>
             (let o1 = org\<lparr>org_status := Optimizing\<rparr>;
                  (opt1, imp1) =
                    (if efficiency (metrics o1) < 0.9
                     then ([''Streamline component communication paths''],
                           imp0\<lparr>imp_efficiency := Some 0.05\<rparr>)
                     else ([], imp0));
                  (opt2, imp2) =
                    (if coordination (metrics o1) < 0.9
                     then (opt1 @ [''Enhance inter-component coordination protocols''],
                           imp1\<lparr>imp_coordination := Some 0.03\<rparr>)
                     else (opt1, imp1));
                  (opt3, imp3) =
                    (if responsiveness (metrics o1) < 0.9
                     then (opt2 @ [''Reduce latency in background operations''],
                           imp2\<lparr>imp_responsiveness := Some 0.04\<rparr>)
                     else (opt2, imp2));
                  (opt4, imp4) =
                    (if stability (metrics o1) < 0.95
                     then (opt3 @ [''Implement additional failover mechanisms''],
                           imp3\<lparr>imp_stability := Some 0.02\<rparr>)
                     else (opt3, imp3));
                  o2 = o1\<lparr>metrics := (metrics o1)\<lparr>efficiency :=
                         min 1 (efficiency (metrics o1) + num_or_zero (imp_efficiency imp4))\<rparr>\<rparr>;
                  o3 = o2\<lparr>metrics := (metrics o2)\<lparr>coordination :=
                         min 1 (coordination (metrics o2) + num_or_zero (imp_coordination imp4))\<rparr>\<rparr>;
                  o4 = o3\<lparr>metrics := (metrics o3)\<lparr>responsiveness :=
                         min 1 (responsiveness (metrics o3)
                                + num_or_zero (imp_responsiveness imp4))\<rparr>\<rparr>;
                  o5 = o4\<lparr>metrics := (metrics o4)\<lparr>stability :=
                         min 1 (stability (metrics o4) + num_or_zero (imp_stability imp4))\<rparr>\<rparr>;
                  o6 = o5\<lparr>org_status := Active\<rparr>;
                  o7 = o6\<lparr>lastUpdated := t\<rparr>
              in (\<lparr>appliedOptimizations = opt4, metricsImprovement = imp4,
                   stateManagementSync = sync\<rparr>, Some o7))
         | None \<Rightarrow>
             (\<lparr>appliedOptimizations =
                 [''System-wide organization review completed'',
                  ''Background coordination patterns analyzed'',
                  ''Maintenance schedules optimized''],
               metricsImprovement = imp0, stateManagementSync = sync\<rparr>, None))"

subsection \<open>Synchronization\<close>

definition syncWithStateManagement ::
  "nat \<Rightarrow> string option \<Rightarrow> organization_service \<Rightarrow> sync_result" where
  "syncWithStateManagement syncTimestamp stype s =
     (let organizationState =
            \<lparr>os_organizations =
               map (\<lambda>org. \<lparr>se_id = org_id org, se_name = org_name org,
                            se_status = org_status org, se_metrics = metrics org\<rparr>)
                 (map snd (organizations s)),
             os_activeCoordinations = length (coordinations s),
             os_pendingMaintenance =
               length (filter (\<lambda>m. maint_status m = Scheduled) (map snd (maintenanceTasks s))),
             os_systemHealthMetrics = systemHealth s\<rparr>
      in \<lparr>syncType = str_or stype ''full'',
          sync_timestamp = syncTimestamp,
          dataSynced = organizationState,
          targetService = ''state-management-service'',
          bidirectional = True,
          nextScheduledSync = syncTimestamp + 300000\<rparr>)"

subsection \<open>Handlers\<close>

text \<open>
  A handler runs after \<open>process\<close> has read \<open>startTime\<close> at clock slot \<open>0\<close>, so its own
  reads start at slot \<open>1\<close>. It returns the response envelope and the state after its
  writes. \<open>handleCreateOrganization\<close> may raise, before its only write; no statement of
  the other six handlers raises at the declared field types.
\<close>

definition handleCreateOrganization ::
  "env \<Rightarrow> org_payload service_message \<Rightarrow> organization_service
   \<Rightarrow> (error + org_body response_payload service_message) \<times> organization_service" where
  "handleCreateOrganization e message s =
     (let p = payload message
      in case createOrganization (\<lambda>k. now e (Suc k)) (p_name p) (p_type p) (p_components p) of
           Inl err \<Rightarrow> (Inl err, s)
         | Inr organization \<Rightarrow>
             (let n = (case js_or (p_components p) (JArr []) of JArr cs \<Rightarrow> length cs | _ \<Rightarrow> 0);
                  s' = s\<lparr>organizations :=
                          AList.update (org_id organization) organization (organizations s)\<rparr>
              in (Inr (respond e (n + 3) ''ORGANIZATION_CREATED''
                         (OrganizationCreated organization) message s'), s')))"

definition handleBackgroundCoordination ::
  "env \<Rightarrow> org_payload service_message \<Rightarrow> organization_service
   \<Rightarrow> org_body response_payload service_message \<times> organization_service" where
  "handleBackgroundCoordination e message s =
     (let p = payload message;
          coordination =
            createBackgroundCoordination (\<lambda>k. now e (Suc k)) (p_coordinationType p)
              (p_participants p) (p_priority p) (p_frequency p);
          s' = s\<lparr>coordinations :=
                  AList.update (coord_id coordination) coordination (coordinations s)\<rparr>
      in (respond e 3 ''BACKGROUND_COORDINATION_CREATED''
            (BackgroundCoordinationCreated coordination) message s', s'))"

definition handleScheduleMaintenance ::
  "env \<Rightarrow> org_payload service_message \<Rightarrow> organization_service
   \<Rightarrow> org_body response_payload service_message \<times> organization_service" where
  "handleScheduleMaintenance e message s =
     (let p = payload message;
          maintenance =
            scheduleMaintenance (\<lambda>k. now e (Suc k)) (p_maintenanceType p) (p_targets p)
              (p_scheduledTime p);
          s' = s\<lparr>maintenanceTasks :=
                  AList.update (maint_id maintenance) maintenance (maintenanceTasks s)\<rparr>
      in (respond e 3 ''MAINTENANCE_SCHEDULED'' (MaintenanceScheduled maintenance)
            message s', s'))"

text \<open>
  \<open>this.maintenanceTasks.get(maintenanceId)\<close>: the keys of the store are strings, so an
  absent \<open>maintenanceId\<close> finds nothing. The task found is mutated in place, which is
  the update of its key.
\<close>

definition handleExecuteMaintenance ::
  "env \<Rightarrow> org_payload service_message \<Rightarrow> organization_service
   \<Rightarrow> org_body response_payload service_message \<times> organization_service" where
  "handleExecuteMaintenance e message s =
     (let maintenanceId = p_maintenanceId (payload message);
          notFound =
            (respond e 1 ''MAINTENANCE_EXECUTION_ERROR''
               (MaintenanceExecutionError ''Maintenance task not found'' maintenanceId)
               message s, s)
      in case maintenanceId of
           None \<Rightarrow> notFound
         | Some key \<Rightarrow>
             (case map_of (maintenanceTasks s) key of
                None \<Rightarrow> notFound
              | Some maintenance \<Rightarrow>
                  (let (res, maintenance') =
                         executeMaintenance (rand e 0) (rand e 1) (now e 1) maintenance;
                       s' = s\<lparr>maintenanceTasks :=
                               AList.update key maintenance' (maintenanceTasks s)\<rparr>
                   in (respond e 2 ''MAINTENANCE_EXECUTED''
                         (MaintenanceExecuted (maint_id maintenance') res) message s', s'))))"

text \<open>\<open>organizationId ? ... : ...\<close>: an absent or empty id takes the else branch.\<close>

fun truthy_str :: "string option \<Rightarrow> string option" where
  "truthy_str None = None"
| "truthy_str (Some s) = (if s = [] then None else Some s)"

definition handleGetOrganizationStatus ::
  "env \<Rightarrow> org_payload service_message \<Rightarrow> organization_service
   \<Rightarrow> org_body response_payload service_message \<times> organization_service" where
  "handleGetOrganizationStatus e message s =
     (let p = payload message
      in case truthy_str (p_organizationId p) of
           Some organizationId \<Rightarrow>
             (let status =
                    (case map_of (organizations s) organizationId of
                       Some org \<Rightarrow> Found org
                     | None \<Rightarrow> NotFound organizationId)
              in (respond e 1 ''ORGANIZATION_STATUS_RETRIEVED''
                    (OrganizationStatusRetrieved status) message s, s))
         | None \<Rightarrow>
             (let status =
                    getOverallOrganizationStatus (\<lambda>k. now e (Suc k)) (p_includeComponents p) s
              in (respond e (Suc (length (coordinations s))) ''ORGANIZATION_STATUS_RETRIEVED''
                    (OrganizationStatusRetrieved (OverallStatus status)) message s, s)))"

text \<open>
  The organization found is mutated in place by \<open>optimizeOrganization\<close>, which is the
  update of its key.
\<close>

definition handleOptimizeOrganization ::
  "env \<Rightarrow> org_payload service_message \<Rightarrow> organization_service
   \<Rightarrow> org_body response_payload service_message \<times> organization_service" where
  "handleOptimizeOrganization e message s =
     (let p = payload message;
          found = (case truthy_str (p_organizationId p) of
                     None \<Rightarrow> None
                   | Some key \<Rightarrow>
                       (case map_of (organizations s) key of
                          None \<Rightarrow> None
                        | Some org \<Rightarrow> Some (key, org)));
          (optimizations, org') =
            optimizeOrganization (now e 1) (map_option snd found) (p_optimizationType p);
          s' = (case (found, org') of
                  (Some (key, org0), Some org1) \<Rightarrow>
                    s\<lparr>organizations := AList.update key org1 (organizations s)\<rparr>
                | _ \<Rightarrow> s)
      in (respond e 2 ''ORGANIZATION_OPTIMIZED''
            (OrganizationOptimized (str_or (map_option org_id org') ''all'') optimizations)
            message s', s'))"

definition handleSyncWithStateManagement ::
  "env \<Rightarrow> org_payload service_message \<Rightarrow> organization_service
   \<Rightarrow> org_body response_payload service_message \<times> organization_service" where
  "handleSyncWithStateManagement e message s =
     (let syncResult = syncWithStateManagement (now e 1) (p_syncType (payload message)) s
      in (respond e 2 ''STATE_MANAGEMENT_SYNCED'' (StateManagementSynced syncResult)
            message s, s))"

subsection \<open>Dispatch\<close>

text \<open>
  \<open>process\<close> reads \<open>startTime\<close>, logs the request and switches on \<open>message.type\<close>.
\<close>

definition process_organization ::
  "env \<Rightarrow> org_payload service_message \<Rightarrow> organization_service
   \<Rightarrow> (error + org_body response_payload service_message option) \<times> organization_service" where
  "process_organization e message s0 =
     (let s = log_line ''info'' ''Processing organization request'' s0;
          ty = msg_type message
      in if ty = ''CREATE_ORGANIZATION'' then settled (handleCreateOrganization e message s)
         else if ty = ''COORDINATE_BACKGROUND''
           then returned (handleBackgroundCoordination e message s)
         else if ty = ''SCHEDULE_MAINTENANCE''
           then returned (handleScheduleMaintenance e message s)
         else if ty = ''EXECUTE_MAINTENANCE''
           then returned (handleExecuteMaintenance e message s)
         else if ty = ''GET_ORGANIZATION_STATUS''
           then returned (handleGetOrganizationStatus e message s)
         else if ty = ''OPTIMIZE_ORGANIZATION''
           then returned (handleOptimizeOrganization e message s)
         else if ty = ''SYNC_WITH_STATE_MANAGEMENT''
           then returned (handleSyncWithStateManagement e message s)
         else (Inr None, log_line ''warn'' ''Unknown message type'' s))"

definition organization_types :: "string list" where
  "organization_types =
     [''CREATE_ORGANIZATION'', ''COORDINATE_BACKGROUND'', ''SCHEDULE_MAINTENANCE'',
      ''EXECUTE_MAINTENANCE'', ''GET_ORGANIZATION_STATUS'', ''OPTIMIZE_ORGANIZATION'',
      ''SYNC_WITH_STATE_MANAGEMENT'']"

subsection \<open>Construction and shutdown\<close>

text \<open>
  The constructor empties the four maps and runs \<open>initializeOrganizationFramework\<close>:
  clock slots \<open>0, 1\<close> go to the default organization and \<open>2, 3\<close> to the default
  coordination. The default organization is created without components, and then
  \<open>createOrganization\<close> does not raise: the constructor always completes.
\<close>

definition initializeOrganizationFramework ::
  "env \<Rightarrow> organization_service \<Rightarrow> organization_service" where
  "initializeOrganizationFramework e s =
     (case createOrganization (now e) (Some ''autonomic-core'') (Some ''coordination'')
             JUndefined of
        Inl err \<Rightarrow> s
      | Inr defaultOrg \<Rightarrow>
          (let s1 = s\<lparr>organizations :=
                       AList.update (org_id defaultOrg) defaultOrg (organizations s)\<rparr>;
               defaultCoord =
                 createBackgroundCoordination (\<lambda>k. now e (k + 2)) (Some ''system-health'')
                   (Some [''monitoring-service'', ''state-management-service'',
                          ''process-director''])
                   (Some ''high'') (Some ''1m'');
               s2 = s1\<lparr>coordinations :=
                        AList.update (coord_id defaultCoord) defaultCoord (coordinations s1)\<rparr>;
               s3 = s2\<lparr>systemHealth :=
                        AList.update ''autonomic-triad'' 0.95 (systemHealth s2)\<rparr>;
               s4 = s3\<lparr>systemHealth :=
                        AList.update ''background-processes'' 0.9 (systemHealth s3)\<rparr>;
               s5 = s4\<lparr>systemHealth :=
                        AList.update ''coordination-efficiency'' 0.85 (systemHealth s4)\<rparr>;
               s6 = s5\<lparr>systemHealth :=
                        AList.update ''maintenance-status'' 1.0 (systemHealth s5)\<rparr>
           in s6))"

definition new_OrganizationService :: "env \<Rightarrow> string \<Rightarrow> organization_service" where
  "new_OrganizationService e name =
     initializeOrganizationFramework e
       \<lparr>serviceName = name, logs = [], organizations = [], coordinations = [],
        maintenanceTasks = [], systemHealth = []\<rparr>"

definition shutdown_organization :: "organization_service \<Rightarrow> organization_service" where
  "shutdown_organization s0 =
     (let s = log_line ''info'' ''Shutting down Organization Service'' s0
      in s\<lparr>organizations :=
             map (\<lambda>(k, org). (k, org\<lparr>org_status := Inactive\<rparr>)) (organizations s)\<rparr>)"

subsection \<open>Sequences of calls\<close>

text \<open>
  The state after a sequence of \<open>process\<close> calls, each with its own environment,
  whatever each call returned.
\<close>

fun run_organization ::
  "(env \<times> org_payload service_message) list \<Rightarrow> organization_service \<Rightarrow> organization_service" where
  "run_organization [] s = s"
| "run_organization (c # cs) s =
     run_organization cs (snd (process_organization (fst c) (snd c) s))"

definition metrics_in_range :: "system_organization \<Rightarrow> bool" where
  "metrics_in_range org =
     (0 \<le> efficiency (metrics org) \<and> efficiency (metrics org) \<le> 1 \<and>
      0 \<le> coordination (metrics org) \<and> coordination (metrics org) \<le> 1 \<and>
      0 \<le> responsiveness (metrics org) \<and> responsiveness (metrics org) \<le> 1 \<and>
      0 \<le> stability (metrics org) \<and> stability (metrics org) \<le> 1)"


text \<open>
  The invariant of the organization store between calls: no key is empty and no
  organization is left in the status \<open>optimizing\<close>.
\<close>

definition no_optimizing :: "organization_service \<Rightarrow> bool" where
  "no_optimizing s =
     list_all (\<lambda>(k, org). k \<noteq> [] \<and> org_status org \<noteq> Optimizing) (organizations s)"

subsection \<open>Sample inputs\<close>

text \<open>
  A clock that starts at \<open>t\<close> and advances by one millisecond per read, with the two
  random draws \<open>r0\<close> and \<open>r1\<close> (every later draw is \<open>r1\<close>) and numbers printed by
  their integer part, as a natural number prints; a request as the HTTP layer builds
  it, \<open>createMessage(type, req.body, 'api-gateway', serviceName)\<close>; and the empty request
  body.
\<close>

definition sample_env :: "nat \<Rightarrow> real \<Rightarrow> real \<Rightarrow> env" where
  "sample_env t r0 r1 =
     \<lparr>now = (\<lambda>k. t + k), rand = (\<lambda>k. if k = 0 then r0 else r1),
      fresh_id = ''msg-'' @ show_nat t, print_number = (\<lambda>r. show_nat (nat \<lfloor>r\<rfloor>))\<rparr>"

definition request :: "string \<Rightarrow> 'p \<Rightarrow> string \<Rightarrow> 'p service_message" where
  "request ty p dst =
     \<lparr>msg_id = ''request'', msg_type = ty, payload = p, msg_source = ''api-gateway'',
      destination = dst, timestamp = 0\<rparr>"

definition org_no_fields :: org_payload where
  "org_no_fields =
     \<lparr>p_name = None, p_type = None, p_components = JUndefined, p_coordinationType = None,
      p_participants = None, p_priority = None, p_frequency = None,
      p_maintenanceType = None, p_targets = None, p_scheduledTime = None,
      p_maintenanceId = None, p_organizationId = None, p_includeComponents = None,
      p_optimizationType = None, p_syncType = None, p_data = JUndefined\<rparr>"

section \<open>SalesService\<close>

subsection \<open>Entities\<close>

record quality_dimensions =
  accuracy :: real
  completeness :: real
  relevance :: real
  clarity :: real
  timeliness :: real

text \<open>
  \<open>outputId\<close> is \<open>output.id || `output-${Date.now()}`\<close>, so it holds whatever truthy
  value the output carries as its id.
\<close>

record quality_assessment =
  qa_id :: string
  outputId :: jsval
  qualityScore :: real
  dimensions :: quality_dimensions
  qa_recommendations :: "string list"
  qa_timestamp :: nat

datatype promotion_status = Promoted | PromotionPending | PromotionFailed

text \<open>
  The channels of a promotion are the elements of the \<open>targetChannels\<close> array that
  passed the filter, whatever values they are.
\<close>

record promotion_result =
  promo_id :: string
  contentId :: jsval
  channels :: "jsval list"
  reach :: int
  engagement :: int
  promo_status :: promotion_status

record market_readiness_criteria =
  qualityThreshold :: bool
  complianceCheck :: bool
  formatValidation :: bool
  targetAlignment :: bool

record market_readiness =
  ready :: bool
  score :: real
  criteria :: market_readiness_criteria
  blockers :: "string list"

datatype trend = Improving | Stable | Declining

record quality_metrics =
  totalAssessments :: nat
  averageScore :: real
  dimensionAverages :: quality_dimensions
  trendDirection :: trend

record sales_service = base_service +
  qualityThresholds :: "(string \<times> real) list"
  promotionChannels :: "string list"
  assessmentHistory :: "quality_assessment list"

subsection \<open>Requests and responses\<close>

text \<open>
  \<open>output\<close>, \<open>content\<close>, \<open>criteria\<close> and \<open>requirements\<close> are typed \<open>any\<close> (the last two
  are never read). \<open>targetChannels\<close> is passed on as a \<open>string[]\<close> and filtered: it is
  untyped here, because a value that is not an array makes the filter raise.
\<close>

record sales_payload =
  sp_output :: jsval
  sp_criteria :: jsval
  sp_content :: jsval
  sp_targetChannels :: jsval
  sp_priority :: "string option"
  sp_requirements :: jsval
  sp_targetMarket :: "string option"

datatype sales_body =
    QualityAssessed quality_assessment
  | OutputPromoted promotion_result
  | MarketReadinessChecked market_readiness
  | QualityMetricsRetrieved quality_metrics
  | MarketOptimizationComplete real "string list" real

subsection \<open>Quality assessment\<close>

text \<open>
  \<open>evaluateAccuracy\<close> reads \<open>output.data\<close> first, which raises when \<open>output\<close> is
  \<open>undefined\<close> or \<open>null\<close>; once that read has succeeded the other reads cannot raise, so
  reading all five properties in sequence is the same as the short-circuit of \<open>||\<close>.
  \<open>r\<close> is the draw of \<open>Math.random()\<close>.
\<close>

definition evaluateAccuracy :: "real \<Rightarrow> jsval \<Rightarrow> error + real" where
  "evaluateAccuracy r output =
     and_then (prop_of output ''data'') (\<lambda>dat.
     and_then (prop_of output ''content'') (\<lambda>cont.
     and_then (prop_of output ''result'') (\<lambda>res.
     and_then (prop_of output ''metadata'') (\<lambda>meta.
     and_then (prop_of output ''source'') (\<lambda>src.
       let hasData = (truthy dat \<or> truthy cont \<or> truthy res);
           hasMetadata = (truthy meta \<or> truthy src);
           score0 = 0.5;
           score1 = (if hasData then score0 + 0.3 else score0);
           score2 = (if hasMetadata then score1 + 0.2 else score1)
       in Inr (min (score2 + r * 0.1) 1.0))))))"

definition evaluateCompleteness :: "real \<Rightarrow> jsval \<Rightarrow> real" where
  "evaluateCompleteness r output =
     (let fields = keys_count (if truthy output then output else JObj [])
      in min (real fields / 10 + 0.5 + r * 0.1) 1.0)"

definition evaluateRelevance :: "real \<Rightarrow> jsval \<Rightarrow> real" where
  "evaluateRelevance r output = 0.7 + r * 0.3"

definition evaluateClarity :: "real \<Rightarrow> jsval \<Rightarrow> real" where
  "evaluateClarity r output =
     (let hasStructure = is_object output
      in if hasStructure then 0.75 + r * 0.25 else 0.5 + r * 0.3)"

definition evaluateTimeliness :: "real \<Rightarrow> jsval \<Rightarrow> real" where
  "evaluateTimeliness r output = 0.8 + r * 0.2"

text \<open>The \<open>criteria\<close> parameter of \<open>generateRecommendations\<close> is never read.\<close>

definition generateRecommendations :: "quality_dimensions \<Rightarrow> string list" where
  "generateRecommendations d =
     (let r1 = (if accuracy d < 0.7
                then [''Improve data accuracy through additional validation''] else []);
          r2 = r1 @ (if completeness d < 0.7
                then [''Add missing data fields for completeness''] else []);
          r3 = r2 @ (if relevance d < 0.7
                then [''Refine content to better match target requirements''] else []);
          r4 = r3 @ (if clarity d < 0.7
                then [''Restructure output for improved clarity''] else []);
          r5 = r4 @ (if timeliness d < 0.7
                then [''Optimize processing pipeline for faster delivery''] else [])
      in if length r5 = 0 then [''Output meets quality standards''] else r5)"

text \<open>
  \<open>assessQuality\<close> takes five draws (\<open>rnd 0 .. rnd 4\<close>) and the clock slots \<open>0\<close> (the
  id), \<open>1\<close> (the fallback of \<open>outputId\<close>) and \<open>2\<close> (the timestamp). The quality score is
  the sum of the five dimensions, added from \<open>0\<close> in the order of the object's keys,
  over \<open>5\<close>.
\<close>

definition assessQuality ::
  "(nat \<Rightarrow> nat) \<Rightarrow> (nat \<Rightarrow> real) \<Rightarrow> jsval \<Rightarrow> error + quality_assessment" where
  "assessQuality clk rnd output =
     and_then (evaluateAccuracy (rnd 0) output) (\<lambda>acc.
       let dims = \<lparr>accuracy = acc,
                   completeness = evaluateCompleteness (rnd 1) output,
                   relevance = evaluateRelevance (rnd 2) output,
                   clarity = evaluateClarity (rnd 3) output,
                   timeliness = evaluateTimeliness (rnd 4) output\<rparr>;
           total = foldl (+) 0 [accuracy dims, completeness dims, relevance dims,
                                clarity dims, timeliness dims] / 5;
           recs = generateRecommendations dims
       in and_then (prop_of output ''id'') (\<lambda>oid.
            Inr \<lparr>qa_id = ''qa-'' @ show_nat (clk 0),
                 outputId = (if truthy oid then oid else JStr (''output-'' @ show_nat (clk 1))),
                 qualityScore = total,
                 dimensions = dims,
                 qa_recommendations = recs,
                 qa_timestamp = clk 2\<rparr>))"

subsection \<open>Promotion\<close>

text \<open>
  \<open>channels.filter\<close> exists on an array only: on every other value the call raises.
  \<open>promoteToChannels\<close> draws once per channel for the filter (channel \<open>i\<close> takes draw
  \<open>i\<close>), then once for \<open>reach\<close> and once for \<open>engagement\<close>; it reads the clock for the
  id (slot \<open>0\<close>) and for the fallback of \<open>contentId\<close> (slot \<open>1\<close>). \<open>content.id\<close> raises
  when \<open>content\<close> is \<open>undefined\<close> or \<open>null\<close>.
\<close>

definition promoteToChannels ::
  "(nat \<Rightarrow> nat) \<Rightarrow> (nat \<Rightarrow> real) \<Rightarrow> jsval \<Rightarrow> jsval \<Rightarrow> error + promotion_result" where
  "promoteToChannels clk rnd content channels_given =
     (case channels_given of
        JArr chans \<Rightarrow>
          (let successfulChannels = map snd (filter (\<lambda>(i, c). rnd i > 0.1) (enumerate 0 chans));
               n = length chans
           in and_then (prop_of content ''id'') (\<lambda>cid.
                Inr \<lparr>promo_id = ''promo-'' @ show_nat (clk 0),
                     contentId = (if truthy cid then cid
                                  else JStr (''content-'' @ show_nat (clk 1))),
                     channels = successfulChannels,
                     reach = int (length successfulChannels) * 100 + \<lfloor>rnd n * 500\<rfloor>,
                     engagement = \<lfloor>rnd (Suc n) * 100\<rfloor>,
                     promo_status = (if length successfulChannels > 0 then Promoted
                                     else PromotionFailed)\<rparr>))
      | _ \<Rightarrow> Inl (TypeError ''channels.filter is not a function''))"

subsection \<open>Market readiness\<close>

text \<open>\<open>this.qualityThresholds.get('market') || 0.7\<close>.\<close>

definition market_threshold :: "sales_service \<Rightarrow> real" where
  "market_threshold s =
     (case map_of (qualityThresholds s) ''market'' of
        None \<Rightarrow> 0.7
      | Some v \<Rightarrow> (if v = 0 then 0.7 else v))"

text \<open>
  \<open>checkMarketReadiness\<close> assesses the output (draws \<open>0 .. 4\<close>, clock slots \<open>0 .. 2\<close>)
  and then draws three times more.
\<close>

definition checkMarketReadiness ::
  "(nat \<Rightarrow> nat) \<Rightarrow> (nat \<Rightarrow> real) \<Rightarrow> jsval \<Rightarrow> sales_service \<Rightarrow> error + market_readiness" where
  "checkMarketReadiness clk rnd output s =
     and_then (assessQuality clk rnd output) (\<lambda>assessment.
       let crit = \<lparr>qualityThreshold = (qualityScore assessment \<ge> market_threshold s),
                   complianceCheck = (rnd 5 > 0.2),
                   formatValidation = (rnd 6 > 0.15),
                   targetAlignment = (rnd 7 > 0.25)\<rparr>;
           b1 = (if \<not> qualityThreshold crit then [''Quality below threshold''] else []);
           b2 = b1 @ (if \<not> complianceCheck crit
                      then [''Compliance verification pending''] else []);
           b3 = b2 @ (if \<not> formatValidation crit then [''Format validation failed''] else []);
           b4 = b3 @ (if \<not> targetAlignment crit
                      then [''Target audience alignment needed''] else []);
           vals = [qualityThreshold crit, complianceCheck crit, formatValidation crit,
                   targetAlignment crit];
           allCriteriaMet = list_all (\<lambda>v. v) vals
       in Inr \<lparr>ready = allCriteriaMet,
               score = real (length (filter (\<lambda>v. v) vals)) / 4,
               criteria = crit,
               blockers = b4\<rparr>)"

subsection \<open>Quality metrics\<close>

definition calculateDimensionAverages :: "quality_assessment list \<Rightarrow> quality_dimensions" where
  "calculateDimensionAverages assessments =
     (if length assessments = 0
      then \<lparr>accuracy = 0, completeness = 0, relevance = 0, clarity = 0, timeliness = 0\<rparr>
      else
        let totals =
              foldl (\<lambda>acc a.
                       \<lparr>accuracy = accuracy acc + accuracy (dimensions a),
                        completeness = completeness acc + completeness (dimensions a),
                        relevance = relevance acc + relevance (dimensions a),
                        clarity = clarity acc + clarity (dimensions a),
                        timeliness = timeliness acc + timeliness (dimensions a)\<rparr>)
                \<lparr>accuracy = 0, completeness = 0, relevance = 0, clarity = 0, timeliness = 0\<rparr>
                assessments;
            count = real (length assessments)
        in \<lparr>accuracy = accuracy totals / count,
            completeness = completeness totals / count,
            relevance = relevance totals / count,
            clarity = clarity totals / count,
            timeliness = timeliness totals / count\<rparr>)"

text \<open>\<open>assessments.slice(-10, -5)\<close> on a list of at least ten elements.\<close>

definition calculateTrend :: "quality_assessment list \<Rightarrow> trend" where
  "calculateTrend assessments =
     (if length assessments < 10 then Stable
      else
        let recent = slice_last 5 assessments;
            older = take 5 (slice_last 10 assessments);
            recentAvg = foldl (\<lambda>acc a. acc + qualityScore a) 0 recent / real (length recent);
            olderAvg = foldl (\<lambda>acc a. acc + qualityScore a) 0 older / real (length older);
            diff = recentAvg - olderAvg
        in if diff > 0.05 then Improving
           else if diff < - 0.05 then Declining
           else Stable)"

definition getQualityMetrics :: "sales_service \<Rightarrow> quality_metrics" where
  "getQualityMetrics s =
     (let recentAssessments = slice_last 100 (assessmentHistory s)
      in \<lparr>totalAssessments = length (assessmentHistory s),
          averageScore =
            (if length recentAssessments > 0
             then foldl (\<lambda>acc a. acc + qualityScore a) 0 recentAssessments
                  / real (length recentAssessments)
             else 0),
          dimensionAverages = calculateDimensionAverages recentAssessments,
          trendDirection = calculateTrend recentAssessments\<rparr>)"

subsection \<open>Market optimization\<close>

definition generateMarketOptimizations ::
  "quality_assessment \<Rightarrow> string option \<Rightarrow> string list" where
  "generateMarketOptimizations assessment targetMarket =
     (let o1 = (if clarity (dimensions assessment) < 0.8
                then [''Restructure for improved market clarity''] else []);
          o2 = o1 @ (if relevance (dimensions assessment) < 0.8
                then [''Align content with '' @ str_or targetMarket ''target''
                      @ '' market expectations'']
                else []);
          o3 = o2 @ (if completeness (dimensions assessment) < 0.8
                then [''Add market-specific metadata and tags''] else [])
      in o3 @ [''Apply market-appropriate formatting'',
               ''Optimize delivery timing for target audience''])"

subsection \<open>Handlers\<close>

text \<open>
  A handler of this service may raise: its result is \<open>Inl err\<close> with the state as the
  handler left it, or \<open>Inr\<close> of the response envelope. Every handler that raises does so
  before its first write. \<open>targetChannels || this.promotionChannels\<close> is the array of
  the service's own channels when no truthy \<open>targetChannels\<close> is given.
\<close>

definition handleQualityAssessment ::
  "env \<Rightarrow> sales_payload service_message \<Rightarrow> sales_service
   \<Rightarrow> (error + sales_body response_payload service_message) \<times> sales_service" where
  "handleQualityAssessment e message s =
     (case assessQuality (\<lambda>k. now e (Suc k)) (rand e) (sp_output (payload message)) of
        Inl err \<Rightarrow> (Inl err, s)
      | Inr assessment \<Rightarrow>
          (let s' = s\<lparr>assessmentHistory := assessmentHistory s @ [assessment]\<rparr>
           in (Inr (respond e 4 ''QUALITY_ASSESSED'' (QualityAssessed assessment) message s'),
               s')))"

definition handleOutputPromotion ::
  "env \<Rightarrow> sales_payload service_message \<Rightarrow> sales_service
   \<Rightarrow> (error + sales_body response_payload service_message) \<times> sales_service" where
  "handleOutputPromotion e message s =
     (let p = payload message;
          chans = js_or (sp_targetChannels p) (JArr (map JStr (promotionChannels s)))
      in case promoteToChannels (\<lambda>k. now e (Suc k)) (rand e) (sp_content p) chans of
           Inl err \<Rightarrow> (Inl err, s)
         | Inr promotionResult \<Rightarrow>
             (Inr (respond e 3 ''OUTPUT_PROMOTED'' (OutputPromoted promotionResult) message s),
              s))"

definition handleMarketReadinessCheck ::
  "env \<Rightarrow> sales_payload service_message \<Rightarrow> sales_service
   \<Rightarrow> (error + sales_body response_payload service_message) \<times> sales_service" where
  "handleMarketReadinessCheck e message s =
     (case checkMarketReadiness (\<lambda>k. now e (Suc k)) (rand e) (sp_output (payload message)) s of
        Inl err \<Rightarrow> (Inl err, s)
      | Inr readiness \<Rightarrow>
          (Inr (respond e 4 ''MARKET_READINESS_CHECKED'' (MarketReadinessChecked readiness)
                  message s), s))"

definition handleGetQualityMetrics ::
  "env \<Rightarrow> sales_payload service_message \<Rightarrow> sales_service
   \<Rightarrow> (error + sales_body response_payload service_message) \<times> sales_service" where
  "handleGetQualityMetrics e message s =
     (Inr (respond e 1 ''QUALITY_METRICS_RETRIEVED''
             (QualityMetricsRetrieved (getQualityMetrics s)) message s), s)"

definition handleMarketOptimization ::
  "env \<Rightarrow> sales_payload service_message \<Rightarrow> sales_service
   \<Rightarrow> (error + sales_body response_payload service_message) \<times> sales_service" where
  "handleMarketOptimization e message s =
     (let p = payload message
      in case assessQuality (\<lambda>k. now e (Suc k)) (rand e) (sp_output p) of
           Inl err \<Rightarrow> (Inl err, s)
         | Inr assessment \<Rightarrow>
             (let optimizations = generateMarketOptimizations assessment (sp_targetMarket p)
              in (Inr (respond e 4 ''MARKET_OPTIMIZATION_COMPLETE''
                         (MarketOptimizationComplete (qualityScore assessment) optimizations
                            (real (length optimizations) * 0.05))
                         message s), s)))"

subsection \<open>Dispatch\<close>

text \<open>
  Every case of the switch is \<open>return this.handle...(message, startTime)\<close>, and the rest
  of the try block (\<open>message.type\<close>, the warning) cannot raise, so \<open>process\<close> is
  \<open>settled\<close> of what the handler did, as defined with the base class.
\<close>

definition process_sales ::
  "env \<Rightarrow> sales_payload service_message \<Rightarrow> sales_service
   \<Rightarrow> (error + sales_body response_payload service_message option) \<times> sales_service" where
  "process_sales e message s0 =
     (let s = log_line ''info'' ''Processing sales request'' s0;
          ty = msg_type message
      in if ty = ''ASSESS_QUALITY'' then settled (handleQualityAssessment e message s)
         else if ty = ''PROMOTE_OUTPUT'' then settled (handleOutputPromotion e message s)
         else if ty = ''CHECK_MARKET_READINESS''
           then settled (handleMarketReadinessCheck e message s)
         else if ty = ''GET_QUALITY_METRICS'' then settled (handleGetQualityMetrics e message s)
         else if ty = ''OPTIMIZE_FOR_MARKET'' then settled (handleMarketOptimization e message s)
         else (Inr None, log_line ''warn'' ''Unknown message type'' s))"

definition sales_types :: "string list" where
  "sales_types =
     [''ASSESS_QUALITY'', ''PROMOTE_OUTPUT'', ''CHECK_MARKET_READINESS'',
      ''GET_QUALITY_METRICS'', ''OPTIMIZE_FOR_MARKET'']"

subsection \<open>Construction\<close>

definition initializeQualityFramework :: "sales_service \<Rightarrow> sales_service" where
  "initializeQualityFramework s =
     (let s1 = s\<lparr>qualityThresholds := AList.update ''market'' 0.7 (qualityThresholds s)\<rparr>;
          s2 = s1\<lparr>qualityThresholds := AList.update ''premium'' 0.85 (qualityThresholds s1)\<rparr>;
          s3 = s2\<lparr>qualityThresholds := AList.update ''standard'' 0.6 (qualityThresholds s2)\<rparr>
      in s3\<lparr>promotionChannels :=
              [''primary-output'', ''analytics-feed'', ''integration-hub'', ''external-api'',
               ''dashboard-display'']\<rparr>)"

definition new_SalesService :: "string \<Rightarrow> sales_service" where
  "new_SalesService name =
     initializeQualityFramework
       \<lparr>serviceName = name, logs = [], qualityThresholds = [], promotionChannels = [],
        assessmentHistory = []\<rparr>"

definition sales_no_fields :: sales_payload where
  "sales_no_fields =
     \<lparr>sp_output = JUndefined, sp_criteria = JUndefined, sp_content = JUndefined,
      sp_targetChannels = JUndefined, sp_priority = None, sp_requirements = JUndefined,
      sp_targetMarket = None\<rparr>"

section \<open>TreasuryService\<close>

subsection \<open>Entities\<close>

record motor_pattern =
  sequence :: "string list"
  timing :: "real list"
  precision :: real
  adaptability :: real

record skill_metadata =
  createdAt :: nat
  developmentPlanId :: "string option"
  sourceTriad :: string
  validatedBy :: "string list"
  skill_dependencies :: "string list"

text \<open>
  \<open>skillType\<close> is cast from the payload (\<open>skillType as any\<close>), so it holds any string.
  \<open>skillName\<close> holds the value of the payload as it came, of whatever type, because a
  later search calls \<open>toLowerCase\<close> on it, which raises on a value that is not a
  string. \<open>proficiency\<close> becomes \<open>NaN\<close> when an update asks for a value that is not a
  number.
\<close>

record motor_memory =
  mm_id :: string
  skillName :: jsval
  skillType :: string
  pattern :: motor_pattern
  proficiency :: number
  lastAccessed :: nat
  accessCount :: nat
  metadata :: skill_metadata

record skill_integration =
  integration_target :: string
  integrationType :: string
  strength :: real

text \<open>
  \<open>integrations\<close> holds the value of the payload as it came, of whatever type, because
  a later integration calls \<open>push\<close> on it, which raises on a value that is not an
  array. An integration made by the code is the object \<open>integration_object\<close> of its
  three fields.
\<close>

record learned_skill =
  ls_id :: string
  ls_name :: string
  category :: string
  proficiencyLevel :: real
  patterns :: "string list"
  integrations :: jsval

definition integration_object :: "skill_integration \<Rightarrow> jsval" where
  "integration_object i =
     JObj [(''targetService'', JStr (integration_target i)),
           (''integrationType'', JStr (integrationType i)),
           (''strength'', JNum (strength i))]"

record skill_retrieval_result =
  skill :: "motor_memory option"
  retrievalTime :: int
  confidence :: number
  alternatives :: "jsval list"

record access_entry =
  ae_skillId :: jsval
  ae_timestamp :: nat
  ae_success :: bool

record treasury_service = base_service +
  motorMemoryStore :: "(string \<times> motor_memory) list"
  learnedSkills :: "(string \<times> learned_skill) list"
  accessLog :: "access_entry list"
  sharedParasympatheticState :: "(string \<times> jsval) list"

subsection \<open>Requests and responses\<close>

record partial_pattern =
  pp_sequence :: "string list option"
  pp_timing :: "real list option"
  pp_precision :: "real option"
  pp_adaptability :: "real option"

record partial_metadata =
  pm_developmentPlanId :: "string option"
  pm_sourceTriad :: "string option"
  pm_validatedBy :: "string list option"
  pm_dependencies :: "string list option"

record completed_skill =
  cs_name :: "string option"
  cs_type :: "string option"

text \<open>
  The fields the seven handlers destructure from \<open>message.payload\<close>. \<open>skillName\<close>,
  \<open>integrations\<close> and \<open>newProficiency\<close> are untyped: the first is stored as it is and
  searched with \<open>toLowerCase\<close>, the second is stored as it is and extended with
  \<open>push\<close>, the third goes through \<open>Math.min\<close> and \<open>Math.max\<close>, which convert it.
  \<open>proficiency\<close> is at the type \<open>storeMotorMemory\<close> declares for it.
\<close>

record treasury_payload =
  tp_skillName :: jsval
  tp_skillType :: "string option"
  tp_pattern :: "partial_pattern option"
  tp_proficiency :: "real option"
  tp_metadata :: "partial_metadata option"
  tp_skillId :: "string option"
  tp_name :: "string option"
  tp_category :: "string option"
  tp_proficiencyLevel :: "real option"
  tp_patterns :: "string list option"
  tp_integrations :: jsval
  tp_newProficiency :: jsval
  tp_reason :: "string option"
  tp_minProficiency :: "real option"
  tp_developmentPlanId :: "string option"
  tp_completedSkill :: "completed_skill option"
  tp_targetService :: "string option"
  tp_integrationType :: "string option"

record stored_memory =
  sm_id :: string
  sm_skillName :: jsval
  sm_proficiency :: number
  storedAt :: nat

record proficiency_update =
  pu_skillId :: string
  oldProficiency :: number
  newProficiency :: number
  change :: number
  reason :: string

record memory_entry =
  me_id :: string
  me_name :: jsval
  me_type :: string
  me_proficiency :: number
  me_accessCount :: nat

record skill_entry =
  sk_id :: string
  sk_name :: string
  sk_category :: string
  sk_proficiency :: real

record access_statistics =
  totalAccesses :: nat
  successRate :: real

record skill_inventory =
  totalMotorMemories :: nat
  totalLearnedSkills :: nat
  filteredMotorMemories :: nat
  filteredLearnedSkills :: nat
  motorMemories :: "memory_entry list"
  inv_learnedSkills :: "skill_entry list"
  accessStatistics :: access_statistics
  parasympatheticStatus :: jsval

record development_received =
  memoryId :: string
  dr_skillName :: jsval
  dr_proficiency :: number
  dr_developmentPlanId :: "string option"
  parasympatheticSync :: string

record skill_integrated =
  si_skillId :: string
  si_skillName :: string
  integration :: skill_integration
  totalIntegrations :: nat

datatype treasury_body =
    MotorMemoryStored stored_memory
  | SkillRetrieved skill_retrieval_result
  | LearnedSkillRegistered learned_skill
  | ProficiencyUpdateError string "string option"
  | ProficiencyUpdated proficiency_update
  | SkillInventoryRetrieved skill_inventory
  | DevelopmentReceived development_received
  | SkillIntegrationError string "string option"
  | SkillIntegrated skill_integrated

subsection \<open>Storing a motor memory\<close>

text \<open>
  \<open>storeMotorMemory\<close> reads the clock for the id (slot \<open>0\<close>), for \<open>lastAccessed\<close> (slot
  \<open>1\<close>) and for \<open>createdAt\<close> (slot \<open>2\<close>). The name is \<open>skillName || 'unnamed-skill'\<close>:
  a truthy value is stored as it is. The proficiency is \<open>proficiency ?? 0.5\<close>: a number
  that is given is stored as it is.
\<close>

definition storeMotorMemory ::
  "(nat \<Rightarrow> nat) \<Rightarrow> jsval \<Rightarrow> string option \<Rightarrow> partial_pattern option \<Rightarrow> real option
   \<Rightarrow> partial_metadata option \<Rightarrow> motor_memory" where
  "storeMotorMemory clk name stype pat prof meta =
     \<lparr>mm_id = ''mm-'' @ show_nat (clk 0),
      skillName = js_or name (JStr ''unnamed-skill''),
      skillType = str_or stype ''motor'',
      pattern =
        \<lparr>sequence = opt_or (Option.bind pat pp_sequence) [],
         timing = opt_or (Option.bind pat pp_timing) [],
         precision = opt_or (Option.bind pat pp_precision) 0.7,
         adaptability = opt_or (Option.bind pat pp_adaptability) 0.5\<rparr>,
      proficiency = Finite (opt_or prof 0.5),
      lastAccessed = clk 1,
      accessCount = 0,
      metadata =
        \<lparr>createdAt = clk 2,
         developmentPlanId = Option.bind meta pm_developmentPlanId,
         sourceTriad = str_or (Option.bind meta pm_sourceTriad) ''somatic'',
         validatedBy = opt_or (Option.bind meta pm_validatedBy) [],
         skill_dependencies = opt_or (Option.bind meta pm_dependencies) []\<rparr>\<rparr>"

subsection \<open>Retrieving a skill\<close>

text \<open>
  The body of the loop over the entries of the store, in insertion order. The state of
  the loop is the best match so far, with the key it is stored under, and the names
  collected in \<open>alternatives\<close>. When a truthy \<open>skillName\<close> is asked for, the test is
  \<open>memory.skillName.toLowerCase().includes(skillName.toLowerCase())\<close>: the first call
  raises when the stored name is not a string, the second when the name asked for is
  not. A match by name replaces the best match only when its proficiency is strictly
  greater. An entry that does not match by name is tested by type.
\<close>

definition search_step ::
  "jsval \<Rightarrow> string option \<Rightarrow> (string \<times> motor_memory) option \<times> jsval list
   \<Rightarrow> string \<times> motor_memory \<Rightarrow> error + (string \<times> motor_memory) option \<times> jsval list" where
  "search_step name stype acc entry =
     (case acc of (best, alts) \<Rightarrow>
        (let memory = snd entry;
             byType =
               (if (case truthy_str stype of
                      Some t \<Rightarrow> skillType memory = t
                    | None \<Rightarrow> False)
                then (best, alts @ [skillName memory])
                else (best, alts))
         in if truthy name
            then
              (case skillName memory of
                 JStr stored \<Rightarrow>
                   (case name of
                      JStr wanted \<Rightarrow>
                        (if includes_str (toLowerCase stored) (toLowerCase wanted)
                         then
                           Inr ((case best of
                                   None \<Rightarrow> Some entry
                                 | Some b \<Rightarrow>
                                     (if num_less (proficiency (snd b)) (proficiency memory)
                                      then Some entry else Some b)),
                                alts @ [skillName memory])
                         else Inr byType)
                    | _ \<Rightarrow> Inl (TypeError ''skillName.toLowerCase is not a function''))
               | JUndefined \<Rightarrow> Inl (TypeError ''Cannot read properties of undefined'')
               | JNull \<Rightarrow> Inl (TypeError ''Cannot read properties of null'')
               | _ \<Rightarrow> Inl (TypeError ''memory.skillName.toLowerCase is not a function''))
            else Inr byType))"

text \<open>The loop: it ends at the first entry whose test raises.\<close>

fun search_store ::
  "jsval \<Rightarrow> string option \<Rightarrow> (string \<times> motor_memory) option \<times> jsval list
   \<Rightarrow> (string \<times> motor_memory) list \<Rightarrow> error + (string \<times> motor_memory) option \<times> jsval list" where
  "search_store name stype acc [] = Inr acc"
| "search_store name stype acc (entry # rest) =
     and_then (search_step name stype acc entry) (\<lambda>acc'. search_store name stype acc' rest)"

text \<open>
  \<open>retrieveSkill\<close> reads the clock at slot \<open>0\<close> (its own \<open>startTime\<close>), at slot \<open>1\<close> for
  \<open>lastAccessed\<close> when a skill was found, and at slot \<open>2\<close> for \<open>retrievalTime\<close>. The
  skill found is mutated in place (\<open>lastAccessed\<close>, \<open>accessCount++\<close>), which is the
  update of its key, and the result holds the skill after the mutation. An error of
  the search is raised before any of this.
\<close>

definition retrieveSkill ::
  "(nat \<Rightarrow> nat) \<Rightarrow> string option \<Rightarrow> jsval \<Rightarrow> string option
   \<Rightarrow> (string \<times> motor_memory) list
   \<Rightarrow> error + skill_retrieval_result \<times> (string \<times> motor_memory) list" where
  "retrieveSkill clk sid name stype store =
     (let byId = (case truthy_str sid of
                    None \<Rightarrow> None
                  | Some key \<Rightarrow>
                      (case map_of store key of
                         None \<Rightarrow> None
                       | Some memory \<Rightarrow> Some (key, memory)))
      in and_then
           (case byId of
              Some entry \<Rightarrow> Inr (Some entry, [])
            | None \<Rightarrow> search_store name stype (None, []) store)
           (\<lambda>(found, alts).
              let found' =
                    map_option
                      (\<lambda>(key, memory).
                         (key, memory\<lparr>lastAccessed := clk 1,
                                       accessCount := accessCount memory + 1\<rparr>))
                      found;
                  store' = (case found' of
                              None \<Rightarrow> store
                            | Some (key, memory) \<Rightarrow> AList.update key memory store)
              in Inr (\<lparr>skill = map_option snd found',
                       retrievalTime = int (clk 2) - int (clk 0),
                       confidence = (case found' of
                                       Some (key, memory) \<Rightarrow> proficiency memory
                                     | None \<Rightarrow> Finite 0),
                       alternatives =
                         take 5 (filter (\<lambda>a. Some a \<noteq> map_option (skillName \<circ> snd) found')
                                   alts)\<rparr>,
                      store')))"

subsection \<open>Learned skills and the inventory\<close>

definition registerLearnedSkill ::
  "(nat \<Rightarrow> nat) \<Rightarrow> string option \<Rightarrow> string option \<Rightarrow> real option \<Rightarrow> string list option
   \<Rightarrow> jsval \<Rightarrow> learned_skill" where
  "registerLearnedSkill clk name cat level pats ints =
     \<lparr>ls_id = ''ls-'' @ show_nat (clk 0),
      ls_name = str_or name ''unnamed-learned-skill'',
      category = str_or cat ''general'',
      proficiencyLevel = opt_or level 0.5,
      patterns = opt_or pats [],
      integrations = js_or ints
        (JArr
           [integration_object
              \<lparr>integration_target = ''motor-control'', integrationType = ''motor'',
               strength = 0.7\<rparr>,
            integration_object
              \<lparr>integration_target = ''processing-service'', integrationType = ''behavioral'',
               strength = 0.5\<rparr>])\<rparr>"

text \<open>\<open>this.sharedParasympatheticState.get('status') || 'active'\<close>.\<close>

definition parasympathetic_status :: "treasury_service \<Rightarrow> jsval" where
  "parasympathetic_status s =
     (case map_of (sharedParasympatheticState s) ''status'' of
        None \<Rightarrow> JStr ''active''
      | Some v \<Rightarrow> (if truthy v then v else JStr ''active''))"

text \<open>
  \<open>getSkillInventory\<close> filters by \<open>minProficiency\<close> when it is not \<open>undefined\<close>; the
  HTTP layer passes a parsed number or \<open>undefined\<close>.
\<close>

definition getSkillInventory ::
  "string option \<Rightarrow> real option \<Rightarrow> treasury_service \<Rightarrow> skill_inventory" where
  "getSkillInventory cat minProficiency s =
     (let memories = map snd (motorMemoryStore s);
          skills = map snd (learnedSkills s);
          filteredSkills1 =
            (case truthy_str cat of
               Some c \<Rightarrow> filter (\<lambda>sk. category sk = c) skills
             | None \<Rightarrow> skills);
          filteredMemories =
            (case minProficiency of
               Some p \<Rightarrow> filter (\<lambda>m. num_ge (proficiency m) (Finite p)) memories
             | None \<Rightarrow> memories);
          filteredSkills =
            (case minProficiency of
               Some p \<Rightarrow> filter (\<lambda>sk. proficiencyLevel sk \<ge> p) filteredSkills1
             | None \<Rightarrow> filteredSkills1);
          recentAccess = slice_last 100 (accessLog s);
          accessStats =
            \<lparr>totalAccesses = length recentAccess,
             successRate = real (length (filter ae_success recentAccess))
                           / real (max (length recentAccess) 1)\<rparr>
      in \<lparr>totalMotorMemories = length memories,
          totalLearnedSkills = length skills,
          filteredMotorMemories = length filteredMemories,
          filteredLearnedSkills = length filteredSkills,
          motorMemories =
            map (\<lambda>m. \<lparr>me_id = mm_id m, me_name = skillName m, me_type = skillType m,
                       me_proficiency = proficiency m, me_accessCount = accessCount m\<rparr>)
              filteredMemories,
          inv_learnedSkills =
            map (\<lambda>sk. \<lparr>sk_id = ls_id sk, sk_name = ls_name sk, sk_category = category sk,
                        sk_proficiency = proficiencyLevel sk\<rparr>)
              filteredSkills,
          accessStatistics = accessStats,
          parasympatheticStatus = parasympathetic_status s\<rparr>)"

subsection \<open>Handlers\<close>

text \<open>
  \<open>handleRetrieveSkill\<close>, \<open>handleUpdateProficiency\<close> and \<open>handleSkillIntegration\<close> may
  raise, before their first write; no statement of the other four handlers raises at the
  declared field types.
\<close>

definition handleStoreMotorMemory ::
  "env \<Rightarrow> treasury_payload service_message \<Rightarrow> treasury_service
   \<Rightarrow> treasury_body response_payload service_message \<times> treasury_service" where
  "handleStoreMotorMemory e message s =
     (let p = payload message;
          memory = storeMotorMemory (\<lambda>k. now e (Suc k)) (tp_skillName p) (tp_skillType p)
                     (tp_pattern p) (tp_proficiency p) (tp_metadata p);
          s' = s\<lparr>motorMemoryStore := AList.update (mm_id memory) memory (motorMemoryStore s)\<rparr>
      in (respond e 4 ''MOTOR_MEMORY_STORED''
            (MotorMemoryStored
               \<lparr>sm_id = mm_id memory, sm_skillName = skillName memory,
                sm_proficiency = proficiency memory, storedAt = createdAt (metadata memory)\<rparr>)
            message s', s'))"

text \<open>The access log records \<open>skillId || skillName || 'search'\<close>.\<close>

definition handleRetrieveSkill ::
  "env \<Rightarrow> treasury_payload service_message \<Rightarrow> treasury_service
   \<Rightarrow> (error + treasury_body response_payload service_message) \<times> treasury_service" where
  "handleRetrieveSkill e message s =
     (let p = payload message
      in case retrieveSkill (\<lambda>k. now e (Suc k)) (tp_skillId p) (tp_skillName p)
                (tp_skillType p) (motorMemoryStore s) of
           Inl err \<Rightarrow> (Inl err, s)
         | Inr (res, store') \<Rightarrow>
             (let s1 = s\<lparr>motorMemoryStore := store'\<rparr>;
                  s2 = s1\<lparr>accessLog := accessLog s1 @
                          [\<lparr>ae_skillId =
                              (case truthy_str (tp_skillId p) of
                                 Some i \<Rightarrow> JStr i
                               | None \<Rightarrow> js_or (tp_skillName p) (JStr ''search'')),
                            ae_timestamp = now e 4,
                            ae_success = (skill res \<noteq> None)\<rparr>]\<rparr>
              in (Inr (respond e 5 ''SKILL_RETRIEVED'' (SkillRetrieved res) message s2), s2)))"

definition handleRegisterLearnedSkill ::
  "env \<Rightarrow> treasury_payload service_message \<Rightarrow> treasury_service
   \<Rightarrow> treasury_body response_payload service_message \<times> treasury_service" where
  "handleRegisterLearnedSkill e message s =
     (let p = payload message;
          sk = registerLearnedSkill (\<lambda>k. now e (Suc k)) (tp_name p) (tp_category p)
                 (tp_proficiencyLevel p) (tp_patterns p) (tp_integrations p);
          s' = s\<lparr>learnedSkills := AList.update (ls_id sk) sk (learnedSkills s)\<rparr>
      in (respond e 2 ''LEARNED_SKILL_REGISTERED'' (LearnedSkillRegistered sk) message s', s'))"

text \<open>
  The number asked for, \<open>newProficiency ?? memory.proficiency\<close> as \<open>Math.min\<close> converts
  it: the conversion raises on the values that do not print and gives \<open>NaN\<close> for a
  value that is no number.
\<close>

definition requested_proficiency :: "jsval \<Rightarrow> number \<Rightarrow> error + number" where
  "requested_proficiency asked current =
     (if nullish asked then Inr current else to_number asked)"

text \<open>
  The memory found is mutated in place: its proficiency becomes
  \<open>Math.max(0, Math.min(1, newProficiency ?? memory.proficiency))\<close>. A \<open>NaN\<close> passes
  through both functions and is stored.
\<close>

definition handleUpdateProficiency ::
  "env \<Rightarrow> treasury_payload service_message \<Rightarrow> treasury_service
   \<Rightarrow> (error + treasury_body response_payload service_message) \<times> treasury_service" where
  "handleUpdateProficiency e message s =
     (let p = payload message;
          skillId = tp_skillId p;
          notFound =
            (Inr (respond e 1 ''PROFICIENCY_UPDATE_ERROR''
                    (ProficiencyUpdateError ''Skill not found'' skillId) message s), s)
      in case skillId of
           None \<Rightarrow> notFound
         | Some key \<Rightarrow>
             (case map_of (motorMemoryStore s) key of
                None \<Rightarrow> notFound
              | Some memory \<Rightarrow>
                  (let old = proficiency memory
                   in case requested_proficiency (tp_newProficiency p) (proficiency memory) of
                        Inl err \<Rightarrow> (Inl err, s)
                      | Inr wanted \<Rightarrow>
                          (let memory' = memory\<lparr>proficiency :=
                                           math_max (Finite 0) (math_min (Finite 1) wanted)\<rparr>;
                               s' = s\<lparr>motorMemoryStore :=
                                       AList.update key memory' (motorMemoryStore s)\<rparr>
                           in (Inr (respond e 1 ''PROFICIENCY_UPDATED''
                                      (ProficiencyUpdated
                                         \<lparr>pu_skillId = key, oldProficiency = old,
                                          newProficiency = proficiency memory',
                                          change = num_sub (proficiency memory') old,
                                          reason = str_or (tp_reason p) ''manual update''\<rparr>)
                                      message s'), s')))))"

definition handleGetSkillInventory ::
  "env \<Rightarrow> treasury_payload service_message \<Rightarrow> treasury_service
   \<Rightarrow> treasury_body response_payload service_message \<times> treasury_service" where
  "handleGetSkillInventory e message s =
     (let p = payload message;
          inventory = getSkillInventory (tp_category p) (tp_minProficiency p) s
      in (respond e 1 ''SKILL_INVENTORY_RETRIEVED'' (SkillInventoryRetrieved inventory)
            message s, s))"

text \<open>
  \<open>`dev-skill-${developmentPlanId}`\<close> prints an absent plan id as \<open>undefined\<close>.
\<close>

definition handleReceiveFromDevelopment ::
  "env \<Rightarrow> treasury_payload service_message \<Rightarrow> treasury_service
   \<Rightarrow> treasury_body response_payload service_message \<times> treasury_service" where
  "handleReceiveFromDevelopment e message s =
     (let p = payload message;
          planId = tp_developmentPlanId p;
          memory =
            storeMotorMemory (\<lambda>k. now e (Suc k))
              (JStr (str_or (Option.bind (tp_completedSkill p) cs_name)
                       (''dev-skill-'' @ opt_or planId ''undefined'')))
              (Some (str_or (Option.bind (tp_completedSkill p) cs_type) ''motor''))
              (tp_pattern p) (tp_proficiency p)
              (Some \<lparr>pm_developmentPlanId = planId, pm_sourceTriad = Some ''somatic'',
                     pm_validatedBy = Some [''development-service''],
                     pm_dependencies = None\<rparr>);
          s1 = s\<lparr>motorMemoryStore := AList.update (mm_id memory) memory (motorMemoryStore s)\<rparr>;
          s2 = s1\<lparr>sharedParasympatheticState :=
                  AList.update ''lastDevelopmentReceived''
                    (JObj [(''timestamp'', JNum (real (now e 4))),
                           (''planId'', (case planId of None \<Rightarrow> JUndefined | Some i \<Rightarrow> JStr i)),
                           (''memoryId'', JStr (mm_id memory))])
                    (sharedParasympatheticState s1)\<rparr>
      in (respond e 5 ''DEVELOPMENT_RECEIVED''
            (DevelopmentReceived
               \<lparr>memoryId = mm_id memory, dr_skillName = skillName memory,
                dr_proficiency = proficiency memory, dr_developmentPlanId = planId,
                parasympatheticSync = ''complete''\<rparr>)
            message s2, s2))"

text \<open>
  \<open>skill.integrations.push(integration)\<close>: \<open>push\<close> exists on an array only, so the call
  raises when the skill was registered with \<open>integrations\<close> of another type.
\<close>

definition handleSkillIntegration ::
  "env \<Rightarrow> treasury_payload service_message \<Rightarrow> treasury_service
   \<Rightarrow> (error + treasury_body response_payload service_message) \<times> treasury_service" where
  "handleSkillIntegration e message s =
     (let p = payload message;
          skillId = tp_skillId p;
          notFound =
            (Inr (respond e 1 ''SKILL_INTEGRATION_ERROR''
                    (SkillIntegrationError ''Skill not found'' skillId) message s), s)
      in case skillId of
           None \<Rightarrow> notFound
         | Some key \<Rightarrow>
             (case map_of (learnedSkills s) key of
                None \<Rightarrow> notFound
              | Some sk \<Rightarrow>
                  (let new_integration =
                         \<lparr>integration_target = str_or (tp_targetService p) ''motor-control'',
                          integrationType = str_or (tp_integrationType p) ''motor'',
                          strength = 0.5\<rparr>
                   in case integrations sk of
                        JArr held \<Rightarrow>
                          (let sk' = sk\<lparr>integrations :=
                                        JArr (held @ [integration_object new_integration])\<rparr>;
                               s' = s\<lparr>learnedSkills :=
                                       AList.update key sk' (learnedSkills s)\<rparr>
                           in (Inr (respond e 1 ''SKILL_INTEGRATED''
                                      (SkillIntegrated
                                         \<lparr>si_skillId = key, si_skillName = ls_name sk',
                                          integration = new_integration,
                                          totalIntegrations = Suc (length held)\<rparr>)
                                      message s'), s'))
                      | _ \<Rightarrow> (Inl (TypeError ''skill.integrations.push is not a function''), s))))"

subsection \<open>Dispatch\<close>

definition process_treasury ::
  "env \<Rightarrow> treasury_payload service_message \<Rightarrow> treasury_service
   \<Rightarrow> (error + treasury_body response_payload service_message option) \<times> treasury_service" where
  "process_treasury e message s0 =
     (let s = log_line ''info'' ''Processing treasury request'' s0;
          ty = msg_type message
      in if ty = ''STORE_MOTOR_MEMORY'' then returned (handleStoreMotorMemory e message s)
         else if ty = ''RETRIEVE_SKILL'' then settled (handleRetrieveSkill e message s)
         else if ty = ''REGISTER_LEARNED_SKILL''
           then returned (handleRegisterLearnedSkill e message s)
         else if ty = ''UPDATE_PROFICIENCY'' then settled (handleUpdateProficiency e message s)
         else if ty = ''GET_SKILL_INVENTORY'' then returned (handleGetSkillInventory e message s)
         else if ty = ''RECEIVE_FROM_DEVELOPMENT''
           then returned (handleReceiveFromDevelopment e message s)
         else if ty = ''INTEGRATE_SKILL'' then settled (handleSkillIntegration e message s)
         else (Inr None, log_line ''warn'' ''Unknown message type'' s))"

definition treasury_types :: "string list" where
  "treasury_types =
     [''STORE_MOTOR_MEMORY'', ''RETRIEVE_SKILL'', ''REGISTER_LEARNED_SKILL'',
      ''UPDATE_PROFICIENCY'', ''GET_SKILL_INVENTORY'', ''RECEIVE_FROM_DEVELOPMENT'',
      ''INTEGRATE_SKILL'']"

subsection \<open>Construction\<close>

text \<open>
  \<open>initializeTreasuryFramework\<close> stores the four default skills, in this order; skill
  \<open>i\<close> reads the clock slots \<open>3 i .. 3 i + 2\<close>. Slot \<open>12\<close> stamps the \<open>initialized\<close>
  entry of the shared state.
\<close>

definition defaultSkills :: "(string \<times> string \<times> real) list" where
  "defaultSkills =
     [(''basic-motor-control'', ''motor'', 0.9),
      (''sensory-motor-coordination'', ''procedural'', 0.8),
      (''adaptive-response'', ''behavioral'', 0.7),
      (''reflex-action'', ''reflexive'', 0.95)]"

definition store_default ::
  "env \<Rightarrow> (string \<times> motor_memory) list \<Rightarrow> nat \<times> string \<times> string \<times> real
   \<Rightarrow> (string \<times> motor_memory) list" where
  "store_default e store isk =
     (case isk of (i, name, stype, prof) \<Rightarrow>
        (let memory = storeMotorMemory (\<lambda>k. now e (3 * i + k)) (JStr name) (Some stype) None
                        (Some prof) None
         in AList.update (mm_id memory) memory store))"

definition initializeTreasuryFramework :: "env \<Rightarrow> treasury_service \<Rightarrow> treasury_service" where
  "initializeTreasuryFramework e s =
     (let s1 = s\<lparr>motorMemoryStore :=
                  foldl (store_default e) (motorMemoryStore s) (enumerate 0 defaultSkills)\<rparr>;
          s2 = s1\<lparr>sharedParasympatheticState :=
                  AList.update ''status'' (JStr ''active'') (sharedParasympatheticState s1)\<rparr>
      in s2\<lparr>sharedParasympatheticState :=
              AList.update ''initialized''
                (JObj [(''timestamp'', JNum (real (now e 12))),
                       (''receivingFrom'', JStr ''development-service''),
                       (''connectedTriads'', JArr [JStr ''somatic'', JStr ''autonomic''])])
                (sharedParasympatheticState s2)\<rparr>)"

definition new_TreasuryService :: "env \<Rightarrow> string \<Rightarrow> treasury_service" where
  "new_TreasuryService e name =
     initializeTreasuryFramework e
       \<lparr>serviceName = name, logs = [], motorMemoryStore = [], learnedSkills = [],
        accessLog = [], sharedParasympatheticState = []\<rparr>"

definition shutdown_treasury :: "treasury_service \<Rightarrow> treasury_service" where
  "shutdown_treasury s0 =
     (let s = log_line ''info'' ''Shutting down Treasury Service'' s0
      in s\<lparr>sharedParasympatheticState :=
             AList.update ''status'' (JStr ''shutting-down'') (sharedParasympatheticState s)\<rparr>)"

text \<open>
  The name of a memory is a string, and a memory whose name contains \<open>basic\<close> is a
  \<open>basic-motor-control\<close> of proficiency \<open>0.9\<close>: what the default skills and the memory
  stored in the retrieval scenario have in common.
\<close>

definition basic_only :: "motor_memory \<Rightarrow> bool" where
  "basic_only m =
     (case skillName m of
        JStr n \<Rightarrow>
          (includes_str (toLowerCase n) ''basic'' \<longrightarrow>
             n = ''basic-motor-control'' \<and> proficiency m = Finite 0.9)
      | _ \<Rightarrow> False)"

definition treasury_no_fields :: treasury_payload where
  "treasury_no_fields =
     \<lparr>tp_skillName = JUndefined, tp_skillType = None, tp_pattern = None, tp_proficiency = None,
      tp_metadata = None, tp_skillId = None, tp_name = None, tp_category = None,
      tp_proficiencyLevel = None, tp_patterns = None, tp_integrations = JUndefined,
      tp_newProficiency = JUndefined, tp_reason = None, tp_minProficiency = None,
      tp_developmentPlanId = None, tp_completedSkill = None, tp_targetService = None,
      tp_integrationType = None\<rparr>"

section \<open>MarketService\<close>

subsection \<open>Entities\<close>

datatype trend_direction = Rising | Falling | Steady

datatype trend_impact = High | Medium | Low

record market_trend =
  trend_name :: string
  direction :: trend_direction
  impact :: trend_impact
  timeframe :: string

text \<open>
  The segment of an analysis is \<open>segment || 'general'\<close> of the payload: a string, or
  an array, the two kinds of value on which \<open>includes\<close> exists.
\<close>

record market_analysis =
  ma_id :: string
  marketSegment :: jsval
  trends :: "market_trend list"
  opportunities :: "string list"
  threats :: "string list"
  ma_recommendations :: "string list"
  ma_timestamp :: nat

datatype interface_status = InterfaceActive | InterfaceInactive | InterfacePending

record interface_metrics =
  requestsHandled :: nat
  averageLatency :: real
  if_successRate :: real
  lastActivity :: nat

record external_interface =
  if_id :: string
  interfaceType :: string
  if_status :: interface_status
  capabilities :: "string list"
  if_metrics :: interface_metrics

record performance_feedback =
  fb_source :: string
  metricType :: string
  fb_value :: real
  fb_trend :: trend
  actionRequired :: bool
  fb_recommendations :: "string list"

text \<open>
  \<open>marketSegments\<close> is keyed by the segment of the analysis. A string key is equal to
  every string of the same characters. An array key is equal to itself only, and the
  array of a request is a new object, parsed from the body of that request.
\<close>

record market_service = base_service +
  marketSegments :: "(jsval \<times> market_analysis) list"
  externalInterfaces :: "(string \<times> external_interface) list"
  feedbackHistory :: "performance_feedback list"
  marketIntelligence :: "(string \<times> jsval) list"

subsection \<open>Requests and responses\<close>

text \<open>
  \<open>metrics\<close> is read as \<open>metrics?.value\<close> and \<open>metrics?.type\<close>, which fill the \<open>number\<close>
  and \<open>string\<close> fields of a \<open>PerformanceFeedback\<close>; \<open>depth\<close>, \<open>factors\<close> and
  \<open>constraints\<close> are never read. \<open>segment\<close> is untyped: \<open>identifyTrends\<close> calls
  \<open>includes\<close> on it, which raises on a value that is neither a string nor an array.
\<close>

record feedback_metrics =
  fm_value :: "real option"
  fm_type :: "string option"

record market_payload =
  mp_segment :: jsval
  mp_depth :: "string option"
  mp_factors :: "string list option"
  mp_interfaceId :: "string option"
  mp_interfaceType :: "string option"
  mp_capabilities :: "string list option"
  mp_metrics :: "feedback_metrics option"
  mp_source :: "string option"
  mp_domain :: "string option"
  mp_timeframe :: "string option"
  mp_targetArea :: "string option"
  mp_constraints :: jsval

record intelligence_summary =
  totalMarketSegments :: nat
  activeTrends :: nat
  feedbackTrend :: string
  interfaceHealth :: real

record market_intelligence =
  mi_domain :: string
  mi_timeframe :: string
  mi_summary :: intelligence_summary
  insights :: "string list"
  actionItems :: "string list"

record expected_impact =
  marketReach :: string
  responseTime :: string
  impact_adaptability :: string

record director_feedback =
  df_type :: string
  df_recommendations :: "string list"

record potential_optimization =
  targetArea :: string
  optimizations :: "string list"
  expectedImpact :: expected_impact
  implementationPriority :: string
  feedbackToProcessingDirector :: director_feedback

datatype market_body =
    MarketAnalyzed market_analysis
  | InterfaceStatusRetrieved "external_interface list" nat nat
  | InterfaceRegistered external_interface
  | FeedbackProcessed performance_feedback nat
  | MarketIntelligenceRetrieved market_intelligence
  | PotentialOptimized potential_optimization

subsection \<open>Market analysis\<close>

text \<open>
  \<open>segment.includes(text)\<close>: a substring test on a string and a membership test on an
  array; the call raises on every other value, which has no \<open>includes\<close>.
\<close>

fun js_includes :: "jsval \<Rightarrow> string \<Rightarrow> error + bool" where
  "js_includes (JStr s) sub = Inr (includes_str s sub)"
| "js_includes (JArr xs) sub = Inr (JStr sub \<in> set xs)"
| "js_includes JUndefined sub = Inl (TypeError ''Cannot read properties of undefined'')"
| "js_includes JNull sub = Inl (TypeError ''Cannot read properties of null'')"
| "js_includes v sub = Inl (TypeError ''segment.includes is not a function'')"

text \<open>
  \<open>segment.includes('cognitive') || segment.includes('ai')\<close>: the second call is made
  only when the first is false.
\<close>

definition identifyTrends :: "jsval \<Rightarrow> error + market_trend list" where
  "identifyTrends segment =
     (let baseTrends =
            [\<lparr>trend_name = ''Digital transformation acceleration'', direction = Rising,
               impact = High, timeframe = ''12-24 months''\<rparr>,
             \<lparr>trend_name = ''AI/ML integration demand'', direction = Rising,
               impact = High, timeframe = ''6-18 months''\<rparr>,
             \<lparr>trend_name = ''Real-time processing requirements'', direction = Rising,
               impact = Medium, timeframe = ''3-12 months''\<rparr>,
             \<lparr>trend_name = ''Legacy system modernization'', direction = Steady,
               impact = Medium, timeframe = ''12-36 months''\<rparr>]
      in and_then (js_includes segment ''cognitive'') (\<lambda>cognitive.
         and_then (if cognitive then Inr True else js_includes segment ''ai'') (\<lambda>specific.
           Inr (if specific
                then baseTrends @
                     [\<lparr>trend_name = ''Neuromorphic computing adoption'', direction = Rising,
                       impact = High, timeframe = ''18-36 months''\<rparr>]
                else baseTrends))))"

definition identifyOpportunities :: "jsval \<Rightarrow> market_trend list \<Rightarrow> string list" where
  "identifyOpportunities segment ts =
     (let risingTrends = filter (\<lambda>t. direction t = Rising \<and> impact t = High) ts
      in map (\<lambda>t. ''Capitalize on '' @ trend_name t @ '' within '' @ timeframe t) risingTrends
         @ [''Expand cognitive processing capabilities'',
            ''Enhance cross-triad integration for market differentiation'',
            ''Develop predictive market intelligence features''])"

definition identifyThreats :: "jsval \<Rightarrow> market_trend list \<Rightarrow> string list" where
  "identifyThreats segment ts =
     [''Increasing competition in cognitive systems space'',
      ''Rapid technology obsolescence risk'',
      ''Integration complexity with external systems'',
      ''Data privacy and compliance requirements'']"

definition generateMarketRecommendations :: "string list \<Rightarrow> string list \<Rightarrow> string list" where
  "generateMarketRecommendations opps thrs =
     [''Prioritize high-impact opportunities in the short term'',
      ''Implement continuous market monitoring'',
      ''Strengthen external interface capabilities'',
      ''Develop threat mitigation strategies'',
      ''Feed insights back to Processing Director for optimization'']"

definition analyzeMarket :: "(nat \<Rightarrow> nat) \<Rightarrow> jsval \<Rightarrow> error + market_analysis" where
  "analyzeMarket clk segment =
     and_then (identifyTrends segment) (\<lambda>ts.
       let opps = identifyOpportunities segment ts;
           thrs = identifyThreats segment ts;
           recs = generateMarketRecommendations opps thrs
       in Inr \<lparr>ma_id = ''ma-'' @ show_nat (clk 0), marketSegment = segment, trends = ts,
               opportunities = opps, threats = thrs, ma_recommendations = recs,
               ma_timestamp = clk 1\<rparr>)"

text \<open>\<open>this.marketSegments.set(segment, analysis)\<close>.\<close>

definition set_segment ::
  "jsval \<Rightarrow> market_analysis \<Rightarrow> (jsval \<times> market_analysis) list
   \<Rightarrow> (jsval \<times> market_analysis) list" where
  "set_segment segment analysis store =
     (case segment of
        JArr xs \<Rightarrow> store @ [(segment, analysis)]
      | _ \<Rightarrow> AList.update segment analysis store)"

subsection \<open>Feedback\<close>

text \<open>
  \<open>processFeedback\<close>: the value is \<open>metrics?.value ?? Math.random()\<close> (\<open>r\<close> is the draw),
  compared with the average of the last ten values recorded for the same source when
  there are at least three. The filter compares the recorded source with the
  \<open>feedbackSource\<close> as given, before its default \<open>unknown\<close> is applied.
\<close>

definition processFeedback ::
  "real \<Rightarrow> feedback_metrics option \<Rightarrow> string option \<Rightarrow> performance_feedback list
   \<Rightarrow> performance_feedback" where
  "processFeedback r mets feedbackSource history =
     (let v = opt_or (Option.bind mets fm_value) r;
          previousValues =
            map fb_value (slice_last 10 (filter (\<lambda>f. Some (fb_source f) = feedbackSource) history));
          tr = (if length previousValues \<ge> 3
                then
                  (let avg = foldl (+) 0 previousValues / real (length previousValues)
                   in if v > avg * 1.05 then Improving
                      else if v < avg * 0.95 then Declining
                      else Stable)
                else Stable);
          recs = (if tr = Declining
                  then [''Review recent changes for potential issues'',
                        ''Consider optimization opportunities'']
                  else if tr = Improving
                  then [''Continue current approach'',
                        ''Document successful patterns for replication'']
                  else [])
      in \<lparr>fb_source = str_or feedbackSource ''unknown'',
          metricType = str_or (Option.bind mets fm_type) ''general'',
          fb_value = v,
          fb_trend = tr,
          actionRequired = (tr = Declining),
          fb_recommendations = recs\<rparr>)"

subsection \<open>Market intelligence\<close>

definition calculateOverallTrend :: "performance_feedback list \<Rightarrow> string" where
  "calculateOverallTrend feedback =
     (if length feedback = 0 then ''insufficient data''
      else
        let improving = length (filter (\<lambda>f. fb_trend f = Improving) feedback);
            declining = length (filter (\<lambda>f. fb_trend f = Declining) feedback)
        in if real improving > real declining * 1.5 then ''positive''
           else if real declining > real improving * 1.5 then ''negative''
           else ''neutral'')"

definition calculateInterfaceHealth :: "market_service \<Rightarrow> real" where
  "calculateInterfaceHealth s =
     (let interfaces = map snd (externalInterfaces s)
      in if length interfaces = 0 then 1.0
         else real (length (filter (\<lambda>i. if_status i = InterfaceActive) interfaces))
              / real (length interfaces))"

text \<open>
  An analysis with more than three threats adds the item
  \<open>`Address threats in ${analysis.marketSegment} segment`\<close>, which prints the segment.
\<close>

definition generateActionItems ::
  "(real \<Rightarrow> string) \<Rightarrow> performance_feedback list \<Rightarrow> market_analysis list
   \<Rightarrow> error + string list" where
  "generateActionItems pr feedback analyses =
     (let decliningFeedback = filter (\<lambda>f. fb_trend f = Declining) feedback;
          items1 = (if real (length decliningFeedback) > real (length feedback) * 0.3
                    then [''Investigate declining performance trends''] else [])
      in and_then
           (map_err (\<lambda>a. if length (threats a) > 3
                          then and_then (to_string pr (marketSegment a)) (\<lambda>printed.
                                 Inr [''Address threats in '' @ printed @ '' segment''])
                          else Inr [])
              analyses)
           (\<lambda>added.
              let items2 = items1 @ concat added
              in Inr (if length items2 = 0
                      then [''Continue monitoring - no immediate actions required'']
                      else items2)))"

definition gatherMarketIntelligence ::
  "(real \<Rightarrow> string) \<Rightarrow> string option \<Rightarrow> string option \<Rightarrow> market_service
   \<Rightarrow> error + market_intelligence" where
  "gatherMarketIntelligence pr domain tf s =
     (let recentFeedback = slice_last 50 (feedbackHistory s);
          marketAnalyses = map snd (marketSegments s)
      in and_then (generateActionItems pr recentFeedback marketAnalyses) (\<lambda>items.
           Inr \<lparr>mi_domain = str_or domain ''all'',
                mi_timeframe = str_or tf ''recent'',
                mi_summary =
                  \<lparr>totalMarketSegments = length marketAnalyses,
                   activeTrends =
                     length (concat (map (\<lambda>a. filter (\<lambda>t. direction t = Rising) (trends a))
                                       marketAnalyses)),
                   feedbackTrend = calculateOverallTrend recentFeedback,
                   interfaceHealth = calculateInterfaceHealth s\<rparr>,
                insights =
                  [''Performance metrics indicate stable system operation'',
                   ''Market opportunities align with current capabilities'',
                   ''External interface utilization is within expected parameters''],
                actionItems = items\<rparr>))"

definition optimizeForPotential :: "string option \<Rightarrow> potential_optimization" where
  "optimizeForPotential area =
     \<lparr>targetArea = str_or area ''general'',
      optimizations =
        [''Enhance market awareness through expanded data collection'',
         ''Improve feedback loop efficiency with Processing Director'',
         ''Strengthen external interface reliability'',
         ''Optimize resource allocation based on market priorities''],
      expectedImpact =
        \<lparr>marketReach = ''+15%'', responseTime = ''-20%'', impact_adaptability = ''+25%''\<rparr>,
      implementationPriority = ''medium'',
      feedbackToProcessingDirector =
        \<lparr>df_type = ''OPTIMIZATION_FEEDBACK'',
         df_recommendations =
           [''Consider adjusting processing priorities based on market trends'',
            ''Enable proactive resource allocation for emerging opportunities'']\<rparr>\<rparr>"

subsection \<open>Handlers\<close>

text \<open>
  \<open>handleMarketAnalysis\<close> and \<open>handleGetIntelligence\<close> may raise, before any write; no
  statement of the other four handlers raises at the declared field types.
\<close>

definition handleMarketAnalysis ::
  "env \<Rightarrow> market_payload service_message \<Rightarrow> market_service
   \<Rightarrow> (error + market_body response_payload service_message) \<times> market_service" where
  "handleMarketAnalysis e message s =
     (let p = payload message
      in case analyzeMarket (\<lambda>k. now e (Suc k)) (js_or (mp_segment p) (JStr ''general'')) of
           Inl err \<Rightarrow> (Inl err, s)
         | Inr analysis \<Rightarrow>
             (let s' = s\<lparr>marketSegments :=
                          set_segment (marketSegment analysis) analysis (marketSegments s)\<rparr>
              in (Inr (respond e 3 ''MARKET_ANALYZED'' (MarketAnalyzed analysis) message s'),
                  s')))"

definition handleInterfaceStatus ::
  "env \<Rightarrow> market_payload service_message \<Rightarrow> market_service
   \<Rightarrow> market_body response_payload service_message \<times> market_service" where
  "handleInterfaceStatus e message s =
     (let interfaces =
            (case truthy_str (mp_interfaceId (payload message)) of
               Some interfaceId \<Rightarrow>
                 (case map_of (externalInterfaces s) interfaceId of
                    Some iface \<Rightarrow> [iface]
                  | None \<Rightarrow> [])
             | None \<Rightarrow> map snd (externalInterfaces s))
      in (respond e 1 ''INTERFACE_STATUS_RETRIEVED''
            (InterfaceStatusRetrieved interfaces
               (length (filter (\<lambda>i. if_status i = InterfaceActive) interfaces))
               (length interfaces))
            message s, s))"

definition handleInterfaceRegistration ::
  "env \<Rightarrow> market_payload service_message \<Rightarrow> market_service
   \<Rightarrow> market_body response_payload service_message \<times> market_service" where
  "handleInterfaceRegistration e message s =
     (let p = payload message;
          newInterface =
            \<lparr>if_id = ''iface-'' @ show_nat (now e 1),
             interfaceType = str_or (mp_interfaceType p) ''generic'',
             if_status = InterfaceActive,
             capabilities = opt_or (mp_capabilities p) [],
             if_metrics = \<lparr>requestsHandled = 0, averageLatency = 0, if_successRate = 1.0,
                           lastActivity = now e 2\<rparr>\<rparr>;
          s' = s\<lparr>externalInterfaces :=
                  AList.update (if_id newInterface) newInterface (externalInterfaces s)\<rparr>
      in (respond e 3 ''INTERFACE_REGISTERED'' (InterfaceRegistered newInterface) message s',
          s'))"

text \<open>
  The feedback is appended to the history; when the history is then longer than
  \<open>1000\<close>, it is replaced by its last \<open>500\<close> records. The response reports the size
  after that.
\<close>

definition handleFeedbackProcessing ::
  "env \<Rightarrow> market_payload service_message \<Rightarrow> market_service
   \<Rightarrow> market_body response_payload service_message \<times> market_service" where
  "handleFeedbackProcessing e message s =
     (let p = payload message;
          feedback = processFeedback (rand e 0) (mp_metrics p) (mp_source p) (feedbackHistory s);
          s1 = s\<lparr>feedbackHistory := feedbackHistory s @ [feedback]\<rparr>;
          s2 = (if length (feedbackHistory s1) > 1000
                then s1\<lparr>feedbackHistory := slice_last 500 (feedbackHistory s1)\<rparr>
                else s1)
      in (respond e 1 ''FEEDBACK_PROCESSED''
            (FeedbackProcessed feedback (length (feedbackHistory s2))) message s2, s2))"

definition handleGetIntelligence ::
  "env \<Rightarrow> market_payload service_message \<Rightarrow> market_service
   \<Rightarrow> (error + market_body response_payload service_message) \<times> market_service" where
  "handleGetIntelligence e message s =
     (let p = payload message
      in case gatherMarketIntelligence (print_number e) (mp_domain p) (mp_timeframe p) s of
           Inl err \<Rightarrow> (Inl err, s)
         | Inr intelligence \<Rightarrow>
             (Inr (respond e 1 ''MARKET_INTELLIGENCE_RETRIEVED''
                     (MarketIntelligenceRetrieved intelligence) message s), s))"

definition handlePotentialOptimization ::
  "env \<Rightarrow> market_payload service_message \<Rightarrow> market_service
   \<Rightarrow> market_body response_payload service_message \<times> market_service" where
  "handlePotentialOptimization e message s =
     (let optimization = optimizeForPotential (mp_targetArea (payload message))
      in (respond e 1 ''POTENTIAL_OPTIMIZED'' (PotentialOptimized optimization) message s, s))"

subsection \<open>Dispatch\<close>

definition process_market ::
  "env \<Rightarrow> market_payload service_message \<Rightarrow> market_service
   \<Rightarrow> (error + market_body response_payload service_message option) \<times> market_service" where
  "process_market e message s0 =
     (let s = log_line ''info'' ''Processing market request'' s0;
          ty = msg_type message
      in if ty = ''ANALYZE_MARKET'' then settled (handleMarketAnalysis e message s)
         else if ty = ''INTERFACE_STATUS'' then returned (handleInterfaceStatus e message s)
         else if ty = ''REGISTER_INTERFACE''
           then returned (handleInterfaceRegistration e message s)
         else if ty = ''PROCESS_FEEDBACK'' then returned (handleFeedbackProcessing e message s)
         else if ty = ''GET_MARKET_INTELLIGENCE'' then settled (handleGetIntelligence e message s)
         else if ty = ''OPTIMIZE_POTENTIAL''
           then returned (handlePotentialOptimization e message s)
         else (Inr None, log_line ''warn'' ''Unknown message type'' s))"

definition market_types :: "string list" where
  "market_types =
     [''ANALYZE_MARKET'', ''INTERFACE_STATUS'', ''REGISTER_INTERFACE'', ''PROCESS_FEEDBACK'',
      ''GET_MARKET_INTELLIGENCE'', ''OPTIMIZE_POTENTIAL'']"


subsection \<open>Construction\<close>

text \<open>
  \<open>initializeMarketFramework\<close> registers three default interfaces, interface \<open>i\<close> under
  the id \<open>default-iface-i\<close> with the clock slot \<open>i\<close>; slot \<open>3\<close> stamps the baseline of
  the market intelligence. The feedback history starts empty.
\<close>

definition defaultInterfaces :: "(string \<times> string list) list" where
  "defaultInterfaces =
     [(''api'', [''REST'', ''GraphQL'']),
      (''webhook'', [''event-driven'', ''real-time'']),
      (''batch'', [''bulk-processing'', ''scheduled''])]"

definition register_default ::
  "env \<Rightarrow> (string \<times> external_interface) list \<Rightarrow> nat \<times> string \<times> string list
   \<Rightarrow> (string \<times> external_interface) list" where
  "register_default e store iface =
     (case iface of (i, ty, caps) \<Rightarrow>
        (let newInterface =
               \<lparr>if_id = ''default-iface-'' @ show_nat i,
                interfaceType = ty,
                if_status = InterfaceActive,
                capabilities = caps,
                if_metrics = \<lparr>requestsHandled = 0, averageLatency = 0, if_successRate = 1.0,
                              lastActivity = now e i\<rparr>\<rparr>
         in AList.update (if_id newInterface) newInterface store))"

definition initializeMarketFramework :: "env \<Rightarrow> market_service \<Rightarrow> market_service" where
  "initializeMarketFramework e s =
     (let s1 = s\<lparr>externalInterfaces :=
                  foldl (register_default e) (externalInterfaces s) (enumerate 0 defaultInterfaces)\<rparr>
      in s1\<lparr>marketIntelligence :=
              AList.update ''baseline''
                (JObj [(''established'', JNum (real (now e 3))), (''version'', JStr ''1.0.0'')])
                (marketIntelligence s1)\<rparr>)"

definition new_MarketService :: "env \<Rightarrow> string \<Rightarrow> market_service" where
  "new_MarketService e name =
     initializeMarketFramework e
       \<lparr>serviceName = name, logs = [], marketSegments = [], externalInterfaces = [],
        feedbackHistory = [], marketIntelligence = []\<rparr>"

definition market_no_fields :: market_payload where
  "market_no_fields =
     \<lparr>mp_segment = JUndefined, mp_depth = None, mp_factors = None, mp_interfaceId = None,
      mp_interfaceType = None, mp_capabilities = None, mp_metrics = None, mp_source = None,
      mp_domain = None, mp_timeframe = None, mp_targetArea = None,
      mp_constraints = JUndefined\<rparr>"

section \<open>Properties of OrganizationService\<close>

subsection \<open>Envelopes, logs and stores\<close>

lemma respond_fields [simp]:
  "body (payload (respond e k ty b m s)) = b"
  "processingTime (payload (respond e k ty b m s)) = elapsed e k"
  "source (payload (respond e k ty b m s)) = serviceName s"
  "msg_type (respond e k ty b m s) = ty"
  "destination (respond e k ty b m s) = msg_source m"
  by (simp_all add: respond_def createMessage_def)

lemma log_line_fields [simp]:
  "serviceName (log_line l t s) = serviceName s"
  "logs (log_line l t s) = logs s @ [(l, t)]"
  by (simp_all add: log_line_def)

lemma log_line_organization [simp]:
  "organizations (log_line l t s) = organizations s"
  "coordinations (log_line l t s) = coordinations s"
  "maintenanceTasks (log_line l t s) = maintenanceTasks s"
  "systemHealth (log_line l t s) = systemHealth s"
  by (simp_all add: log_line_def)

lemma list_all_update:
  "list_all (\<lambda>(k, v). P k v) al \<Longrightarrow> P k v \<Longrightarrow> list_all (\<lambda>(k, v). P k v) (AList.update k v al)"
  by (induction al) auto

lemma list_all_map_of:
  "list_all (\<lambda>(k, v). P k v) al \<Longrightarrow> map_of al k = Some v \<Longrightarrow> P k v"
  by (induction al) (auto split: if_splits)


lemma optimizeOrganization_Some:
  "\<exists>res org'. optimizeOrganization t (Some org) ty = (res, Some org') \<and>
     org_status org' = Active \<and> org_id org' = org_id org \<and>
     efficiency (metrics org') =
       min 1 (efficiency (metrics org) + num_or_zero (imp_efficiency (metricsImprovement res))) \<and>
     coordination (metrics org') =
       min 1 (coordination (metrics org) + num_or_zero (imp_coordination (metricsImprovement res))) \<and>
     responsiveness (metrics org') =
       min 1 (responsiveness (metrics org) + num_or_zero (imp_responsiveness (metricsImprovement res))) \<and>
     stability (metrics org') =
       min 1 (stability (metrics org) + num_or_zero (imp_stability (metricsImprovement res))) \<and>
     0 \<le> num_or_zero (imp_efficiency (metricsImprovement res)) \<and>
     0 \<le> num_or_zero (imp_coordination (metricsImprovement res)) \<and>
     0 \<le> num_or_zero (imp_responsiveness (metricsImprovement res)) \<and>
     0 \<le> num_or_zero (imp_stability (metricsImprovement res))"
  by (simp add: optimizeOrganization_def Let_def split: prod.splits)

lemma optimizeOrganization_None:
  "snd (optimizeOrganization t None ty) = None"
  by (simp add: optimizeOrganization_def Let_def)


lemma handler_organizations [simp]:
  "organizations (snd (handleBackgroundCoordination e m s)) = organizations s"
  "organizations (snd (handleScheduleMaintenance e m s)) = organizations s"
  "organizations (snd (handleExecuteMaintenance e m s)) = organizations s"
  "organizations (snd (handleGetOrganizationStatus e m s)) = organizations s"
  "organizations (snd (handleSyncWithStateManagement e m s)) = organizations s"
  by (simp_all add: handleBackgroundCoordination_def handleScheduleMaintenance_def
      handleExecuteMaintenance_def handleGetOrganizationStatus_def
      handleSyncWithStateManagement_def Let_def split: option.splits prod.splits)

lemma handleCreateOrganization_organizations:
  "organizations (snd (handleCreateOrganization e m s)) =
     (case createOrganization (\<lambda>k. now e (Suc k)) (p_name (payload m)) (p_type (payload m))
             (p_components (payload m)) of
        Inl err \<Rightarrow> organizations s
      | Inr org \<Rightarrow> AList.update (org_id org) org (organizations s))"
  by (simp add: handleCreateOrganization_def Let_def split: sum.splits)

lemma optimizeOrganization_not_None:
  "optimizeOrganization t (Some org) ty \<noteq> (res, None)"
  by (simp add: optimizeOrganization_def Let_def split: prod.splits)

lemma optimizeOrganization_None_eq:
  "optimizeOrganization t None ty = (res, Some org') \<Longrightarrow> False"
  by (simp add: optimizeOrganization_def Let_def)

lemma handleOptimizeOrganization_organizations:
  "organizations (snd (handleOptimizeOrganization e m s)) =
     (case truthy_str (p_organizationId (payload m)) of
        None \<Rightarrow> organizations s
      | Some key \<Rightarrow>
          (case map_of (organizations s) key of
             None \<Rightarrow> organizations s
           | Some org \<Rightarrow>
               AList.update key
                 (the (snd (optimizeOrganization (now e 1) (Some org)
                              (p_optimizationType (payload m)))))
                 (organizations s)))"
  by (auto simp: handleOptimizeOrganization_def Let_def optimizeOrganization_None
      optimizeOrganization_not_None split: option.splits prod.splits
      dest: optimizeOrganization_None_eq)


lemma returned_snd [simp]: "snd (returned rs) = snd rs"
  by (simp add: returned_def split: prod.splits)

lemma returned_fst [simp]: "fst (returned rs) = Inr (Some (fst rs))"
  by (simp add: returned_def split: prod.splits)

lemma settled_snd [simp]: "snd (settled rs) = snd rs"
  by (simp add: settled_def split: prod.splits sum.splits)

lemma settled_Inr [simp]: "settled (Inr r, s) = (Inr (Some r), s)"
  by (simp add: settled_def)

lemma settled_Inl [simp]: "settled (Inl err, s) = (Inl err, s)"
  by (simp add: settled_def)

lemma process_organization_preserves:
  assumes inv: "list_all (\<lambda>(k, org). P k org) (organizations s)"
    and create: "\<And>clk n t c org. createOrganization clk n t c = Inr org \<Longrightarrow> P (org_id org) org"
    and optimize: "\<And>k org t ty. k \<noteq> [] \<Longrightarrow> P k org \<Longrightarrow> P k (the (snd (optimizeOrganization t (Some org) ty)))"
  shows "list_all (\<lambda>(k, org). P k org) (organizations (snd (process_organization e m s)))"
proof -
  have c: "list_all (\<lambda>(k, org). P k org) (organizations (snd (handleCreateOrganization e m s')))"
    if "organizations s' = organizations s" for s'
    using inv that
    by (auto simp: handleCreateOrganization_organizations split: sum.splits
        intro!: list_all_update create)
  have "truthy_str x = Some k \<Longrightarrow> k \<noteq> []" for x k
    by (cases x) (auto split: if_splits)
  then have o: "list_all (\<lambda>(k, org). P k org) (organizations (snd (handleOptimizeOrganization e m s')))"
    if "organizations s' = organizations s" for s'
    using inv that
    by (auto simp: handleOptimizeOrganization_organizations split: option.splits
        intro!: list_all_update optimize dest: list_all_map_of)
  show ?thesis
    using inv c o by (simp add: process_organization_def Let_def)
qed

lemma run_organization_preserves:
  assumes inv: "list_all (\<lambda>(k, org). P k org) (organizations s)"
    and create: "\<And>clk n t c org. createOrganization clk n t c = Inr org \<Longrightarrow> P (org_id org) org"
    and optimize: "\<And>k org t ty. k \<noteq> [] \<Longrightarrow> P k org \<Longrightarrow> P k (the (snd (optimizeOrganization t (Some org) ty)))"
  shows "list_all (\<lambda>(k, org). P k org) (organizations (run_organization calls s))"
  using inv
proof (induction calls arbitrary: s)
  case Nil
  then show ?case by simp
next
  case (Cons c calls)
  have "list_all (\<lambda>(k, org). P k org)
          (organizations (snd (process_organization (fst c) (snd c) s)))"
    by (rule process_organization_preserves [OF Cons.prems create optimize])
  then show ?case using Cons.IH by simp
qed

lemma createOrganization_no_components:
  "\<exists>org. createOrganization clk n t JUndefined = Inr org \<and>
         org_id org = ''org-'' @ show_nat (clk 0)"
  by (simp add: createOrganization_def mapComponents_def js_or_def Let_def)

lemma new_OrganizationService_organizations:
  "\<exists>org. createOrganization (now e) (Some ''autonomic-core'') (Some ''coordination'')
           JUndefined = Inr org \<and>
         organizations (new_OrganizationService e name) = [(org_id org, org)]"
  using createOrganization_no_components
          [of "now e" "Some ''autonomic-core''" "Some ''coordination''"]
  by (auto simp: new_OrganizationService_def initializeOrganizationFramework_def Let_def)

lemma new_OrganizationService_rest [simp]:
  "maintenanceTasks (new_OrganizationService e name) = []"
  "serviceName (new_OrganizationService e name) = name"
  using createOrganization_no_components
          [of "now e" "Some ''autonomic-core''" "Some ''coordination''"]
  by (auto simp: new_OrganizationService_def initializeOrganizationFramework_def Let_def)

lemma createOrganization_fields:
  assumes "createOrganization clk n t c = Inr org"
  shows "org_status org = Active" "org_id org \<noteq> []" "metrics_in_range org"
proof -
  from assms obtain mapped where "mapComponents clk c = Inr mapped"
    by (cases "mapComponents clk c") (simp_all add: createOrganization_def)
  with assms show "org_status org = Active" "org_id org \<noteq> []" "metrics_in_range org"
    by (auto simp: createOrganization_def Let_def metrics_in_range_def)
qed

lemma no_optimizing_run:
  "no_optimizing s \<Longrightarrow> no_optimizing (run_organization calls s)"
  unfolding no_optimizing_def
  apply (rule run_organization_preserves)
    apply assumption
   apply (simp add: createOrganization_fields)
  subgoal for k org t ty
    using optimizeOrganization_Some [of t org ty] by auto
  done

lemma no_optimizing_new: "no_optimizing (new_OrganizationService e name)"
  using new_OrganizationService_organizations [of e name]
  by (auto simp: no_optimizing_def createOrganization_fields)

lemma metrics_in_range_optimize:
  "metrics_in_range org \<Longrightarrow>
   metrics_in_range (the (snd (optimizeOrganization t (Some org) ty)))"
  using optimizeOrganization_Some [of t org ty]
  by (auto simp: metrics_in_range_def)

lemma metrics_in_range_run:
  "list_all (\<lambda>(k, org). metrics_in_range org) (organizations s) \<Longrightarrow>
   list_all (\<lambda>(k, org). metrics_in_range org) (organizations (run_organization calls s))"
  by (rule run_organization_preserves)
    (simp_all add: createOrganization_fields metrics_in_range_optimize)

subsection \<open>Maintenance tasks\<close>

lemma process_organization_execute:
  "msg_type m = ''EXECUTE_MAINTENANCE'' \<Longrightarrow>
   process_organization e m s =
     returned (handleExecuteMaintenance e m (log_line ''info'' ''Processing organization request'' s))"
  by (simp add: process_organization_def Let_def)


lemma process_organization_optimize:
  "msg_type m = ''OPTIMIZE_ORGANIZATION'' \<Longrightarrow>
   process_organization e m s =
     returned (handleOptimizeOrganization e m (log_line ''info'' ''Processing organization request'' s))"
  by (simp add: process_organization_def Let_def)




lemma handleExecuteMaintenance_missing:
  assumes "p_maintenanceId (payload m) \<notin> Some ` fst ` set (maintenanceTasks s)"
  shows "handleExecuteMaintenance e m s =
     (respond e 1 ''MAINTENANCE_EXECUTION_ERROR''
        (MaintenanceExecutionError ''Maintenance task not found'' (p_maintenanceId (payload m)))
        m s, s)"
proof (cases "p_maintenanceId (payload m)")
  case None
  then show ?thesis by (simp add: handleExecuteMaintenance_def Let_def)
next
  case (Some key)
  with assms have "key \<notin> fst ` set (maintenanceTasks s)" by auto
  then have "map_of (maintenanceTasks s) key = None"
    by (simp add: map_of_eq_None_iff)
  with Some show ?thesis by (simp add: handleExecuteMaintenance_def Let_def)
qed


text \<open>
  Claim C4. An \<open>EXECUTE_MAINTENANCE\<close> message whose \<open>maintenanceId\<close> is no key of the
  maintenance store (or is absent) is answered, without an error being raised, by a
  \<open>MAINTENANCE_EXECUTION_ERROR\<close> envelope whose payload holds the error text
  \<open>Maintenance task not found\<close> and the requested id, and the four stores of the service
  are unchanged.
\<close>

theorem execute_unknown_maintenance:
  assumes "msg_type m = ''EXECUTE_MAINTENANCE''"
    and "p_maintenanceId (payload m) \<notin> Some ` fst ` set (maintenanceTasks s)"
  shows "\<exists>resp s'.
      process_organization e m s = (Inr (Some resp), s') \<and>
      msg_type resp = ''MAINTENANCE_EXECUTION_ERROR'' \<and>
      body (payload resp) =
        MaintenanceExecutionError ''Maintenance task not found'' (p_maintenanceId (payload m)) \<and>
      source (payload resp) = serviceName s \<and>
      organizations s' = organizations s \<and>
      coordinations s' = coordinations s \<and>
      maintenanceTasks s' = maintenanceTasks s \<and>
      systemHealth s' = systemHealth s"
proof -
  let ?s = "log_line ''info'' ''Processing organization request'' s"
  have "p_maintenanceId (payload m) \<notin> Some ` fst ` set (maintenanceTasks ?s)"
    using assms(2) by simp
  from handleExecuteMaintenance_missing [OF this, of e]
  show ?thesis
    using assms(1) by (simp add: process_organization_execute returned_def)
qed

subsection \<open>The claims on maintenance and optimization\<close>



text \<open>
  The id \<open>nonexistent-id\<close> on a freshly constructed service, whose maintenance store is
  empty.
\<close>

theorem execute_unknown_maintenance_witness:
  "\<exists>resp s'.
     process_organization (sample_env 2000 0 0)
       (request ''EXECUTE_MAINTENANCE''
          (org_no_fields\<lparr>p_maintenanceId := Some ''nonexistent-id''\<rparr>) ''organization-service'')
       (new_OrganizationService (sample_env 1000 0 0) ''organization-service'')
       = (Inr (Some resp), s') \<and>
     msg_type resp = ''MAINTENANCE_EXECUTION_ERROR'' \<and>
     body (payload resp) =
       MaintenanceExecutionError ''Maintenance task not found'' (Some ''nonexistent-id'') \<and>
     source (payload resp) = ''organization-service'' \<and>
     organizations s' =
       organizations (new_OrganizationService (sample_env 1000 0 0) ''organization-service'') \<and>
     coordinations s' =
       coordinations (new_OrganizationService (sample_env 1000 0 0) ''organization-service'') \<and>
     maintenanceTasks s' = [] \<and>
     systemHealth s' =
       systemHealth (new_OrganizationService (sample_env 1000 0 0) ''organization-service'')"
proof -
  let ?m = "request ''EXECUTE_MAINTENANCE''
          (org_no_fields\<lparr>p_maintenanceId := Some ''nonexistent-id''\<rparr>) ''organization-service''"
  let ?s = "new_OrganizationService (sample_env 1000 0 0) ''organization-service''"
  have t: "msg_type ?m = ''EXECUTE_MAINTENANCE''"
    by (simp add: request_def)
  have tasks: "maintenanceTasks ?s = []"
    by simp
  have name: "serviceName ?s = ''organization-service''"
    by simp
  have k: "p_maintenanceId (payload ?m) \<notin> Some ` fst ` set (maintenanceTasks ?s)"
    by (simp add: tasks)
  have p: "p_maintenanceId (payload ?m) = Some ''nonexistent-id''"
    by (simp add: request_def)
  from execute_unknown_maintenance [OF t k, of "sample_env 2000 0 0"]
  show ?thesis
    unfolding p tasks name .
qed

text \<open>
  Claim C8. In every state reached from the constructor by \<open>process\<close> calls, no
  organization of the store has the status \<open>optimizing\<close>; and an
  \<open>OPTIMIZE_ORGANIZATION\<close> call that names an organization of the store leaves that
  organization in status \<open>active\<close>.
\<close>

theorem optimizing_is_transient:
  "let s = run_organization calls (new_OrganizationService e0 name) in
     list_all (\<lambda>(k, org). org_status org \<noteq> Optimizing) (organizations s) \<and>
     (\<forall>e m k. msg_type m = ''OPTIMIZE_ORGANIZATION'' \<and>
              p_organizationId (payload m) = Some k \<and> k \<in> fst ` set (organizations s) \<longrightarrow>
        (\<exists>org'. map_of (organizations (snd (process_organization e m s))) k = Some org' \<and>
                org_status org' = Active))"
proof -
  let ?s = "run_organization calls (new_OrganizationService e0 name)"
  have inv: "no_optimizing ?s"
    by (rule no_optimizing_run [OF no_optimizing_new])
  then have a: "list_all (\<lambda>(k, org). org_status org \<noteq> Optimizing) (organizations ?s)"
    by (auto simp: no_optimizing_def list_all_iff)
  have b: "\<exists>org'. map_of (organizations (snd (process_organization e m ?s))) k = Some org' \<and>
                org_status org' = Active"
    if t: "msg_type m = ''OPTIMIZE_ORGANIZATION''"
      and id: "p_organizationId (payload m) = Some k"
      and k: "k \<in> fst ` set (organizations ?s)" for e m k
  proof -
    from k obtain org where org: "map_of (organizations ?s) k = Some org"
      by (metis map_of_eq_None_iff not_Some_eq)
    from k inv have "k \<noteq> []"
      by (auto simp: no_optimizing_def list_all_iff)
    then have tr: "truthy_str (p_organizationId (payload m)) = Some k"
      using id by simp
    obtain res org' where o: "optimizeOrganization (now e 1) (Some org)
         (p_optimizationType (payload m)) = (res, Some org')" "org_status org' = Active"
      using optimizeOrganization_Some [of "now e 1" org "p_optimizationType (payload m)"] by blast
    show ?thesis
      using t tr org o
      by (simp add: process_organization_optimize handleOptimizeOrganization_organizations
          update_conv')
  qed
  show ?thesis
    using a b by (simp add: Let_def)
qed

lemma show_nat_1000: "show_nat 1000 = ''1000''"
  by (simp add: show_nat.simps digit_char_def)

lemma sample_organizations:
  "map fst (organizations (new_OrganizationService (sample_env 1000 0 0) name)) = [''org-1000'']"
proof -
  let ?e = "sample_env 1000 0 0"
  from createOrganization_no_components
         [of "now ?e" "Some ''autonomic-core''" "Some ''coordination''"]
  obtain org where org:
    "createOrganization (now ?e) (Some ''autonomic-core'') (Some ''coordination'') JUndefined
       = Inr org"
    "org_id org = ''org-'' @ show_nat (now ?e 0)"
    by - (erule exE, erule conjE)
  have "org_id org = ''org-1000''"
    unfolding org(2) by (simp add: sample_env_def show_nat_1000)
  then show ?thesis
    using org(1)
    by (simp add: new_OrganizationService_def initializeOrganizationFramework_def Let_def)
qed

text \<open>
  The default organization of a freshly constructed service, optimized once.
\<close>

theorem optimizing_is_transient_witness:
  "list_all (\<lambda>(k, org). org_status org \<noteq> Optimizing)
     (organizations (run_organization []
        (new_OrganizationService (sample_env 1000 0 0) ''organization-service''))) \<and>
   (\<exists>org'. map_of (organizations (snd (process_organization (sample_env 2000 0 0)
               (request ''OPTIMIZE_ORGANIZATION''
                  (org_no_fields\<lparr>p_organizationId := Some ''org-1000''\<rparr>)
                  ''organization-service'')
               (run_organization []
                  (new_OrganizationService (sample_env 1000 0 0) ''organization-service'')))))
            ''org-1000'' = Some org' \<and>
          org_status org' = Active)"
proof -
  let ?s = "run_organization []
              (new_OrganizationService (sample_env 1000 0 0) ''organization-service'')"
  let ?m = "request ''OPTIMIZE_ORGANIZATION''
              (org_no_fields\<lparr>p_organizationId := Some ''org-1000''\<rparr>) ''organization-service''"
  note t = optimizing_is_transient [of "[]" "sample_env 1000 0 0" "''organization-service''",
      unfolded Let_def]
  have "fst ` set (organizations ?s) = set [''org-1000'']"
    unfolding set_map [symmetric] by (simp add: sample_organizations)
  then have h: "msg_type ?m = ''OPTIMIZE_ORGANIZATION'' \<and>
           p_organizationId (payload ?m) = Some ''org-1000'' \<and>
           ''org-1000'' \<in> fst ` set (organizations ?s)"
    by (simp add: request_def)
  from t [THEN conjunct1] t [THEN conjunct2, rule_format, OF h, of "sample_env 2000 0 0"]
  show ?thesis by (rule conjI)
qed

lemma optimize_clamped:
  assumes r: "metrics_in_range org"
  shows "\<exists>res org'. optimizeOrganization t (Some org) ty = (res, Some org') \<and>
          efficiency (metrics org') =
            min 1 (max 0 (efficiency (metrics org)
                          + num_or_zero (imp_efficiency (metricsImprovement res)))) \<and>
          coordination (metrics org') =
            min 1 (max 0 (coordination (metrics org)
                          + num_or_zero (imp_coordination (metricsImprovement res)))) \<and>
          responsiveness (metrics org') =
            min 1 (max 0 (responsiveness (metrics org)
                          + num_or_zero (imp_responsiveness (metricsImprovement res)))) \<and>
          stability (metrics org') =
            min 1 (max 0 (stability (metrics org)
                          + num_or_zero (imp_stability (metricsImprovement res)))) \<and>
          metrics_in_range org'"
proof -
  from optimizeOrganization_Some [of t org ty]
  obtain res org' where o:
    "optimizeOrganization t (Some org) ty = (res, Some org') \<and>
     org_status org' = Active \<and> org_id org' = org_id org \<and>
     efficiency (metrics org') =
       min 1 (efficiency (metrics org) + num_or_zero (imp_efficiency (metricsImprovement res))) \<and>
     coordination (metrics org') =
       min 1 (coordination (metrics org) + num_or_zero (imp_coordination (metricsImprovement res))) \<and>
     responsiveness (metrics org') =
       min 1 (responsiveness (metrics org) + num_or_zero (imp_responsiveness (metricsImprovement res))) \<and>
     stability (metrics org') =
       min 1 (stability (metrics org) + num_or_zero (imp_stability (metricsImprovement res))) \<and>
     0 \<le> num_or_zero (imp_efficiency (metricsImprovement res)) \<and>
     0 \<le> num_or_zero (imp_coordination (metricsImprovement res)) \<and>
     0 \<le> num_or_zero (imp_responsiveness (metricsImprovement res)) \<and>
     0 \<le> num_or_zero (imp_stability (metricsImprovement res))"
    by - (erule exE)+
  note run = o [THEN conjunct1]
  note rest = o [THEN conjunct2, THEN conjunct2, THEN conjunct2]
  note oe = rest [THEN conjunct1]
  note oc = rest [THEN conjunct2, THEN conjunct1]
  note orr = rest [THEN conjunct2, THEN conjunct2, THEN conjunct1]
  note os = rest [THEN conjunct2, THEN conjunct2, THEN conjunct2, THEN conjunct1]
  note pos = rest [THEN conjunct2, THEN conjunct2, THEN conjunct2, THEN conjunct2]
  from r have lo: "0 \<le> efficiency (metrics org)" "0 \<le> coordination (metrics org)"
    "0 \<le> responsiveness (metrics org)" "0 \<le> stability (metrics org)"
    by (simp_all add: metrics_in_range_def)
  have e: "efficiency (metrics org') =
            min 1 (max 0 (efficiency (metrics org)
                          + num_or_zero (imp_efficiency (metricsImprovement res))))"
    using oe lo(1) pos by linarith
  have c: "coordination (metrics org') =
            min 1 (max 0 (coordination (metrics org)
                          + num_or_zero (imp_coordination (metricsImprovement res))))"
    using oc lo(2) pos by linarith
  have rs: "responsiveness (metrics org') =
            min 1 (max 0 (responsiveness (metrics org)
                          + num_or_zero (imp_responsiveness (metricsImprovement res))))"
    using orr lo(3) pos by linarith
  have st: "stability (metrics org') =
            min 1 (max 0 (stability (metrics org)
                          + num_or_zero (imp_stability (metricsImprovement res))))"
    using os lo(4) pos by linarith
  have m: "metrics_in_range org'"
    unfolding metrics_in_range_def using oe oc orr os lo pos by linarith
  from run e c rs st m show ?thesis
    by (rule_tac x = res in exI, rule_tac x = org' in exI) (intro conjI, assumption+)
qed

text \<open>
  Claim C9. When the four metrics of every stored organization lie in \<open>[0, 1]\<close>, they
  still do after any sequence of \<open>process\<close> calls, so after any sequence of
  \<open>OPTIMIZE_ORGANIZATION\<close> calls; and on such an organization each adjustment made by
  \<open>optimizeOrganization\<close> is the clamped sum \<open>min(1, max(0, old + improvement))\<close>.
\<close>

theorem metrics_stay_in_range:
  assumes "list_all (\<lambda>(k, org). metrics_in_range org) (organizations s)"
  shows "list_all (\<lambda>(k, org). metrics_in_range org) (organizations (run_organization calls s)) \<and>
    (\<forall>t org ty. metrics_in_range org \<longrightarrow>
       (\<exists>res org'. optimizeOrganization t (Some org) ty = (res, Some org') \<and>
          efficiency (metrics org') =
            min 1 (max 0 (efficiency (metrics org)
                          + num_or_zero (imp_efficiency (metricsImprovement res)))) \<and>
          coordination (metrics org') =
            min 1 (max 0 (coordination (metrics org)
                          + num_or_zero (imp_coordination (metricsImprovement res)))) \<and>
          responsiveness (metrics org') =
            min 1 (max 0 (responsiveness (metrics org)
                          + num_or_zero (imp_responsiveness (metricsImprovement res)))) \<and>
          stability (metrics org') =
            min 1 (max 0 (stability (metrics org)
                          + num_or_zero (imp_stability (metricsImprovement res)))) \<and>
          metrics_in_range org'))"
proof (rule conjI)
  show "list_all (\<lambda>(k, org). metrics_in_range org) (organizations (run_organization calls s))"
    by (rule metrics_in_range_run [OF assms])
next
  show "\<forall>t org ty. metrics_in_range org \<longrightarrow>
       (\<exists>res org'. optimizeOrganization t (Some org) ty = (res, Some org') \<and>
          efficiency (metrics org') =
            min 1 (max 0 (efficiency (metrics org)
                          + num_or_zero (imp_efficiency (metricsImprovement res)))) \<and>
          coordination (metrics org') =
            min 1 (max 0 (coordination (metrics org)
                          + num_or_zero (imp_coordination (metricsImprovement res)))) \<and>
          responsiveness (metrics org') =
            min 1 (max 0 (responsiveness (metrics org)
                          + num_or_zero (imp_responsiveness (metricsImprovement res)))) \<and>
          stability (metrics org') =
            min 1 (max 0 (stability (metrics org)
                          + num_or_zero (imp_stability (metricsImprovement res)))) \<and>
          metrics_in_range org')"
    by (intro allI impI) (rule optimize_clamped)
qed

text \<open>
  Two optimizations of the default organization of a freshly constructed service.
\<close>

theorem metrics_stay_in_range_witness:
  "list_all (\<lambda>(k, org). metrics_in_range org)
     (organizations (run_organization
        [(sample_env 2000 0 0,
          request ''OPTIMIZE_ORGANIZATION''
            (org_no_fields\<lparr>p_organizationId := Some ''org-1000''\<rparr>) ''organization-service''),
         (sample_env 3000 0 0,
          request ''OPTIMIZE_ORGANIZATION''
            (org_no_fields\<lparr>p_organizationId := Some ''org-1000''\<rparr>) ''organization-service'')]
        (new_OrganizationService (sample_env 1000 0 0) ''organization-service'')))"
proof -
  have "list_all (\<lambda>(k, org). metrics_in_range org)
          (organizations (new_OrganizationService (sample_env 1000 0 0) ''organization-service''))"
    using new_OrganizationService_organizations
            [of "sample_env 1000 0 0" "''organization-service''"]
    by (auto simp: createOrganization_fields)
  from metrics_stay_in_range [OF this, THEN conjunct1]
  show ?thesis .
qed

section \<open>Properties of MarketService\<close>

lemma log_line_market [simp]:
  "feedbackHistory (log_line l t s) = feedbackHistory s"
  "marketSegments (log_line l t s) = marketSegments s"
  "externalInterfaces (log_line l t s) = externalInterfaces s"
  by (simp_all add: log_line_def)

lemma slice_last_length [simp]: "length (slice_last n xs) = min n (length xs)"
  by (simp add: slice_last_def)







lemma new_MarketService_feedbackHistory [simp]:
  "feedbackHistory (new_MarketService e name) = []"
  by (simp add: new_MarketService_def initializeMarketFramework_def Let_def)






section \<open>Properties of TreasuryService\<close>

lemma log_line_treasury [simp]:
  "motorMemoryStore (log_line l t s) = motorMemoryStore s"
  "learnedSkills (log_line l t s) = learnedSkills s"
  "accessLog (log_line l t s) = accessLog s"
  "sharedParasympatheticState (log_line l t s) = sharedParasympatheticState s"
  by (simp_all add: log_line_def)

lemma storeMotorMemory_fields:
  "mm_id (storeMotorMemory clk name stype pat prof meta) = ''mm-'' @ show_nat (clk 0)"
  "skillName (storeMotorMemory clk name stype pat prof meta) = js_or name (JStr ''unnamed-skill'')"
  "skillType (storeMotorMemory clk name stype pat prof meta) = str_or stype ''motor''"
  "proficiency (storeMotorMemory clk name stype pat prof meta) = Finite (opt_or prof 0.5)"
  by (simp_all add: storeMotorMemory_def)

lemma process_treasury_store:
  "msg_type m = ''STORE_MOTOR_MEMORY'' \<Longrightarrow>
   process_treasury e m s =
     returned (handleStoreMotorMemory e m (log_line ''info'' ''Processing treasury request'' s))"
  by (simp add: process_treasury_def Let_def)

lemma process_treasury_receive:
  "msg_type m = ''RECEIVE_FROM_DEVELOPMENT'' \<Longrightarrow>
   process_treasury e m s =
     returned (handleReceiveFromDevelopment e m (log_line ''info'' ''Processing treasury request'' s))"
  by (simp add: process_treasury_def Let_def)

lemma process_treasury_retrieve:
  "msg_type m = ''RETRIEVE_SKILL'' \<Longrightarrow>
   process_treasury e m s =
     settled (handleRetrieveSkill e m (log_line ''info'' ''Processing treasury request'' s))"
  by (simp add: process_treasury_def Let_def)

lemma process_treasury_update:
  "msg_type m = ''UPDATE_PROFICIENCY'' \<Longrightarrow>
   process_treasury e m s =
     settled (handleUpdateProficiency e m (log_line ''info'' ''Processing treasury request'' s))"
  by (simp add: process_treasury_def Let_def)

lemma handleStoreMotorMemory_store:
  "motorMemoryStore (snd (handleStoreMotorMemory e m s)) =
     (let memory = storeMotorMemory (\<lambda>k. now e (Suc k)) (tp_skillName (payload m))
                     (tp_skillType (payload m)) (tp_pattern (payload m))
                     (tp_proficiency (payload m)) (tp_metadata (payload m))
      in AList.update (mm_id memory) memory (motorMemoryStore s))"
  by (simp add: handleStoreMotorMemory_def Let_def)

lemma handleReceiveFromDevelopment_store:
  "\<exists>memory.
     map_of (motorMemoryStore (snd (handleReceiveFromDevelopment e m s)))
       (''mm-'' @ show_nat (now e 1)) = Some memory \<and>
     proficiency memory = Finite (opt_or (tp_proficiency (payload m)) 0.5)"
  by (simp add: handleReceiveFromDevelopment_def Let_def storeMotorMemory_fields update_conv')

text \<open>The two functions around the number asked for.\<close>

lemma clamp_number:
  "math_max (Finite 0) (math_min (Finite 1) (Finite x)) = Finite (min 1 (max 0 x))"
  "math_max (Finite 0) (math_min (Finite 1) PosInfinity) = Finite 1"
  "math_max (Finite 0) (math_min (Finite 1) NegInfinity) = Finite 0"
  "math_max (Finite 0) (math_min (Finite 1) NaN) = NaN"
  by (simp_all add: math_max_def math_min_def min_def max_def)

lemma handleUpdateProficiency_found:
  assumes "tp_skillId (payload m) = Some key"
    and "map_of (motorMemoryStore s) key = Some memory"
    and "requested_proficiency (tp_newProficiency (payload m)) (proficiency memory) = Inr wanted"
  shows "\<exists>resp s' memory'.
      handleUpdateProficiency e m s = (Inr resp, s') \<and>
      msg_type resp = ''PROFICIENCY_UPDATED'' \<and>
      map_of (motorMemoryStore s') key = Some memory' \<and>
      proficiency memory' = math_max (Finite 0) (math_min (Finite 1) wanted) \<and>
      skillName memory' = skillName memory"
  using assms by (simp add: handleUpdateProficiency_def Let_def update_conv')

lemma process_treasury_update_found:
  assumes "msg_type m = ''UPDATE_PROFICIENCY''"
    and "tp_skillId (payload m) = Some key"
    and "map_of (motorMemoryStore s) key = Some memory"
    and "requested_proficiency (tp_newProficiency (payload m)) (proficiency memory) = Inr wanted"
  shows "\<exists>resp s' memory'.
      process_treasury e m s = (Inr (Some resp), s') \<and>
      map_of (motorMemoryStore s') key = Some memory' \<and>
      proficiency memory' = math_max (Finite 0) (math_min (Finite 1) wanted)"
proof -
  let ?s = "log_line ''info'' ''Processing treasury request'' s"
  have "map_of (motorMemoryStore ?s) key = Some memory"
    using assms(3) by simp
  from handleUpdateProficiency_found [OF assms(2) this assms(4), of e]
  obtain resp s' memory' where h:
    "handleUpdateProficiency e m ?s = (Inr resp, s') \<and>
      msg_type resp = ''PROFICIENCY_UPDATED'' \<and>
      map_of (motorMemoryStore s') key = Some memory' \<and>
      proficiency memory' = math_max (Finite 0) (math_min (Finite 1) wanted) \<and>
      skillName memory' = skillName memory"
    by - (erule exE)+
  have p: "process_treasury e m s = (Inr (Some resp), s')"
    using assms(1) h by (simp add: process_treasury_update)
  show ?thesis
    using p h
    by (rule_tac x = resp in exI, rule_tac x = s' in exI, rule_tac x = memory' in exI) simp
qed

text \<open>Retrieval by id.\<close>

lemma retrieveSkill_by_id:
  assumes "key \<noteq> []" and "map_of store key = Some memory"
  shows "\<exists>res store' memory'. retrieveSkill clk (Some key) name stype store = Inr (res, store') \<and>
         skill res = Some memory' \<and> confidence res = proficiency memory \<and>
         proficiency memory' = proficiency memory \<and> skillName memory' = skillName memory"
  using assms by (simp add: retrieveSkill_def Let_def)

text \<open>Retrieval by name, in a store whose names are strings.\<close>

lemma search_step_string:
  assumes "skillName (snd entry) = JStr nm" and "n \<noteq> []"
  shows "\<exists>best' alts'. search_step (JStr n) stype (best, alts) entry = Inr (best', alts') \<and>
          (if includes_str (toLowerCase nm) (toLowerCase n)
           then best' = Some entry \<or> (best' = best \<and> best \<noteq> None)
           else best' = best)"
  using assms by (cases best) (simp_all add: search_step_def Let_def)

lemma search_store_best:
  assumes "\<And>entry. entry \<in> set store \<Longrightarrow>
             \<exists>nm. skillName (snd entry) = JStr nm \<and>
                  (includes_str (toLowerCase nm) (toLowerCase n) \<longrightarrow> R (snd entry))"
    and "case best of None \<Rightarrow> True | Some b \<Rightarrow> R (snd b)"
    and "n \<noteq> []"
  shows "\<exists>found alts'. search_store (JStr n) stype (best, alts) store = Inr (found, alts') \<and>
           (case found of
              None \<Rightarrow> best = None \<and>
                (\<forall>entry \<in> set store. \<forall>nm. skillName (snd entry) = JStr nm \<longrightarrow>
                   \<not> includes_str (toLowerCase nm) (toLowerCase n))
            | Some b \<Rightarrow> R (snd b))"
  using assms
proof (induction store arbitrary: best alts)
  case Nil
  then show ?case by (cases best) auto
next
  case (Cons entry store)
  from Cons.prems(1) [of entry] obtain nm where nm: "skillName (snd entry) = JStr nm"
    and r0: "includes_str (toLowerCase nm) (toLowerCase n) \<longrightarrow> R (snd entry)"
    by auto
  from search_step_string [OF nm Cons.prems(3), of stype best alts]
  obtain best' alts' where st: "search_step (JStr n) stype (best, alts) entry = Inr (best', alts')"
    and alt: "if includes_str (toLowerCase nm) (toLowerCase n)
              then best' = Some entry \<or> (best' = best \<and> best \<noteq> None)
              else best' = best"
    by - (erule exE conjE)+
  have r: "case best' of None \<Rightarrow> True | Some b \<Rightarrow> R (snd b)"
    using alt r0 Cons.prems(2) by (auto split: if_splits option.splits)
  have none: "best' = None \<Longrightarrow> best = None \<and> \<not> includes_str (toLowerCase nm) (toLowerCase n)"
    using alt by (auto split: if_splits)
  have "\<exists>found alts''. search_store (JStr n) stype (best', alts') store = Inr (found, alts'') \<and>
           (case found of
              None \<Rightarrow> best' = None \<and>
                (\<forall>entry \<in> set store. \<forall>nm. skillName (snd entry) = JStr nm \<longrightarrow>
                   \<not> includes_str (toLowerCase nm) (toLowerCase n))
            | Some b \<Rightarrow> R (snd b))"
    using Cons.prems by (intro Cons.IH r) simp_all
  then obtain found alts'' where
    ih: "search_store (JStr n) stype (best', alts') store = Inr (found, alts'')"
    and ihc: "case found of
              None \<Rightarrow> best' = None \<and>
                (\<forall>entry \<in> set store. \<forall>nm. skillName (snd entry) = JStr nm \<longrightarrow>
                   \<not> includes_str (toLowerCase nm) (toLowerCase n))
            | Some b \<Rightarrow> R (snd b)"
    by - (erule exE conjE)+
  have run: "search_store (JStr n) stype (best, alts) (entry # store) = Inr (found, alts'')"
    by (simp add: st ih)
  have c: "case found of
              None \<Rightarrow> best = None \<and>
                (\<forall>x \<in> set (entry # store). \<forall>nm. skillName (snd x) = JStr nm \<longrightarrow>
                   \<not> includes_str (toLowerCase nm) (toLowerCase n))
            | Some b \<Rightarrow> R (snd b)"
    using ihc none nm by (auto split: option.splits)
  from run c show ?case
    by (rule_tac x = found in exI, rule_tac x = alts'' in exI) (rule conjI)
qed

lemma retrieveSkill_by_name:
  assumes n: "n \<noteq> []" and sid: "truthy_str sid = None"
    and all: "\<And>entry. entry \<in> set store \<Longrightarrow>
             \<exists>nm. skillName (snd entry) = JStr nm \<and>
                  (includes_str (toLowerCase nm) (toLowerCase n) \<longrightarrow>
                     nm = target \<and> proficiency (snd entry) = pr)"
    and ex: "\<exists>entry \<in> set store. \<exists>nm. skillName (snd entry) = JStr nm \<and>
             includes_str (toLowerCase nm) (toLowerCase n)"
  shows "\<exists>res store' memory. retrieveSkill clk sid (JStr n) stype store = Inr (res, store') \<and>
         skill res = Some memory \<and> skillName memory = JStr target \<and> confidence res = pr"
proof -
  have all': "\<exists>nm. skillName (snd entry) = JStr nm \<and>
                (includes_str (toLowerCase nm) (toLowerCase n) \<longrightarrow>
                   skillName (snd entry) = JStr target \<and> proficiency (snd entry) = pr)"
    if "entry \<in> set store" for entry
    using all [OF that] by auto
  from search_store_best [where R = "\<lambda>m. skillName m = JStr target \<and> proficiency m = pr"
      and best = None and store = store and n = n and stype = stype and alts = "[]",
      OF all' _ n]
  obtain found alts where f: "search_store (JStr n) stype (None, []) store = Inr (found, alts)"
    and c: "case found of
              None \<Rightarrow>
                (\<forall>entry \<in> set store. \<forall>nm. skillName (snd entry) = JStr nm \<longrightarrow>
                   \<not> includes_str (toLowerCase nm) (toLowerCase n))
            | Some b \<Rightarrow> skillName (snd b) = JStr target \<and> proficiency (snd b) = pr"
    by (auto split: option.splits)
  with ex obtain key memory where
    found: "found = Some (key, memory)" "skillName memory = JStr target" "proficiency memory = pr"
    by (cases found) auto
  show ?thesis
    using sid f found by (simp add: retrieveSkill_def Let_def)
qed

lemma handleRetrieveSkill_result:
  assumes "retrieveSkill (\<lambda>k. now e (Suc k)) (tp_skillId (payload m)) (tp_skillName (payload m))
             (tp_skillType (payload m)) (motorMemoryStore s) = Inr (res, store')"
  shows "\<exists>resp s'. handleRetrieveSkill e m s = (Inr resp, s') \<and>
           msg_type resp = ''SKILL_RETRIEVED'' \<and> body (payload resp) = SkillRetrieved res \<and>
           motorMemoryStore s' = store'"
  using assms by (simp add: handleRetrieveSkill_def Let_def)

lemma foldl_store_default:
  assumes "list_all (\<lambda>(k, m). Q m) store"
    and "\<And>i name stype prof. (i, name, stype, prof) \<in> set xs \<Longrightarrow>
           Q (storeMotorMemory (\<lambda>k. now e (3 * i + k)) (JStr name) (Some stype) None
                (Some prof) None)"
  shows "list_all (\<lambda>(k, m). Q m) (foldl (store_default e) store xs)"
  using assms
proof (induction xs arbitrary: store)
  case Nil
  then show ?case by simp
next
  case (Cons x xs)
  obtain i name stype prof where x: "x = (i, name, stype, prof)"
    by (cases x) auto
  have "list_all (\<lambda>(k, m). Q m) (store_default e store x)"
    using Cons.prems(1) Cons.prems(2) [of i name stype prof]
    by (simp add: x store_default_def Let_def list_all_update)
  then show ?case
    using Cons.prems(2) by (simp add: Cons.IH)
qed

lemma lower_basic: "toLowerCase ''basic'' = ''basic''"
  by (simp add: toLowerCase_def lower_char_def)

lemma default_names:
  "includes_str (toLowerCase ''basic-motor-control'') ''basic''"
  "\<not> includes_str (toLowerCase ''sensory-motor-coordination'') ''basic''"
  "\<not> includes_str (toLowerCase ''adaptive-response'') ''basic''"
  "\<not> includes_str (toLowerCase ''reflex-action'') ''basic''"
  by (simp_all add: toLowerCase_def lower_char_def)

lemma new_TreasuryService_basic:
  "list_all (\<lambda>(k, m). basic_only m) (motorMemoryStore (new_TreasuryService e name))"
  unfolding new_TreasuryService_def initializeTreasuryFramework_def Let_def
  apply simp
  apply (rule foldl_store_default)
   apply simp
  apply (auto simp: defaultSkills_def basic_only_def storeMotorMemory_fields default_names
      js_or_def)
  done

lemma truthy_str_simps [simp]:
  "truthy_str (Some (c # cs)) = Some (c # cs)"
  by simp

text \<open>
  Claim C6, as amended. An \<open>UPDATE_PROFICIENCY\<close> message that names a stored skill asks
  for the number that \<open>newProficiency\<close> converts to, or for the skill's own proficiency
  when \<open>newProficiency\<close> is absent. When that number is not \<open>NaN\<close>, the skill is left
  with a proficiency in \<open>[0, 1]\<close>, the number clamped: \<open>min(1, max(0, x))\<close> for a finite
  \<open>x\<close>, so that a \<open>newProficiency\<close> of \<open>5\<close> stores \<open>1\<close> and one of \<open>-3\<close> stores \<open>0\<close>.
  When it is \<open>NaN\<close>, \<open>NaN\<close> is stored.
\<close>

theorem update_proficiency_clamped:
  assumes "msg_type m = ''UPDATE_PROFICIENCY''"
    and "tp_skillId (payload m) = Some key"
    and "map_of (motorMemoryStore s) key = Some memory"
    and "requested_proficiency (tp_newProficiency (payload m)) (proficiency memory) = Inr wanted"
  shows "\<exists>resp s' memory'.
      process_treasury e m s = (Inr (Some resp), s') \<and>
      map_of (motorMemoryStore s') key = Some memory' \<and>
      proficiency memory' =
        (case wanted of
           Finite x \<Rightarrow> Finite (min 1 (max 0 x))
         | PosInfinity \<Rightarrow> Finite 1
         | NegInfinity \<Rightarrow> Finite 0
         | NaN \<Rightarrow> NaN) \<and>
      (wanted \<noteq> NaN \<longrightarrow> in_unit_interval (proficiency memory')) \<and>
      (\<forall>x. tp_newProficiency (payload m) = JNum x \<longrightarrow>
           proficiency memory' = Finite (min 1 (max 0 x))) \<and>
      (tp_newProficiency (payload m) = JNum 5 \<longrightarrow> proficiency memory' = Finite 1) \<and>
      (tp_newProficiency (payload m) = JNum (- 3) \<longrightarrow> proficiency memory' = Finite 0)"
proof -
  from process_treasury_update_found [OF assms, of e]
  obtain resp s' memory' where h:
    "process_treasury e m s = (Inr (Some resp), s')"
    "map_of (motorMemoryStore s') key = Some memory'"
    "proficiency memory' = math_max (Finite 0) (math_min (Finite 1) wanted)"
    by - (erule exE conjE)+
  have a: "proficiency memory' =
        (case wanted of
           Finite x \<Rightarrow> Finite (min 1 (max 0 x))
         | PosInfinity \<Rightarrow> Finite 1
         | NegInfinity \<Rightarrow> Finite 0
         | NaN \<Rightarrow> NaN)"
    unfolding h(3) by (cases wanted) (simp_all add: clamp_number)
  have b: "wanted \<noteq> NaN \<longrightarrow> in_unit_interval (proficiency memory')"
    unfolding a by (cases wanted) simp_all
  have c: "proficiency memory' = Finite (min 1 (max 0 x))"
    if "tp_newProficiency (payload m) = JNum x" for x
  proof -
    from assms(4) that have "wanted = Finite x"
      by (simp add: requested_proficiency_def to_number_def)
    then show ?thesis using a by simp
  qed
  have d: "tp_newProficiency (payload m) = JNum 5 \<longrightarrow> proficiency memory' = Finite 1"
    using c [of 5] by simp
  have f: "tp_newProficiency (payload m) = JNum (- 3) \<longrightarrow> proficiency memory' = Finite 0"
    using c [of "- 3"] by simp
  from c have c': "\<forall>x. tp_newProficiency (payload m) = JNum x \<longrightarrow>
           proficiency memory' = Finite (min 1 (max 0 x))"
    by blast
  from h(1) h(2) a b c' d f show ?thesis
    by (rule_tac x = resp in exI, rule_tac x = s' in exI, rule_tac x = memory' in exI)
      (intro conjI, assumption+)
qed

text \<open>
  Claim C7. On a freshly constructed service, with its default skills and whatever the
  clocks (so whichever of the generated ids coincide), a \<open>STORE_MOTOR_MEMORY\<close> message
  with \<open>skillName = basic-motor-control\<close>, \<open>skillType = motor\<close> and
  \<open>proficiency = 0.9\<close>, followed by a \<open>RETRIEVE_SKILL\<close> message with
  \<open>skillName = basic\<close> and no \<open>skillId\<close>, is answered with a result whose skill is
  named \<open>basic-motor-control\<close> and whose confidence is \<open>0.9\<close>.
\<close>

theorem store_then_retrieve_basic:
  assumes "msg_type m1 = ''STORE_MOTOR_MEMORY''"
    and "tp_skillName (payload m1) = JStr ''basic-motor-control''"
    and "tp_skillType (payload m1) = Some ''motor''"
    and "tp_proficiency (payload m1) = Some 0.9"
    and "msg_type m2 = ''RETRIEVE_SKILL''"
    and "tp_skillName (payload m2) = JStr ''basic''"
    and "tp_skillId (payload m2) = None"
  shows "\<exists>resp1 s1 resp2 s2 res memory.
      process_treasury e1 m1 (new_TreasuryService e0 name) = (Inr (Some resp1), s1) \<and>
      process_treasury e2 m2 s1 = (Inr (Some resp2), s2) \<and>
      body (payload resp2) = SkillRetrieved res \<and>
      skill res = Some memory \<and>
      skillName memory = JStr ''basic-motor-control'' \<and>
      confidence res = Finite 0.9"
proof -
  let ?s0 = "log_line ''info'' ''Processing treasury request'' (new_TreasuryService e0 name)"
  let ?mem = "storeMotorMemory (\<lambda>k. now e1 (Suc k)) (tp_skillName (payload m1))
                     (tp_skillType (payload m1)) (tp_pattern (payload m1))
                     (tp_proficiency (payload m1)) (tp_metadata (payload m1))"
  obtain resp1 s1 where h1: "handleStoreMotorMemory e1 m1 ?s0 = (resp1, s1)"
    by (cases "handleStoreMotorMemory e1 m1 ?s0")
  have p1: "process_treasury e1 m1 (new_TreasuryService e0 name) = (Inr (Some resp1), s1)"
    using assms(1) h1 by (simp add: process_treasury_store returned_def)
  have st1: "motorMemoryStore s1 =
               AList.update (mm_id ?mem) ?mem (motorMemoryStore (new_TreasuryService e0 name))"
    using handleStoreMotorMemory_store [of e1 m1 ?s0] h1 by (simp add: Let_def)
  have mem: "skillName ?mem = JStr ''basic-motor-control''" "proficiency ?mem = Finite 0.9"
    using assms(2) assms(4) by (simp_all add: storeMotorMemory_fields js_or_def)
  have b: "basic_only ?mem"
    using mem by (simp add: basic_only_def)
  have all1: "list_all (\<lambda>(k, m). basic_only m) (motorMemoryStore s1)"
    unfolding st1 by (rule list_all_update [OF new_TreasuryService_basic b])
  have "map_of (motorMemoryStore s1) (mm_id ?mem) = Some ?mem"
    unfolding st1 by (simp add: update_conv')
  then have in1: "(mm_id ?mem, ?mem) \<in> set (motorMemoryStore s1)"
    by (rule map_of_SomeD)
  let ?s1 = "log_line ''info'' ''Processing treasury request'' s1"
  have "\<exists>res store' memory.
          retrieveSkill (\<lambda>k. now e2 (Suc k)) (tp_skillId (payload m2)) (JStr ''basic'')
            (tp_skillType (payload m2)) (motorMemoryStore ?s1) = Inr (res, store') \<and>
          skill res = Some memory \<and> skillName memory = JStr ''basic-motor-control'' \<and>
          confidence res = Finite 0.9"
  proof (rule retrieveSkill_by_name)
    show "''basic'' \<noteq> []" by simp
    show "truthy_str (tp_skillId (payload m2)) = None"
      using assms(7) by simp
    show "\<exists>nm. skillName (snd entry) = JStr nm \<and>
            (includes_str (toLowerCase nm) (toLowerCase ''basic'') \<longrightarrow>
               nm = ''basic-motor-control'' \<and> proficiency (snd entry) = Finite 0.9)"
      if "entry \<in> set (motorMemoryStore ?s1)" for entry
    proof -
      from that all1 have "basic_only (snd entry)"
        by (auto simp: list_all_iff)
      then show ?thesis
        by (cases "skillName (snd entry)") (simp_all add: basic_only_def lower_basic)
    qed
    show "\<exists>entry \<in> set (motorMemoryStore ?s1). \<exists>nm. skillName (snd entry) = JStr nm \<and>
            includes_str (toLowerCase nm) (toLowerCase ''basic'')"
      using in1 mem(1)
      by (auto simp: lower_basic default_names intro!: bexI [of _ "(mm_id ?mem, ?mem)"])
  qed
  then obtain res store' memory where r:
    "retrieveSkill (\<lambda>k. now e2 (Suc k)) (tp_skillId (payload m2)) (tp_skillName (payload m2))
            (tp_skillType (payload m2)) (motorMemoryStore ?s1) = Inr (res, store')"
    "skill res = Some memory" "skillName memory = JStr ''basic-motor-control''"
    "confidence res = Finite 0.9"
    unfolding assms(6) by - (erule exE conjE)+
  from handleRetrieveSkill_result [OF r(1)]
  obtain resp2 s2 where h2:
    "handleRetrieveSkill e2 m2 ?s1 = (Inr resp2, s2) \<and>
           msg_type resp2 = ''SKILL_RETRIEVED'' \<and> body (payload resp2) = SkillRetrieved res \<and>
           motorMemoryStore s2 = store'"
    by - (erule exE)+
  have p2: "process_treasury e2 m2 s1 = (Inr (Some resp2), s2)"
    using assms(5) h2 by (simp add: process_treasury_retrieve)
  show ?thesis
    using p1 p2 h2 r
    by (rule_tac x = resp1 in exI, rule_tac x = s1 in exI, rule_tac x = resp2 in exI,
        rule_tac x = s2 in exI, rule_tac x = res in exI, rule_tac x = memory in exI) simp
qed

lemma store_or_receive:
  assumes "msg_type m = ''STORE_MOTOR_MEMORY'' \<or> msg_type m = ''RECEIVE_FROM_DEVELOPMENT''"
  shows "\<exists>resp s' memory.
      process_treasury e m s = (Inr (Some resp), s') \<and>
      map_of (motorMemoryStore s') (''mm-'' @ show_nat (now e 1)) = Some memory \<and>
      proficiency memory = Finite (opt_or (tp_proficiency (payload m)) 0.5)"
proof -
  let ?s = "log_line ''info'' ''Processing treasury request'' s"
  from assms show ?thesis
  proof
    assume t: "msg_type m = ''STORE_MOTOR_MEMORY''"
    obtain resp s' where h: "handleStoreMotorMemory e m ?s = (resp, s')"
      by (cases "handleStoreMotorMemory e m ?s")
    from handleStoreMotorMemory_store [of e m ?s] h
    have "\<exists>memory. map_of (motorMemoryStore s') (''mm-'' @ show_nat (now e 1)) = Some memory \<and>
            proficiency memory = Finite (opt_or (tp_proficiency (payload m)) 0.5)"
      by (simp add: Let_def storeMotorMemory_fields update_conv')
    then show ?thesis
      using t h by (simp add: process_treasury_store returned_def)
  next
    assume t: "msg_type m = ''RECEIVE_FROM_DEVELOPMENT''"
    obtain resp s' where h: "handleReceiveFromDevelopment e m ?s = (resp, s')"
      by (cases "handleReceiveFromDevelopment e m ?s")
    from handleReceiveFromDevelopment_store [of e m ?s] h
    have "\<exists>memory. map_of (motorMemoryStore s') (''mm-'' @ show_nat (now e 1)) = Some memory \<and>
            proficiency memory = Finite (opt_or (tp_proficiency (payload m)) 0.5)"
      by simp
    then show ?thesis
      using t h by (simp add: process_treasury_receive returned_def)
  qed
qed

text \<open>
  Claim C10. A \<open>STORE_MOTOR_MEMORY\<close> or \<open>RECEIVE_FROM_DEVELOPMENT\<close> message stores a
  memory whose proficiency is the number given, unclamped, or \<open>0.5\<close> when none is
  given; and a \<open>RETRIEVE_SKILL\<close> message for the id of that memory reports that very
  number as its confidence.
\<close>

theorem stored_proficiency_verbatim:
  assumes "msg_type m1 = ''STORE_MOTOR_MEMORY'' \<or> msg_type m1 = ''RECEIVE_FROM_DEVELOPMENT''"
    and "msg_type m2 = ''RETRIEVE_SKILL''"
    and "tp_skillId (payload m2) = Some (''mm-'' @ show_nat (now e1 1))"
  shows "\<exists>resp1 s1 memory resp2 s2 res.
      process_treasury e1 m1 s = (Inr (Some resp1), s1) \<and>
      map_of (motorMemoryStore s1) (''mm-'' @ show_nat (now e1 1)) = Some memory \<and>
      proficiency memory =
        Finite (case tp_proficiency (payload m1) of Some v \<Rightarrow> v | None \<Rightarrow> 0.5) \<and>
      process_treasury e2 m2 s1 = (Inr (Some resp2), s2) \<and>
      body (payload resp2) = SkillRetrieved res \<and>
      confidence res =
        Finite (case tp_proficiency (payload m1) of Some v \<Rightarrow> v | None \<Rightarrow> 0.5)"
proof -
  from store_or_receive [OF assms(1), of e1 s]
  obtain resp1 s1 memory where h1:
    "process_treasury e1 m1 s = (Inr (Some resp1), s1) \<and>
      map_of (motorMemoryStore s1) (''mm-'' @ show_nat (now e1 1)) = Some memory \<and>
      proficiency memory = Finite (opt_or (tp_proficiency (payload m1)) 0.5)"
    by - (erule exE)+
  let ?s1 = "log_line ''info'' ''Processing treasury request'' s1"
  let ?key = "''mm-'' @ show_nat (now e1 1)"
  have k: "?key \<noteq> []" by simp
  have look: "map_of (motorMemoryStore ?s1) ?key = Some memory"
    using h1 by simp
  from retrieveSkill_by_id [OF k look, of "\<lambda>k. now e2 (Suc k)" "tp_skillName (payload m2)"
      "tp_skillType (payload m2)"]
  obtain res store' memory' where r:
    "retrieveSkill (\<lambda>k. now e2 (Suc k)) (Some ?key) (tp_skillName (payload m2))
       (tp_skillType (payload m2)) (motorMemoryStore ?s1) = Inr (res, store') \<and>
     skill res = Some memory' \<and> confidence res = proficiency memory \<and>
     proficiency memory' = proficiency memory \<and> skillName memory' = skillName memory"
    by - (erule exE)+
  then have "retrieveSkill (\<lambda>k. now e2 (Suc k)) (tp_skillId (payload m2))
       (tp_skillName (payload m2)) (tp_skillType (payload m2)) (motorMemoryStore ?s1)
       = Inr (res, store')"
    by (simp add: assms(3))
  from handleRetrieveSkill_result [OF this]
  obtain resp2 s2 where h2:
    "handleRetrieveSkill e2 m2 ?s1 = (Inr resp2, s2) \<and>
           msg_type resp2 = ''SKILL_RETRIEVED'' \<and> body (payload resp2) = SkillRetrieved res \<and>
           motorMemoryStore s2 = store'"
    by - (erule exE)+
  have p2: "process_treasury e2 m2 s1 = (Inr (Some resp2), s2)"
    using assms(2) h2 by (simp add: process_treasury_retrieve)
  have o: "opt_or x d = (case x of Some v \<Rightarrow> v | None \<Rightarrow> d)" for x :: "real option" and d
    by (cases x) simp_all
  show ?thesis
    using h1 p2 h2 r
    by (rule_tac x = resp1 in exI, rule_tac x = s1 in exI, rule_tac x = memory in exI,
        rule_tac x = resp2 in exI, rule_tac x = s2 in exI, rule_tac x = res in exI)
      (auto simp: o split: option.splits)
qed

lemma show_nat_samples:
  "show_nat 1000 = ''1000''" "show_nat 1003 = ''1003''" "show_nat 1006 = ''1006''"
  "show_nat 1009 = ''1009''" "show_nat 2001 = ''2001''"
  by (simp_all add: show_nat.simps digit_char_def)

lemma store_default_keys:
  "map fst (store_default e store (i, name, stype, prof)) =
     (if ''mm-'' @ show_nat (now e (3 * i)) \<in> set (map fst store) then map fst store
      else map fst store @ [''mm-'' @ show_nat (now e (3 * i))])"
  by (simp add: store_default_def Let_def storeMotorMemory_fields update_keys)

lemma new_TreasuryService_keys:
  "map fst (motorMemoryStore (new_TreasuryService e name)) =
     map fst (foldl (store_default e) [] (enumerate 0 defaultSkills))"
  by (simp add: new_TreasuryService_def initializeTreasuryFramework_def Let_def)

lemma sample_treasury_store:
  "map fst (motorMemoryStore (new_TreasuryService (sample_env 1000 0 0) name)) =
     [''mm-1000'', ''mm-1003'', ''mm-1006'', ''mm-1009'']"
proof -
  let ?e = "sample_env 1000 0 0"
  have n: "now ?e (3 * 0) = 1000" "now ?e (3 * Suc 0) = 1003"
    "now ?e (3 * Suc (Suc 0)) = 1006" "now ?e (3 * Suc (Suc (Suc 0))) = 1009"
    by (simp_all add: sample_env_def)
  let ?s1 = "store_default ?e [] (0, ''basic-motor-control'', ''motor'', 0.9)"
  let ?s2 = "store_default ?e ?s1 (Suc 0, ''sensory-motor-coordination'', ''procedural'', 0.8)"
  let ?s3 = "store_default ?e ?s2 (Suc (Suc 0), ''adaptive-response'', ''behavioral'', 0.7)"
  let ?s4 = "store_default ?e ?s3 (Suc (Suc (Suc 0)), ''reflex-action'', ''reflexive'', 0.95)"
  have k1: "map fst ?s1 = [''mm-1000'']"
    unfolding store_default_keys n show_nat_samples by simp
  have k2: "map fst ?s2 = [''mm-1000'', ''mm-1003'']"
    unfolding store_default_keys [of _ ?s1] k1 n show_nat_samples by simp
  have k3: "map fst ?s3 = [''mm-1000'', ''mm-1003'', ''mm-1006'']"
    unfolding store_default_keys [of _ ?s2] k2 n show_nat_samples by simp
  have k4: "map fst ?s4 = [''mm-1000'', ''mm-1003'', ''mm-1006'', ''mm-1009'']"
    unfolding store_default_keys [of _ ?s3] k3 n show_nat_samples by simp
  have "foldl (store_default ?e) [] (enumerate 0 defaultSkills) = ?s4"
    unfolding defaultSkills_def enumerate_simps foldl.simps ..
  then show ?thesis
    unfolding new_TreasuryService_keys using k4 by simp
qed

lemma sample_treasury_basic:
  "\<exists>memory. map_of (motorMemoryStore (new_TreasuryService (sample_env 1000 0 0) name))
      ''mm-1000'' = Some memory"
proof -
  let ?st = "motorMemoryStore (new_TreasuryService (sample_env 1000 0 0) name)"
  have "''mm-1000'' \<in> set (map fst ?st)"
    unfolding sample_treasury_store by simp
  then have "map_of ?st ''mm-1000'' \<noteq> None"
    by (simp add: map_of_eq_None_iff)
  then show ?thesis by auto
qed

text \<open>
  The default skill stored under \<open>mm-1000\<close> by a service constructed at clock 1000,
  updated with the request \<open>5\<close>.
\<close>

theorem update_proficiency_clamped_witness:
  "\<exists>resp s' memory'.
     process_treasury (sample_env 2000 0 0)
       (request ''UPDATE_PROFICIENCY''
          (treasury_no_fields\<lparr>tp_skillId := Some ''mm-1000'', tp_newProficiency := JNum 5\<rparr>)
          ''treasury-service'')
       (new_TreasuryService (sample_env 1000 0 0) ''treasury-service'') = (Inr (Some resp), s') \<and>
     map_of (motorMemoryStore s') ''mm-1000'' = Some memory' \<and>
     proficiency memory' = Finite 1 \<and>
     in_unit_interval (proficiency memory')"
proof -
  let ?m = "request ''UPDATE_PROFICIENCY''
          (treasury_no_fields\<lparr>tp_skillId := Some ''mm-1000'', tp_newProficiency := JNum 5\<rparr>)
          ''treasury-service''"
  let ?s = "new_TreasuryService (sample_env 1000 0 0) ''treasury-service''"
  obtain memory where look: "map_of (motorMemoryStore ?s) ''mm-1000'' = Some memory"
    using sample_treasury_basic [of "''treasury-service''"] by - (erule exE)
  have t: "msg_type ?m = ''UPDATE_PROFICIENCY''"
    and k: "tp_skillId (payload ?m) = Some ''mm-1000''"
    and v: "tp_newProficiency (payload ?m) = JNum 5"
    by (simp_all add: request_def treasury_no_fields_def)
  have w: "requested_proficiency (tp_newProficiency (payload ?m)) (proficiency memory)
             = Inr (Finite 5)"
    unfolding v by (simp add: requested_proficiency_def to_number_def)
  from update_proficiency_clamped [OF t k look w, of "sample_env 2000 0 0"]
  obtain resp s' memory' where h:
    "process_treasury (sample_env 2000 0 0) ?m ?s = (Inr (Some resp), s')"
    "map_of (motorMemoryStore s') ''mm-1000'' = Some memory'"
    "proficiency memory' =
        (case Finite 5 of
           Finite x \<Rightarrow> Finite (min 1 (max 0 x))
         | PosInfinity \<Rightarrow> Finite 1
         | NegInfinity \<Rightarrow> Finite 0
         | NaN \<Rightarrow> NaN)"
    by - (erule exE conjE)+
  from h(3) have one: "proficiency memory' = Finite 1"
    by simp
  then have "in_unit_interval (proficiency memory')"
    by simp
  with h(1) h(2) one show ?thesis
    by (rule_tac x = resp in exI, rule_tac x = s' in exI, rule_tac x = memory' in exI) simp
qed

lemma not_a_number: "to_number (JStr ''high'') = Inr NaN"
  by (simp add: to_number_def string_to_number_def trim_def is_whitespace_def decimal_value_def
      split_at_def digit_of_def Let_def)

text \<open>
  Claim C6 as stated fails: the same default skill, which exists, updated with the
  request \<open>high\<close>, as \<open>POST\<close> with the body \<open>{"skillId": "mm-1000", "newProficiency":
  "high"}\<close> asks for it, is left with the proficiency \<open>NaN\<close>, which is not in \<open>[0, 1]\<close>.
\<close>

theorem update_proficiency_not_a_number_counterexample:
  "''mm-1000'' \<in> set (map fst (motorMemoryStore
      (new_TreasuryService (sample_env 1000 0 0) ''treasury-service''))) \<and>
   map_option proficiency
     (map_of (motorMemoryStore (snd (process_treasury (sample_env 2000 0 0)
        (request ''UPDATE_PROFICIENCY''
           (treasury_no_fields\<lparr>tp_skillId := Some ''mm-1000'',
              tp_newProficiency := JStr ''high''\<rparr>)
           ''treasury-service'')
        (new_TreasuryService (sample_env 1000 0 0) ''treasury-service''))))
      ''mm-1000'') = Some NaN \<and>
   \<not> in_unit_interval NaN"
proof -
  let ?m = "request ''UPDATE_PROFICIENCY''
          (treasury_no_fields\<lparr>tp_skillId := Some ''mm-1000'', tp_newProficiency := JStr ''high''\<rparr>)
          ''treasury-service''"
  let ?s = "new_TreasuryService (sample_env 1000 0 0) ''treasury-service''"
  obtain memory where look: "map_of (motorMemoryStore ?s) ''mm-1000'' = Some memory"
    using sample_treasury_basic [of "''treasury-service''"] by - (erule exE)
  have t: "msg_type ?m = ''UPDATE_PROFICIENCY''"
    and k: "tp_skillId (payload ?m) = Some ''mm-1000''"
    and v: "tp_newProficiency (payload ?m) = JStr ''high''"
    by (simp_all add: request_def treasury_no_fields_def)
  have w: "requested_proficiency (tp_newProficiency (payload ?m)) (proficiency memory) = Inr NaN"
    unfolding v by (simp add: requested_proficiency_def not_a_number)
  from process_treasury_update_found [OF t k look w, of "sample_env 2000 0 0"]
  obtain resp s' memory' where h:
    "process_treasury (sample_env 2000 0 0) ?m ?s = (Inr (Some resp), s')"
    "map_of (motorMemoryStore s') ''mm-1000'' = Some memory'"
    "proficiency memory' = math_max (Finite 0) (math_min (Finite 1) NaN)"
    by - (erule exE conjE)+
  have "map_option proficiency
          (map_of (motorMemoryStore (snd (process_treasury (sample_env 2000 0 0) ?m ?s)))
             ''mm-1000'') = Some NaN"
    by (simp add: h clamp_number)
  moreover have "''mm-1000'' \<in> set (map fst (motorMemoryStore ?s))"
    unfolding sample_treasury_store by simp
  ultimately show ?thesis by simp
qed

text \<open>
  The scenario with the service constructed at clock 1000, the store at 2000 and the
  retrieval at 3000.
\<close>

theorem store_then_retrieve_basic_witness:
  "\<exists>resp1 s1 resp2 s2 res memory.
      process_treasury (sample_env 2000 0 0)
        (request ''STORE_MOTOR_MEMORY''
           (treasury_no_fields\<lparr>tp_skillName := JStr ''basic-motor-control'',
              tp_skillType := Some ''motor'', tp_proficiency := Some 0.9\<rparr>)
           ''treasury-service'')
        (new_TreasuryService (sample_env 1000 0 0) ''treasury-service'')
        = (Inr (Some resp1), s1) \<and>
      process_treasury (sample_env 3000 0 0)
        (request ''RETRIEVE_SKILL'' (treasury_no_fields\<lparr>tp_skillName := JStr ''basic''\<rparr>)
           ''treasury-service'') s1
        = (Inr (Some resp2), s2) \<and>
      body (payload resp2) = SkillRetrieved res \<and>
      skill res = Some memory \<and>
      skillName memory = JStr ''basic-motor-control'' \<and>
      confidence res = Finite 0.9"
  by (rule store_then_retrieve_basic) (simp_all add: request_def treasury_no_fields_def)

text \<open>
  A memory stored with the proficiency \<open>5\<close>: it is stored as \<open>5\<close> and retrieved with
  the confidence \<open>5\<close>, outside \<open>[0, 1]\<close>.
\<close>

theorem stored_proficiency_verbatim_witness:
  "\<exists>resp1 s1 memory resp2 s2 res.
      process_treasury (sample_env 2000 0 0)
        (request ''STORE_MOTOR_MEMORY''
           (treasury_no_fields\<lparr>tp_skillName := JStr ''overdrive'', tp_proficiency := Some 5\<rparr>)
           ''treasury-service'')
        (new_TreasuryService (sample_env 1000 0 0) ''treasury-service'')
        = (Inr (Some resp1), s1) \<and>
      map_of (motorMemoryStore s1) ''mm-2001'' = Some memory \<and>
      proficiency memory = Finite 5 \<and>
      process_treasury (sample_env 3000 0 0)
        (request ''RETRIEVE_SKILL'' (treasury_no_fields\<lparr>tp_skillId := Some ''mm-2001''\<rparr>)
           ''treasury-service'') s1
        = (Inr (Some resp2), s2) \<and>
      body (payload resp2) = SkillRetrieved res \<and>
      confidence res = Finite 5 \<and> \<not> in_unit_interval (confidence res)"
proof -
  let ?m1 = "request ''STORE_MOTOR_MEMORY''
           (treasury_no_fields\<lparr>tp_skillName := JStr ''overdrive'', tp_proficiency := Some 5\<rparr>)
           ''treasury-service''"
  let ?m2 = "request ''RETRIEVE_SKILL'' (treasury_no_fields\<lparr>tp_skillId := Some ''mm-2001''\<rparr>)
           ''treasury-service''"
  have k: "''mm-'' @ show_nat (now (sample_env 2000 0 0) 1) = ''mm-2001''"
    by (simp add: sample_env_def show_nat_samples)
  have a: "msg_type ?m1 = ''STORE_MOTOR_MEMORY'' \<or> msg_type ?m1 = ''RECEIVE_FROM_DEVELOPMENT''"
    and b: "msg_type ?m2 = ''RETRIEVE_SKILL''"
    and c: "tp_skillId (payload ?m2) = Some (''mm-'' @ show_nat (now (sample_env 2000 0 0) 1))"
    and p: "tp_proficiency (payload ?m1) = Some 5"
    unfolding k by (simp_all add: request_def treasury_no_fields_def)
  from stored_proficiency_verbatim [OF a b c,
      of "new_TreasuryService (sample_env 1000 0 0) ''treasury-service''" "sample_env 3000 0 0"]
  obtain resp1 s1 memory resp2 s2 res where h:
    "process_treasury (sample_env 2000 0 0) ?m1
        (new_TreasuryService (sample_env 1000 0 0) ''treasury-service'')
        = (Inr (Some resp1), s1) \<and>
      map_of (motorMemoryStore s1) ''mm-2001'' = Some memory \<and>
      proficiency memory = Finite (case Some 5 of Some v \<Rightarrow> v | None \<Rightarrow> 0.5) \<and>
      process_treasury (sample_env 3000 0 0) ?m2 s1 = (Inr (Some resp2), s2) \<and>
      body (payload resp2) = SkillRetrieved res \<and>
      confidence res = Finite (case Some 5 of Some v \<Rightarrow> v | None \<Rightarrow> 0.5)"
    unfolding k p by - (erule exE)+
  then show ?thesis
    by (rule_tac x = resp1 in exI, rule_tac x = s1 in exI, rule_tac x = memory in exI,
        rule_tac x = resp2 in exI, rule_tac x = s2 in exI, rule_tac x = res in exI) simp
qed

section \<open>The dispatch contract of the four services\<close>

lemma log_line_sales [simp]:
  "qualityThresholds (log_line l t s) = qualityThresholds s"
  "promotionChannels (log_line l t s) = promotionChannels s"
  "assessmentHistory (log_line l t s) = assessmentHistory s"
  by (simp_all add: log_line_def)

text \<open>
  Claim C1 fails on the code. \<open>ASSESS_QUALITY\<close> is one of the five types that
  SalesService recognizes, and a message of that type with an empty payload, as
  \<open>POST /assess\<close> with the body \<open>{}\<close> builds it, is answered with no envelope:
  \<open>evaluateAccuracy\<close> reads \<open>output.data\<close> of the \<open>undefined\<close> output, and the
  \<open>TypeError\<close> rejects the promise that \<open>process\<close> returns. The state is left as it
  was after the \<open>info\<close> line of the request. The same message with the empty object as
  its output, which is what the sibling \<open>evaluateCompleteness\<close> reads in place of an
  absent output (\<open>output || {}\<close>), is answered with an envelope.
\<close>

theorem assess_quality_without_output_raises:
  "''ASSESS_QUALITY'' \<in> set sales_types \<and>
   process_sales (sample_env 2000 0 0)
     (request ''ASSESS_QUALITY'' sales_no_fields ''sales-service'')
     (new_SalesService ''sales-service'') =
   (Inl (TypeError ''Cannot read properties of undefined''),
    log_line ''info'' ''Processing sales request'' (new_SalesService ''sales-service'')) \<and>
   \<not> isl (fst (process_sales (sample_env 2000 0 0)
     (request ''ASSESS_QUALITY'' (sales_no_fields\<lparr>sp_output := JObj []\<rparr>) ''sales-service'')
     (new_SalesService ''sales-service'')))"
proof -
  have a: "''ASSESS_QUALITY'' \<in> set sales_types"
    by (simp add: sales_types_def)
  have b: "process_sales (sample_env 2000 0 0)
     (request ''ASSESS_QUALITY'' sales_no_fields ''sales-service'')
     (new_SalesService ''sales-service'') =
   (Inl (TypeError ''Cannot read properties of undefined''),
    log_line ''info'' ''Processing sales request'' (new_SalesService ''sales-service''))"
    by (simp add: process_sales_def request_def sales_no_fields_def Let_def
        handleQualityAssessment_def assessQuality_def evaluateAccuracy_def)
  have "\<exists>assessment. assessQuality clk rnd (JObj []) = Inr assessment" for clk rnd
    by (simp add: assessQuality_def evaluateAccuracy_def Let_def)
  then obtain assessment where
    "assessQuality (\<lambda>k. now (sample_env 2000 0 0) (Suc k)) (rand (sample_env 2000 0 0)) (JObj [])
       = Inr assessment"
    by blast
  then have c: "\<not> isl (fst (process_sales (sample_env 2000 0 0)
     (request ''ASSESS_QUALITY'' (sales_no_fields\<lparr>sp_output := JObj []\<rparr>) ''sales-service'')
     (new_SalesService ''sales-service'')))"
    by (simp add: process_sales_def request_def sales_no_fields_def Let_def
        handleQualityAssessment_def)
  from a b c show ?thesis by (intro conjI)
qed

text \<open>
  Claim C2. For a message whose type is none of the recognized types, \<open>process\<close> of each
  service returns \<open>null\<close> without raising, and the state it leaves is the state it found
  with two log lines added: the \<open>info\<close> line of the request and the \<open>warn\<close> line
  \<open>Unknown message type\<close>.
\<close>

theorem unknown_type_returns_null:
  "(msg_type mo \<notin> set organization_types \<longrightarrow>
      process_organization e mo so =
        (Inr None, log_line ''warn'' ''Unknown message type''
                     (log_line ''info'' ''Processing organization request'' so))) \<and>
   (msg_type ms \<notin> set sales_types \<longrightarrow>
      process_sales e ms ss =
        (Inr None, log_line ''warn'' ''Unknown message type''
                     (log_line ''info'' ''Processing sales request'' ss))) \<and>
   (msg_type mt \<notin> set treasury_types \<longrightarrow>
      process_treasury e mt st =
        (Inr None, log_line ''warn'' ''Unknown message type''
                     (log_line ''info'' ''Processing treasury request'' st))) \<and>
   (msg_type mm \<notin> set market_types \<longrightarrow>
      process_market e mm sm =
        (Inr None, log_line ''warn'' ''Unknown message type''
                     (log_line ''info'' ''Processing market request'' sm)))"
  by (simp add: process_organization_def organization_types_def process_sales_def
      sales_types_def process_treasury_def treasury_types_def process_market_def
      market_types_def Let_def)

text \<open>
  The type \<open>PING\<close>, which no service recognizes, sent to each freshly constructed
  service: the answer is \<open>null\<close> and the last log line is the warning.
\<close>

theorem unknown_type_returns_null_witness:
  "fst (process_organization (sample_env 2000 0 0)
          (request ''PING'' org_no_fields ''organization-service'')
          (new_OrganizationService (sample_env 1000 0 0) ''organization-service'')) = Inr None \<and>
   last (logs (snd (process_organization (sample_env 2000 0 0)
          (request ''PING'' org_no_fields ''organization-service'')
          (new_OrganizationService (sample_env 1000 0 0) ''organization-service''))))
     = (''warn'', ''Unknown message type'') \<and>
   fst (process_sales (sample_env 2000 0 0)
          (request ''PING'' sales_no_fields ''sales-service'')
          (new_SalesService ''sales-service'')) = Inr None \<and>
   last (logs (snd (process_sales (sample_env 2000 0 0)
          (request ''PING'' sales_no_fields ''sales-service'')
          (new_SalesService ''sales-service''))))
     = (''warn'', ''Unknown message type'') \<and>
   fst (process_treasury (sample_env 2000 0 0)
          (request ''PING'' treasury_no_fields ''treasury-service'')
          (new_TreasuryService (sample_env 1000 0 0) ''treasury-service'')) = Inr None \<and>
   fst (process_market (sample_env 2000 0 0)
          (request ''PING'' market_no_fields ''market-service'')
          (new_MarketService (sample_env 1000 0 0) ''market-service'')) = Inr None"
proof -
  let ?mo = "request ''PING'' org_no_fields ''organization-service''"
  let ?ms = "request ''PING'' sales_no_fields ''sales-service''"
  let ?mt = "request ''PING'' treasury_no_fields ''treasury-service''"
  let ?mm = "request ''PING'' market_no_fields ''market-service''"
  have o: "msg_type ?mo \<notin> set organization_types"
    by (simp add: request_def organization_types_def)
  have s: "msg_type ?ms \<notin> set sales_types"
    by (simp add: request_def sales_types_def)
  have tr: "msg_type ?mt \<notin> set treasury_types"
    by (simp add: request_def treasury_types_def)
  have m: "msg_type ?mm \<notin> set market_types"
    by (simp add: request_def market_types_def)
  note t = unknown_type_returns_null [of ?mo "sample_env 2000 0 0"
      "new_OrganizationService (sample_env 1000 0 0) ''organization-service''"
      ?ms "new_SalesService ''sales-service''"
      ?mt "new_TreasuryService (sample_env 1000 0 0) ''treasury-service''"
      ?mm "new_MarketService (sample_env 1000 0 0) ''market-service''"]
  from t [THEN conjunct1, THEN mp, OF o] t [THEN conjunct2, THEN conjunct1, THEN mp, OF s]
    t [THEN conjunct2, THEN conjunct2, THEN conjunct1, THEN mp, OF tr]
    t [THEN conjunct2, THEN conjunct2, THEN conjunct2, THEN mp, OF m]
  show ?thesis
    by (simp add: log_line_def)
qed

end
